theory Spec2Isabelle
  imports Main "HOL-Library.Word" "HOL-Library.Sublist"
begin

section \<open>Kubernetes objects read by the operator\<close>

text \<open>
  The operator reads pods through \<^verbatim>\<open>k8s.io/api/core/v1\<close>. Only the fields the two
  reconcilers read are kept. The phase, the condition type, status and reason are Go
  string types; the constants below carry the values the library gives them.

  Field names follow the Go structs. Where two structs share a field name the model
  prefixes it: \<open>PodPhase\<close> is \<^verbatim>\<open>pod.Status.Phase\<close>, \<open>ConditionStatus\<close> and
  \<open>ConditionMessage\<close> are \<^verbatim>\<open>cond.Status\<close> and \<^verbatim>\<open>cond.Message\<close>, \<open>WaitingReason\<close> and
  \<open>TerminatedReason\<close> are the \<^verbatim>\<open>Reason\<close> of the waiting and terminated states,
  \<open>ContainerName\<close> is \<^verbatim>\<open>status.Name\<close>. \<open>PodMeta\<close> is the embedded
  \<^verbatim>\<open>metav1.ObjectMeta\<close>, so \<^verbatim>\<open>pod.Name\<close> is \<open>Name (PodMeta pod)\<close> and
  \<^verbatim>\<open>pod.Namespace\<close> is \<open>Namespace (PodMeta pod)\<close>.
\<close>

definition PodPending :: string where
  "PodPending = ''Pending''"

definition PodFailed :: string where
  "PodFailed = ''Failed''"

definition PodScheduled :: string where
  "PodScheduled = ''PodScheduled''"

definition ConditionTrue :: string where
  "ConditionTrue = ''True''"

definition ConditionFalse :: string where
  "ConditionFalse = ''False''"

definition PodReasonUnschedulable :: string where
  "PodReasonUnschedulable = ''Unschedulable''"

record ContainerStateWaiting =
  WaitingReason :: string

record ContainerStateTerminated =
  ExitCode :: "32 word"
  TerminatedReason :: string

text \<open>
  \<^verbatim>\<open>ContainerState\<close> holds one pointer per state; a nil pointer is \<open>None\<close>. The Go type
  lets several pointers be set at once, and so does the record. The \<^verbatim>\<open>Running\<close>
  pointer is never read by the operator and is left out.
\<close>

record ContainerState =
  Waiting :: "ContainerStateWaiting option"
  Terminated :: "ContainerStateTerminated option"

record ContainerStatus =
  ContainerName :: string
  State :: ContainerState

record PodCondition =
  Type :: string
  ConditionStatus :: string
  Reason :: string
  ConditionMessage :: string

record PodStatus =
  PodPhase :: string
  Conditions :: "PodCondition list"
  ContainerStatuses :: "ContainerStatus list"

record OwnerReference =
  OwnerKind :: string
  OwnerName :: string
  Controller :: bool
  BlockOwnerDeletion :: bool

record ObjectMeta =
  Name :: string
  GenerateName :: string
  Namespace :: string
  Labels :: "(string \<times> string) list"
  OwnerReferences :: "OwnerReference list"

record Pod =
  PodMeta :: ObjectMeta
  PodStatus :: PodStatus

section \<open>Failure Detector: classification\<close>

text \<open>
  \<^verbatim>\<open>isPodFailed\<close> (api/v1/poddiagnosis_types.go, lines 179-221). Each \<^verbatim>\<open>for\<close> loop with
  a \<^verbatim>\<open>return true\<close> inside is a recursive function over the slice that answers
  \<open>True\<close> when the loop returns from the function.
\<close>

fun unschedulableLoop :: "PodCondition list \<Rightarrow> bool" where
  "unschedulableLoop [] = False"
| "unschedulableLoop (cond # conds) =
     (if Type cond = PodScheduled \<and> ConditionStatus cond = ConditionFalse
         \<and> Reason cond = PodReasonUnschedulable
      then True
      else unschedulableLoop conds)"

fun waitingLoop :: "ContainerStatus list \<Rightarrow> bool" where
  "waitingLoop [] = False"
| "waitingLoop (status # statuses) =
     (case Waiting (State status) of
        None \<Rightarrow> waitingLoop statuses
      | Some w \<Rightarrow>
          (if WaitingReason w = ''ImagePullBackOff'' \<or> WaitingReason w = ''ErrImagePull''
              \<or> WaitingReason w = ''CrashLoopBackOff''
              \<or> WaitingReason w = ''CreateContainerError''
           then True
           else waitingLoop statuses))"

text \<open>
  The third loop carries the two local variables \<^verbatim>\<open>allTerminated\<close> and
  \<^verbatim>\<open>hasNonZero\<close>; at the end of the slice the function returns their conjunction.
\<close>

fun terminatedLoop :: "ContainerStatus list \<Rightarrow> bool \<Rightarrow> bool \<Rightarrow> bool" where
  "terminatedLoop [] allTerminated hasNonZero = (allTerminated \<and> hasNonZero)"
| "terminatedLoop (status # statuses) allTerminated hasNonZero =
     (case Terminated (State status) of
        None \<Rightarrow>
          (case Waiting (State status) of
             None \<Rightarrow> terminatedLoop statuses False hasNonZero
           | Some w \<Rightarrow>
               (if WaitingReason w = ''CrashLoopBackOff''
                   \<or> WaitingReason w = ''CreateContainerError''
                then True
                else terminatedLoop statuses False hasNonZero))
      | Some t \<Rightarrow>
          (if ExitCode t \<noteq> 0
           then terminatedLoop statuses allTerminated True
           else terminatedLoop statuses allTerminated hasNonZero))"

definition isPodFailed :: "Pod \<Rightarrow> bool" where
  "isPodFailed pod =
     (if PodPhase (PodStatus pod) = PodFailed then True
      else if PodPhase (PodStatus pod) = PodPending
              \<and> unschedulableLoop (Conditions (PodStatus pod)) then True
      else if PodPhase (PodStatus pod) = PodPending
              \<and> waitingLoop (ContainerStatuses (PodStatus pod)) then True
      else terminatedLoop (ContainerStatuses (PodStatus pod)) True False)"

subsection \<open>The documented conditions\<close>

text \<open>
  The three conditions of the design document, written from its words, to be compared
  with \<open>isPodFailed\<close>. A container waits with a reason when its waiting state is set
  and carries that reason; it has terminated when its terminated state is set.
\<close>

definition waitsWith :: "string list \<Rightarrow> ContainerStatus \<Rightarrow> bool" where
  "waitsWith reasons status =
     (case Waiting (State status) of
        None \<Rightarrow> False
      | Some w \<Rightarrow> WaitingReason w \<in> set reasons)"

definition hasTerminated :: "ContainerStatus \<Rightarrow> bool" where
  "hasTerminated status = (Terminated (State status) \<noteq> None)"

definition exitedNonZero :: "ContainerStatus \<Rightarrow> bool" where
  "exitedNonZero status =
     (case Terminated (State status) of None \<Rightarrow> False | Some t \<Rightarrow> ExitCode t \<noteq> 0)"

definition reportsUnschedulable :: "PodCondition \<Rightarrow> bool" where
  "reportsUnschedulable cond =
     (Type cond = PodScheduled \<and> ConditionStatus cond = ConditionFalse
      \<and> Reason cond = PodReasonUnschedulable)"

definition failedPhase :: "Pod \<Rightarrow> bool" where
  "failedPhase pod = (PodPhase (PodStatus pod) = PodFailed)"

definition pendingBlocked :: "Pod \<Rightarrow> bool" where
  "pendingBlocked pod =
     (PodPhase (PodStatus pod) = PodPending
      \<and> (list_ex reportsUnschedulable (Conditions (PodStatus pod))
         \<or> list_ex (waitsWith [''ImagePullBackOff'', ''ErrImagePull'', ''CrashLoopBackOff'',
                                ''CreateContainerError''])
              (ContainerStatuses (PodStatus pod))))"

text \<open>
  Condition 3 as the document words it: all terminated with a non-zero exit code, or
  not all terminated and some waiting container reports one of the two reasons.
\<close>

definition containersFailedDocumented :: "Pod \<Rightarrow> bool" where
  "containersFailedDocumented pod =
     (let statuses = ContainerStatuses (PodStatus pod) in
      (list_all hasTerminated statuses \<and> list_ex exitedNonZero statuses)
      \<or> (\<not> list_all hasTerminated statuses
          \<and> list_ex (waitsWith [''CrashLoopBackOff'', ''CreateContainerError'']) statuses))"

text \<open>
  Condition 3 with the waiting container taken among the containers that have not
  terminated, which is how the loop meets it.
\<close>

definition containersFailed :: "Pod \<Rightarrow> bool" where
  "containersFailed pod =
     (let statuses = ContainerStatuses (PodStatus pod) in
      (list_all hasTerminated statuses \<and> list_ex exitedNonZero statuses)
      \<or> list_ex (\<lambda>status. \<not> hasTerminated status
                   \<and> waitsWith [''CrashLoopBackOff'', ''CreateContainerError''] status)
           statuses)"

text \<open>
  The platform documents that at most one member of a container state is set. The
  operator reads only two of them.
\<close>

definition oneStateEach :: "Pod \<Rightarrow> bool" where
  "oneStateEach pod =
     list_all (\<lambda>status. Waiting (State status) = None \<or> Terminated (State status) = None)
       (ContainerStatuses (PodStatus pod))"

definition allExitedZero :: "Pod \<Rightarrow> bool" where
  "allExitedZero pod =
     list_all (\<lambda>status. hasTerminated status \<and> \<not> exitedNonZero status)
       (ContainerStatuses (PodStatus pod))"

section \<open>Failure Detector: event filter\<close>

text \<open>
  \<^verbatim>\<open>SetupWithManager\<close> (lines 156-177) installs \<^verbatim>\<open>predicate.Funcs\<close> with four
  functions, one per event kind. An event carries \<^verbatim>\<open>client.Object\<close> values; the type
  assertion \<^verbatim>\<open>e.Object.(*corev1.Pod)\<close> succeeds on a pod and fails on anything else.
\<close>

datatype Object = PodObject Pod | OtherObject

datatype Event =
    CreateEvent Object
  | UpdateEvent Object Object
  | DeleteEvent Object
  | GenericEvent Object

fun CreateFunc :: "Object \<Rightarrow> bool" where
  "CreateFunc (PodObject pod) = isPodFailed pod"
| "CreateFunc OtherObject = False"

fun UpdateFunc :: "Object \<Rightarrow> Object \<Rightarrow> bool" where
  "UpdateFunc (PodObject oldPod) (PodObject newPod) =
     (\<not> isPodFailed oldPod \<and> isPodFailed newPod)"
| "UpdateFunc _ _ = False"

definition DeleteFunc :: "Object \<Rightarrow> bool" where
  "DeleteFunc obj = False"

definition GenericFunc :: "Object \<Rightarrow> bool" where
  "GenericFunc obj = False"

fun eventFilter :: "Event \<Rightarrow> bool" where
  "eventFilter (CreateEvent obj) = CreateFunc obj"
| "eventFilter (UpdateEvent objOld objNew) = UpdateFunc objOld objNew"
| "eventFilter (DeleteEvent obj) = DeleteFunc obj"
| "eventFilter (GenericEvent obj) = GenericFunc obj"

section \<open>Formatting\<close>

text \<open>
  \<^verbatim>\<open>fmt\<close>'s \<^verbatim>\<open>%d\<close> writes a signed integer in decimal; \<^verbatim>\<open>%s\<close> and \<^verbatim>\<open>%v\<close> on a
  string or an error write its text. Strings are byte strings, as in Go.
\<close>

definition digitChar :: "nat \<Rightarrow> char" where
  "digitChar d = ''0123456789'' ! d"

fun showNat :: "nat \<Rightarrow> string" where
  "showNat n = (if n < 10 then [digitChar n] else showNat (n div 10) @ [digitChar (n mod 10)])"

declare showNat.simps [simp del]

definition showInt :: "int \<Rightarrow> string" where
  "showInt i = (if i < 0 then CHR ''-'' # showNat (nat (- i)) else showNat (nat i))"

section \<open>Failure Detector: the trigger reason\<close>

text \<open>
  \<^verbatim>\<open>getFailureReason\<close> (lines 222-238). A loop answers \<open>Some text\<close> when it returns
  from the function and \<open>None\<close> when it runs to the end of the slice.
\<close>

fun unschedulableMessageLoop :: "PodCondition list \<Rightarrow> string option" where
  "unschedulableMessageLoop [] = None"
| "unschedulableMessageLoop (cond # conds) =
     (if Type cond = PodReasonUnschedulable \<and> ConditionStatus cond = ConditionTrue
      then Some (''Unschedulable: '' @ ConditionMessage cond)
      else unschedulableMessageLoop conds)"

fun exitedMessageLoop :: "ContainerStatus list \<Rightarrow> string option" where
  "exitedMessageLoop [] = None"
| "exitedMessageLoop (status # statuses) =
     (case Terminated (State status) of
        None \<Rightarrow> exitedMessageLoop statuses
      | Some t \<Rightarrow>
          (if ExitCode t \<noteq> 0
           then Some (''Container '' @ ContainerName status @ '' exited with code ''
                      @ showInt (sint (ExitCode t)) @ '': '' @ TerminatedReason t)
           else exitedMessageLoop statuses))"

definition getFailureReason :: "Pod \<Rightarrow> string" where
  "getFailureReason pod =
     (case (if PodPhase (PodStatus pod) = PodFailed
            then unschedulableMessageLoop (Conditions (PodStatus pod))
            else None) of
        Some text \<Rightarrow> text
      | None \<Rightarrow>
          (case exitedMessageLoop (ContainerStatuses (PodStatus pod)) of
             Some text \<Rightarrow> text
           | None \<Rightarrow> ''unknown failure''))"

section \<open>The diagnosis request\<close>

text \<open>
  \<^verbatim>\<open>PodDiagnosis\<close> with its spec and status (api/v1/poddiagnosis_types.go, lines 8-44).
  \<open>TargetNamespace\<close> is \<^verbatim>\<open>Spec.Namespace\<close>; \<open>Namespace (Meta d)\<close> is the namespace the
  object lives in. \<^verbatim>\<open>TailLines\<close> is an \<^verbatim>\<open>int32\<close>. A \<^verbatim>\<open>metav1.Time\<close> is a clock
  reading; the pointer \<^verbatim>\<open>DiagnosisTime\<close> is an option.
\<close>

type_synonym Time = int

record PodDiagnosisSpec =
  PodName :: string
  TargetNamespace :: string
  TriggerReason :: string
  TailLines :: "32 word"

record PodDiagnosisStatus =
  Phase :: string
  RootCause :: string
  Suggestion :: string
  DiagnosisTime :: "Time option"

record PodDiagnosis =
  Meta :: ObjectMeta
  Spec :: PodDiagnosisSpec
  Status :: PodDiagnosisStatus

definition emptyStatus :: PodDiagnosisStatus where
  "emptyStatus = \<lparr>Phase = [], RootCause = [], Suggestion = [], DiagnosisTime = None\<rparr>"

definition isTerminal :: "PodDiagnosis \<Rightarrow> bool" where
  "isTerminal d = (Phase (Status d) = ''Completed'' \<or> Phase (Status d) = ''Failed'')"

section \<open>JSON as \<^verbatim>\<open>encoding/json\<close> reads it\<close>

text \<open>
  \<^verbatim>\<open>callAIEndpoint\<close> reads JSON twice, through the Go standard library: the response
  body with \<^verbatim>\<open>json.NewDecoder(resp.Body).Decode\<close> and the first choice's content with
  \<^verbatim>\<open>json.Unmarshal\<close>. The library is not part of the repository; this section models
  its documented behaviour: the grammar of RFC 8259 as the library's scanner accepts
  it, one byte at a time with a stack of open arrays and objects, and the decoding of
  a value into the two Go structs the operator uses.
\<close>

datatype json =
    JNull
  | JBool bool
  | JNumber string
  | JString string
  | JArray "json list"
  | JObject "(string \<times> json) list"

definition isSpace :: "char \<Rightarrow> bool" where
  "isSpace c = (c = CHR '' '' \<or> c = CHR 0x09 \<or> c = CHR 0x0D \<or> c = CHR 0x0A)"

definition inRange :: "nat \<Rightarrow> nat \<Rightarrow> char \<Rightarrow> bool" where
  "inRange lo hi c = (lo \<le> of_char c \<and> of_char c \<le> hi)"

definition isDigit :: "char \<Rightarrow> bool" where
  "isDigit c = inRange 0x30 0x39 c"

definition isHexDigit :: "char \<Rightarrow> bool" where
  "isHexDigit c = (isDigit c \<or> inRange 0x61 0x66 c \<or> inRange 0x41 0x46 c)"

definition hexValue :: "char \<Rightarrow> nat" where
  "hexValue c =
     (if isDigit c then of_char c - 0x30
      else if inRange 0x61 0x66 c then of_char c - 0x61 + 10
      else of_char c - 0x41 + 10)"

subsection \<open>String literals\<close>

text \<open>
  The text between the quotes is unquoted as the library does: an escape gives its
  character, \<^verbatim>\<open>\uXXXX\<close> gives the UTF-8 bytes of the code point, a high surrogate
  followed by a low one gives their code point, a surrogate alone gives U+FFFD, and a
  byte that does not start a well-formed UTF-8 sequence gives U+FFFD.
\<close>

definition replacementChar :: string where
  "replacementChar = [CHR 0xEF, CHR 0xBF, CHR 0xBD]"

definition encodeRune :: "nat \<Rightarrow> string" where
  "encodeRune r =
     (if r < 0x80 then [char_of r]
      else if r < 0x800 then [char_of (0xC0 + r div 64), char_of (0x80 + r mod 64)]
      else if r < 0x10000 then
        [char_of (0xE0 + r div 4096), char_of (0x80 + (r div 64) mod 64),
         char_of (0x80 + r mod 64)]
      else
        [char_of (0xF0 + r div 262144), char_of (0x80 + (r div 4096) mod 64),
         char_of (0x80 + (r div 64) mod 64), char_of (0x80 + r mod 64)])"

text \<open>
  The length of the well-formed UTF-8 sequence at the head of a byte string that
  starts with a byte above 0x7F, or 0 when there is none
  (\<^verbatim>\<open>utf8.DecodeRune\<close> answering \<^verbatim>\<open>RuneError\<close> of width 1).
\<close>

definition utf8Width :: "string \<Rightarrow> nat" where
  "utf8Width s =
     (case s of
        b0 # b1 # rest1 \<Rightarrow>
          (if inRange 0xC2 0xDF b0 then (if inRange 0x80 0xBF b1 then 2 else 0)
           else
             (case rest1 of
                b2 # rest2 \<Rightarrow>
                  (if inRange 0xE0 0xEF b0 then
                     (if inRange (if b0 = CHR 0xE0 then 0xA0 else 0x80)
                           (if b0 = CHR 0xED then 0x9F else 0xBF) b1
                         \<and> inRange 0x80 0xBF b2
                      then 3 else 0)
                   else
                     (case rest2 of
                        b3 # rest3 \<Rightarrow>
                          (if inRange 0xF0 0xF4 b0
                              \<and> inRange (if b0 = CHR 0xF0 then 0x90 else 0x80)
                                    (if b0 = CHR 0xF4 then 0x8F else 0xBF) b1
                              \<and> inRange 0x80 0xBF b2 \<and> inRange 0x80 0xBF b3
                           then 4 else 0)
                      | [] \<Rightarrow> 0))
              | [] \<Rightarrow> 0))
      | _ \<Rightarrow> 0)"

definition escapeChar :: "char \<Rightarrow> char" where
  "escapeChar c =
     (if c = CHR ''b'' then CHR 0x08
      else if c = CHR ''f'' then CHR 0x0C
      else if c = CHR ''n'' then CHR 0x0A
      else if c = CHR ''r'' then CHR 0x0D
      else if c = CHR ''t'' then CHR 0x09
      else c)"

text \<open>\<^verbatim>\<open>getu4\<close>: the code unit of a \<^verbatim>\<open>\uXXXX\<close> escape at the head of the text.\<close>

definition getu4 :: "string \<Rightarrow> nat option" where
  "getu4 s =
     (case s of
        e # u # h1 # h2 # h3 # h4 # rest \<Rightarrow>
          (if e = CHR 0x5C \<and> u = CHR ''u'' \<and> isHexDigit h1 \<and> isHexDigit h2
              \<and> isHexDigit h3 \<and> isHexDigit h4
           then Some (((hexValue h1 * 16 + hexValue h2) * 16 + hexValue h3) * 16 + hexValue h4)
           else None)
      | _ \<Rightarrow> None)"

definition isSurrogate :: "nat \<Rightarrow> bool" where
  "isSurrogate r = (0xD800 \<le> r \<and> r < 0xE000)"

definition decodeSurrogates :: "nat \<Rightarrow> nat option \<Rightarrow> nat option" where
  "decodeSurrogates r1 r2 =
     (case r2 of
        None \<Rightarrow> None
      | Some lo \<Rightarrow>
          (if 0xD800 \<le> r1 \<and> r1 < 0xDC00 \<and> 0xDC00 \<le> lo \<and> lo < 0xE000
           then Some ((r1 - 0xD800) * 1024 + (lo - 0xDC00) + 0x10000)
           else None))"

function unquote :: "string \<Rightarrow> string" where
  "unquote s =
     (case s of
        [] \<Rightarrow> []
      | c # cs \<Rightarrow>
          (if c = CHR 0x5C then
             (case cs of
                [] \<Rightarrow> []
              | d # ds \<Rightarrow>
                  (if d = CHR ''u'' then
                     (case getu4 s of
                        None \<Rightarrow> []
                      | Some rr \<Rightarrow>
                          (if isSurrogate rr then
                             (case decodeSurrogates rr (getu4 (drop 6 s)) of
                                Some dec \<Rightarrow> encodeRune dec @ unquote (drop 12 s)
                              | None \<Rightarrow> replacementChar @ unquote (drop 6 s))
                           else encodeRune rr @ unquote (drop 6 s)))
                   else escapeChar d # unquote ds))
           else if of_char c < (0x80 :: nat) then c # unquote cs
           else if utf8Width s = 0 then replacementChar @ unquote cs
           else take (utf8Width s) s @ unquote (drop (utf8Width s) s)))"
  by pat_completeness auto
termination
  by (relation "measure length") auto

declare unquote.simps [simp del]

subsection \<open>The scanner\<close>

text \<open>
  An open array holds the elements read so far; an open object holds the members read
  so far and the key that waits for its value.
\<close>

datatype frame =
    InArray "json list"
  | InObject "(string \<times> json) list" "string option"

datatype numState = NumNeg | Num0 | Num1 | NumDot | NumDot0 | NumE | NumESign | NumE0

datatype scanState =
    BeginValue
  | BeginValueOrEmpty
  | BeginStringOrEmpty
  | BeginString
  | EndValue
  | InString string
  | InStringEsc string
  | InStringEscU nat string
  | InNumber numState string
  | InLiteral string json

text \<open>
  One byte either moves the scanner on, or ends the top-level value (the flag says
  whether the byte belongs to the value), or is a syntax error.
\<close>

datatype scanResult =
    Continue scanState "frame list"
  | EndTop json bool
  | ScanError

definition maxNestingDepth :: nat where
  "maxNestingDepth = 10000"

definition pushFrame :: "frame \<Rightarrow> scanState \<Rightarrow> frame list \<Rightarrow> scanResult" where
  "pushFrame f st stack =
     (if length stack + 1 \<le> maxNestingDepth then Continue st (f # stack) else ScanError)"

fun endValue :: "json \<Rightarrow> frame list \<Rightarrow> scanResult" where
  "endValue v [] = EndTop v True"
| "endValue v (InArray vs # stack) = Continue EndValue (InArray (vs @ [v]) # stack)"
| "endValue v (InObject ms None # stack) =
     (case v of
        JString k \<Rightarrow> Continue EndValue (InObject ms (Some k) # stack)
      | _ \<Rightarrow> ScanError)"
| "endValue v (InObject ms (Some k) # stack) =
     Continue EndValue (InObject (ms @ [(k, v)]) None # stack)"

definition stepBeginValue :: "frame list \<Rightarrow> char \<Rightarrow> scanResult" where
  "stepBeginValue stack c =
     (if isSpace c then Continue BeginValue stack
      else if c = CHR ''{'' then pushFrame (InObject [] None) BeginStringOrEmpty stack
      else if c = CHR ''['' then pushFrame (InArray []) BeginValueOrEmpty stack
      else if c = CHR 0x22 then Continue (InString []) stack
      else if c = CHR ''-'' then Continue (InNumber NumNeg [c]) stack
      else if c = CHR ''0'' then Continue (InNumber Num0 [c]) stack
      else if c = CHR ''t'' then Continue (InLiteral ''rue'' (JBool True)) stack
      else if c = CHR ''f'' then Continue (InLiteral ''alse'' (JBool False)) stack
      else if c = CHR ''n'' then Continue (InLiteral ''ull'' JNull) stack
      else if isDigit c then Continue (InNumber Num1 [c]) stack
      else ScanError)"

definition stepBeginString :: "frame list \<Rightarrow> char \<Rightarrow> scanResult" where
  "stepBeginString stack c =
     (if isSpace c then Continue BeginString stack
      else if c = CHR 0x22 then Continue (InString []) stack
      else ScanError)"

definition stepEndValue :: "frame list \<Rightarrow> char \<Rightarrow> scanResult" where
  "stepEndValue stack c =
     (if isSpace c then Continue EndValue stack
      else
        (case stack of
           [] \<Rightarrow> ScanError
         | InObject ms (Some k) # rest \<Rightarrow>
             (if c = CHR '':'' then Continue BeginValue stack else ScanError)
         | InObject ms None # rest \<Rightarrow>
             (if c = CHR '','' then Continue BeginString stack
              else if c = CHR ''}'' then endValue (JObject ms) rest
              else ScanError)
         | InArray vs # rest \<Rightarrow>
             (if c = CHR '','' then Continue BeginValue stack
              else if c = CHR '']'' then endValue (JArray vs) rest
              else ScanError)))"

text \<open>
  A number ends at the first byte that cannot continue it. That byte is then read in
  the state after a value; at the top level it is left unread.
\<close>

definition endNumber :: "string \<Rightarrow> frame list \<Rightarrow> char \<Rightarrow> scanResult" where
  "endNumber raw stack c =
     (case endValue (JNumber raw) stack of
        EndTop v consumed \<Rightarrow> EndTop v False
      | Continue st stack' \<Rightarrow> stepEndValue stack' c
      | ScanError \<Rightarrow> ScanError)"

definition stepNum0 :: "string \<Rightarrow> frame list \<Rightarrow> char \<Rightarrow> scanResult" where
  "stepNum0 raw stack c =
     (if c = CHR ''.'' then Continue (InNumber NumDot (raw @ [c])) stack
      else if c = CHR ''e'' \<or> c = CHR ''E'' then Continue (InNumber NumE (raw @ [c])) stack
      else endNumber raw stack c)"

definition stepNumESign :: "string \<Rightarrow> frame list \<Rightarrow> char \<Rightarrow> scanResult" where
  "stepNumESign raw stack c =
     (if isDigit c then Continue (InNumber NumE0 (raw @ [c])) stack else ScanError)"

fun stepNumber :: "numState \<Rightarrow> string \<Rightarrow> frame list \<Rightarrow> char \<Rightarrow> scanResult" where
  "stepNumber NumNeg raw stack c =
     (if c = CHR ''0'' then Continue (InNumber Num0 (raw @ [c])) stack
      else if isDigit c then Continue (InNumber Num1 (raw @ [c])) stack
      else ScanError)"
| "stepNumber Num1 raw stack c =
     (if isDigit c then Continue (InNumber Num1 (raw @ [c])) stack
      else stepNum0 raw stack c)"
| "stepNumber Num0 raw stack c = stepNum0 raw stack c"
| "stepNumber NumDot raw stack c =
     (if isDigit c then Continue (InNumber NumDot0 (raw @ [c])) stack else ScanError)"
| "stepNumber NumDot0 raw stack c =
     (if isDigit c then Continue (InNumber NumDot0 (raw @ [c])) stack
      else if c = CHR ''e'' \<or> c = CHR ''E'' then Continue (InNumber NumE (raw @ [c])) stack
      else endNumber raw stack c)"
| "stepNumber NumE raw stack c =
     (if c = CHR ''+'' \<or> c = CHR ''-'' then Continue (InNumber NumESign (raw @ [c])) stack
      else stepNumESign raw stack c)"
| "stepNumber NumESign raw stack c = stepNumESign raw stack c"
| "stepNumber NumE0 raw stack c =
     (if isDigit c then Continue (InNumber NumE0 (raw @ [c])) stack
      else endNumber raw stack c)"

fun scanStep :: "scanState \<Rightarrow> frame list \<Rightarrow> char \<Rightarrow> scanResult" where
  "scanStep BeginValue stack c = stepBeginValue stack c"
| "scanStep BeginValueOrEmpty stack c =
     (if isSpace c then Continue BeginValueOrEmpty stack
      else if c = CHR '']'' then
        (case stack of InArray vs # rest \<Rightarrow> endValue (JArray vs) rest | _ \<Rightarrow> ScanError)
      else stepBeginValue stack c)"
| "scanStep BeginStringOrEmpty stack c =
     (if isSpace c then Continue BeginStringOrEmpty stack
      else if c = CHR ''}'' then
        (case stack of InObject ms key # rest \<Rightarrow> endValue (JObject ms) rest | _ \<Rightarrow> ScanError)
      else stepBeginString stack c)"
| "scanStep BeginString stack c = stepBeginString stack c"
| "scanStep EndValue stack c = stepEndValue stack c"
| "scanStep (InString raw) stack c =
     (if c = CHR 0x22 then endValue (JString (unquote raw)) stack
      else if c = CHR 0x5C then Continue (InStringEsc (raw @ [c])) stack
      else if of_char c < (0x20 :: nat) then ScanError
      else Continue (InString (raw @ [c])) stack)"
| "scanStep (InStringEsc raw) stack c =
     (if c = CHR ''b'' \<or> c = CHR ''f'' \<or> c = CHR ''n'' \<or> c = CHR ''r'' \<or> c = CHR ''t''
         \<or> c = CHR 0x5C \<or> c = CHR ''/'' \<or> c = CHR 0x22
      then Continue (InString (raw @ [c])) stack
      else if c = CHR ''u'' then Continue (InStringEscU 0 (raw @ [c])) stack
      else ScanError)"
| "scanStep (InStringEscU n raw) stack c =
     (if isHexDigit c
      then (if n = 3 then Continue (InString (raw @ [c])) stack
            else Continue (InStringEscU (n + 1) (raw @ [c])) stack)
      else ScanError)"
| "scanStep (InNumber ns raw) stack c = stepNumber ns raw stack c"
| "scanStep (InLiteral expected v) stack c =
     (case expected of
        [] \<Rightarrow> ScanError
      | x # xs \<Rightarrow>
          (if c = x then (if xs = [] then endValue v stack else Continue (InLiteral xs v) stack)
           else ScanError))"

text \<open>
  At the end of the input only a number at the top level can still be a complete
  value; everything else that is still open is an unexpected end of input.
\<close>

fun scanEOF :: "scanState \<Rightarrow> frame list \<Rightarrow> (json \<times> string) option" where
  "scanEOF (InNumber ns raw) [] =
     (if ns = Num0 \<or> ns = Num1 \<or> ns = NumDot0 \<or> ns = NumE0
      then Some (JNumber raw, []) else None)"
| "scanEOF st stack = None"

fun scanRun :: "scanState \<Rightarrow> frame list \<Rightarrow> string \<Rightarrow> (json \<times> string) option" where
  "scanRun st stack [] = scanEOF st stack"
| "scanRun st stack (c # cs) =
     (case scanStep st stack c of
        ScanError \<Rightarrow> None
      | EndTop v consumed \<Rightarrow> Some (v, if consumed then cs else c # cs)
      | Continue st' stack' \<Rightarrow> scanRun st' stack' cs)"

text \<open>The first value of a text and the bytes after it.\<close>

definition scanValue :: "string \<Rightarrow> (json \<times> string) option" where
  "scanValue s = scanRun BeginValue [] s"

text \<open>
  \<^verbatim>\<open>json.Unmarshal\<close> first checks that the whole text is one value, with nothing but
  white space after it.
\<close>

definition checkValid :: "string \<Rightarrow> json option" where
  "checkValid s =
     (case scanValue s of
        None \<Rightarrow> None
      | Some (v, rest) \<Rightarrow> if list_all isSpace rest then Some v else None)"

text \<open>
  \<^verbatim>\<open>Decoder.Decode\<close> reads the first value of the stream and leaves the rest unread,
  whatever it is: the scanner reports the end of a top-level value at the byte after it
  (or at the end of the stream) and the decoder stops there without looking at that
  byte, so a value followed by other text still decodes. An error is a syntax error
  inside the first value, or a stream that ends before the value does.
\<close>

definition readValue :: "string \<Rightarrow> json option" where
  "readValue s = map_option fst (scanValue s)"

subsection \<open>Decoding into Go structs\<close>

text \<open>
  A JSON object decodes into a struct member by member, in the order of the text. A key
  selects the field whose \<^verbatim>\<open>json\<close> tag it equals, or else equals under the library's
  case folding (ASCII letters, and the two letters U+017F and U+212A that fold to
  \<open>S\<close> and \<open>K\<close>); other keys are skipped. \<^verbatim>\<open>null\<close> leaves a string or a struct as
  it is. A value of the wrong kind is an \<^verbatim>\<open>UnmarshalTypeError\<close>, here \<open>None\<close>. A key
  that is absent leaves its field at the value it had.
\<close>

fun foldName :: "string \<Rightarrow> string" where
  "foldName (c1 # c2 # c3 # cs) =
     (if c1 = CHR 0xE2 \<and> c2 = CHR 0x84 \<and> c3 = CHR 0xAA then CHR ''K'' # foldName cs
      else if c1 = CHR 0xC5 \<and> c2 = CHR 0xBF then CHR ''S'' # foldName (c3 # cs)
      else (if inRange 0x61 0x7A c1 then char_of (of_char c1 - (32 :: nat)) else c1)
           # foldName (c2 # c3 # cs))"
| "foldName [c1, c2] =
     (if c1 = CHR 0xC5 \<and> c2 = CHR 0xBF then ''S''
      else (if inRange 0x61 0x7A c1 then char_of (of_char c1 - (32 :: nat)) else c1)
           # foldName [c2])"
| "foldName [c1] = [if inRange 0x61 0x7A c1 then char_of (of_char c1 - (32 :: nat)) else c1]"
| "foldName [] = []"

definition fieldMatches :: "string \<Rightarrow> string \<Rightarrow> bool" where
  "fieldMatches name key = (key = name \<or> foldName key = foldName name)"

fun decodeString :: "json \<Rightarrow> string \<Rightarrow> string option" where
  "decodeString (JString text) old = Some text"
| "decodeString JNull old = Some old"
| "decodeString v old = None"

fun decodeMembers ::
  "(string \<Rightarrow> json \<Rightarrow> 'a \<Rightarrow> 'a option) \<Rightarrow> (string \<times> json) list \<Rightarrow> 'a \<Rightarrow> 'a option" where
  "decodeMembers field [] x = Some x"
| "decodeMembers field ((key, v) # members) x =
     (case field key v x of
        None \<Rightarrow> None
      | Some x' \<Rightarrow> decodeMembers field members x')"

fun decodeStruct :: "(string \<Rightarrow> json \<Rightarrow> 'a \<Rightarrow> 'a option) \<Rightarrow> json \<Rightarrow> 'a \<Rightarrow> 'a option" where
  "decodeStruct field JNull x = Some x"
| "decodeStruct field (JObject members) x = decodeMembers field members x"
| "decodeStruct field v x = None"

text \<open>\<^verbatim>\<open>DiagnosisResult\<close> (internal/controller/poddiagnosis_controller.go, lines 63-66).\<close>

record DiagnosisResult =
  ResultRootCause :: string
  ResultSuggestion :: string

definition resultField :: "string \<Rightarrow> json \<Rightarrow> DiagnosisResult \<Rightarrow> DiagnosisResult option" where
  "resultField key v r =
     (if fieldMatches ''rootCause'' key
      then map_option (\<lambda>text. r\<lparr>ResultRootCause := text\<rparr>) (decodeString v (ResultRootCause r))
      else if fieldMatches ''suggestion'' key
      then map_option (\<lambda>text. r\<lparr>ResultSuggestion := text\<rparr>) (decodeString v (ResultSuggestion r))
      else Some r)"

text \<open>
  \<^verbatim>\<open>json.Unmarshal([]byte(content), &result)\<close> into a zero \<^verbatim>\<open>DiagnosisResult\<close>:
  \<open>None\<close> is the error, of either kind.
\<close>

definition unmarshalDiagnosisResult :: "string \<Rightarrow> DiagnosisResult option" where
  "unmarshalDiagnosisResult content =
     (case checkValid content of
        None \<Rightarrow> None
      | Some v \<Rightarrow> decodeStruct resultField v \<lparr>ResultRootCause = [], ResultSuggestion = []\<rparr>)"

text \<open>
  \<^verbatim>\<open>AIResponse\<close> (lines 56-62): a slice of choices, each holding a message with its
  content. \<^verbatim>\<open>null\<close> for the slice gives the nil slice. The elements of an array are
  decoded from zero values.
\<close>

record ChoiceMessage =
  MessageContent :: string

record Choice =
  ChoiceMessage :: ChoiceMessage

record AIResponse =
  Choices :: "Choice list"

definition messageField :: "string \<Rightarrow> json \<Rightarrow> ChoiceMessage \<Rightarrow> ChoiceMessage option" where
  "messageField key v m =
     (if fieldMatches ''content'' key
      then map_option (\<lambda>text. m\<lparr>MessageContent := text\<rparr>) (decodeString v (MessageContent m))
      else Some m)"

definition choiceField :: "string \<Rightarrow> json \<Rightarrow> Choice \<Rightarrow> Choice option" where
  "choiceField key v c =
     (if fieldMatches ''message'' key
      then map_option (\<lambda>m. c\<lparr>ChoiceMessage := m\<rparr>) (decodeStruct messageField v (ChoiceMessage c))
      else Some c)"

fun decodeChoices :: "json list \<Rightarrow> Choice list option" where
  "decodeChoices [] = Some []"
| "decodeChoices (v # vs) =
     (case decodeStruct choiceField v \<lparr>ChoiceMessage = \<lparr>MessageContent = []\<rparr>\<rparr> of
        None \<Rightarrow> None
      | Some c \<Rightarrow> map_option (\<lambda>cs. c # cs) (decodeChoices vs))"

definition responseField :: "string \<Rightarrow> json \<Rightarrow> AIResponse \<Rightarrow> AIResponse option" where
  "responseField key v r =
     (if fieldMatches ''choices'' key
      then (case v of
              JNull \<Rightarrow> Some (r\<lparr>Choices := []\<rparr>)
            | JArray vs \<Rightarrow> map_option (\<lambda>cs. r\<lparr>Choices := cs\<rparr>) (decodeChoices vs)
            | _ \<Rightarrow> None)
      else Some r)"

text \<open>\<^verbatim>\<open>json.NewDecoder(resp.Body).Decode(&aiResp)\<close> on the bytes of the body.\<close>

definition decodeAIResponse :: "string \<Rightarrow> AIResponse option" where
  "decodeAIResponse body =
     (case readValue body of
        None \<Rightarrow> None
      | Some v \<Rightarrow> decodeStruct responseField v \<lparr>Choices = []\<rparr>)"

section \<open>The surroundings of a reconciliation pass\<close>

text \<open>
  Everything a pass reads from outside the repository is a field of \<open>Env\<close>:
  \<^item> \<open>storeFault\<close>: for each call on the resource store, the text of the infrastructure
    error it fails with in this pass, if any (an absent object is not a fault: the
    store answers not-found by itself);
  \<^item> \<open>ownerReferenceFault\<close>: the error of \<^verbatim>\<open>controllerutil.SetControllerReference\<close>, if any;
  \<^item> \<open>generatedSuffix\<close>: what the store appends to \<^verbatim>\<open>GenerateName\<close>;
  \<^item> \<open>podLogs\<close>: the log source, that is what opening and reading the stream of a log
    request gives;
  \<^item> \<open>getenv\<close>: the process environment;
  \<^item> \<open>transport\<close>: what happens to an HTTP request;
  \<^item> \<open>now\<close>: the clock;
  \<^item> \<open>decodeErrorText\<close> and \<open>unmarshalErrorText\<close>: the text of the error the JSON
    library returns on a response body and on a content it rejects.
\<close>

datatype StoreCall =
    GetPodCall
  | ListCall
  | CreateCall
  | GetDiagnosisCall
  | GetTargetPodCall
  | PatchStatusCall

datatype error =
    NotFound
  | AlreadyExists
  | StoreFailure string
  | OwnerReferenceFailure string

datatype LogOutcome =
    StreamError string
  | CopyError string
  | LogText string

text \<open>
  \<^verbatim>\<open>corev1.PodLogOptions\<close>, of which the operator sets \<^verbatim>\<open>TailLines\<close> only (a pointer,
  \<open>None\<close> for \<^verbatim>\<open>nil\<close>, which asks for the whole log), and the request
  \<^verbatim>\<open>Pods(namespace).GetLogs(podName, &podLogOpts)\<close> builds from it.
\<close>

record PodLogOptions =
  OptTailLines :: "64 word option"

record LogRequest =
  LogNamespace :: string
  LogPodName :: string
  LogOptions :: PodLogOptions

record Message =
  Role :: string
  Content :: string

record ResponseFormat =
  FormatType :: string

text \<open>
  \<^verbatim>\<open>AIRequest\<close> (lines 43-48). \<^verbatim>\<open>Temperature\<close> is a \<^verbatim>\<open>float32\<close>; the model keeps the
  literal the source assigns.
\<close>

record AIRequest =
  Model :: string
  Messages :: "Message list"
  Temperature :: string
  ResponseFormat :: "ResponseFormat option"

record HttpRequest =
  Method :: string
  URL :: string
  ContentType :: string
  Authorization :: string
  Body :: AIRequest

text \<open>
  \<^verbatim>\<open>http.NewRequestWithContext\<close> may refuse the request; \<^verbatim>\<open>client.Do\<close> may fail
  (connection error, timeout, cancelled context); otherwise there is a response with
  its status code and the bytes of its body, as far as they arrive.
\<close>

datatype HttpOutcome =
    RequestRefused string
  | DoFailed string
  | Response int string

record Env =
  storeFault :: "StoreCall \<Rightarrow> string option"
  ownerReferenceFault :: "string option"
  generatedSuffix :: string
  podLogs :: "LogRequest \<Rightarrow> LogOutcome"
  getenv :: "string \<Rightarrow> string"
  transport :: "HttpRequest \<Rightarrow> HttpOutcome"
  now :: Time
  decodeErrorText :: "string \<Rightarrow> string"
  unmarshalErrorText :: "string \<Rightarrow> string"

section \<open>Message texts\<close>

text \<open>
  The texts of the source, byte for byte in UTF-8. A format verb splits a text in
  two: the constant holds the part before the verb.
\<close>

definition msgFetchLogsFailed :: string where
  \<open>msgFetchLogsFailed =
     [CHR 0xE8, CHR 0x8E, CHR 0xB7, CHR 0xE5, CHR 0x8F, CHR 0x96, CHR 0xE6, CHR 0x97, CHR 0xA5]
     @ [CHR 0xE5, CHR 0xBF, CHR 0x97, CHR 0xE5, CHR 0xA4, CHR 0xB1, CHR 0xE8, CHR 0xB4, CHR 0xA5]
     @ '': ''\<close>

definition msgDiagnosisFailed :: string where
  \<open>msgDiagnosisFailed =
     [CHR 0xE8, CHR 0xAF, CHR 0x8A, CHR 0xE6, CHR 0x96, CHR 0xAD, CHR 0xE5, CHR 0xA4, CHR 0xB1]
     @ [CHR 0xE8, CHR 0xB4, CHR 0xA5]
     @ '': ''\<close>

definition msgOpenLogStreamFailed :: string where
  \<open>msgOpenLogStreamFailed =
     [CHR 0xE6, CHR 0x89, CHR 0x93, CHR 0xE5, CHR 0xBC, CHR 0x80, CHR 0xE6, CHR 0x97, CHR 0xA5]
     @ [CHR 0xE5, CHR 0xBF, CHR 0x97, CHR 0xE6, CHR 0xB5, CHR 0x81, CHR 0xE5, CHR 0xA4, CHR 0xB1]
     @ [CHR 0xE8, CHR 0xB4, CHR 0xA5]
     @ '': ''\<close>

definition msgReadLogFailed :: string where
  \<open>msgReadLogFailed =
     [CHR 0xE8, CHR 0xAF, CHR 0xBB, CHR 0xE5, CHR 0x8F, CHR 0x96, CHR 0xE6, CHR 0x97, CHR 0xA5]
     @ [CHR 0xE5, CHR 0xBF, CHR 0x97, CHR 0xE5, CHR 0x86, CHR 0x85, CHR 0xE5, CHR 0xAE, CHR 0xB9]
     @ [CHR 0xE5, CHR 0xA4, CHR 0xB1, CHR 0xE8, CHR 0xB4, CHR 0xA5]
     @ '': ''\<close>

definition msgNotConfigured :: string where
  \<open>msgNotConfigured =
     ''AI_API_KEY ''
     @ [CHR 0xE6, CHR 0x88, CHR 0x96]
     @ '' AI_API_URL ''
     @ [CHR 0xE6, CHR 0x9C, CHR 0xAA, CHR 0xE9, CHR 0x85, CHR 0x8D, CHR 0xE7, CHR 0xBD, CHR 0xAE]\<close>

definition msgMarshalFailed :: string where
  \<open>msgMarshalFailed =
     [CHR 0xE5, CHR 0xBA, CHR 0x8F, CHR 0xE5, CHR 0x88, CHR 0x97, CHR 0xE5, CHR 0x8C, CHR 0x96]
     @ [CHR 0xE8, CHR 0xAF, CHR 0xB7, CHR 0xE6, CHR 0xB1, CHR 0x82, CHR 0xE5, CHR 0xA4, CHR 0xB1]
     @ [CHR 0xE8, CHR 0xB4, CHR 0xA5]
     @ '': ''\<close>

definition msgCallFailed :: string where
  \<open>msgCallFailed =
     [CHR 0xE8, CHR 0xB0, CHR 0x83, CHR 0xE7, CHR 0x94, CHR 0xA8]
     @ '' AI ''
     @ [CHR 0xE6, CHR 0x8E, CHR 0xA5, CHR 0xE5, CHR 0x8F, CHR 0xA3, CHR 0xE5, CHR 0xA4, CHR 0xB1]
     @ [CHR 0xE8, CHR 0xB4, CHR 0xA5]
     @ '': ''\<close>

definition msgBadStatus :: string where
  \<open>msgBadStatus =
     ''AI ''
     @ [CHR 0xE6, CHR 0x8E, CHR 0xA5, CHR 0xE5, CHR 0x8F, CHR 0xA3, CHR 0xE8, CHR 0xBF, CHR 0x94]
     @ [CHR 0xE5, CHR 0x9B, CHR 0x9E, CHR 0xE9, CHR 0x9D, CHR 0x9E]
     @ '' 200 ''
     @ [CHR 0xE7, CHR 0x8A, CHR 0xB6, CHR 0xE6, CHR 0x80, CHR 0x81, CHR 0xE7, CHR 0xA0, CHR 0x81]
     @ '': ''\<close>

definition msgDecodeFailed :: string where
  \<open>msgDecodeFailed =
     [CHR 0xE8, CHR 0xA7, CHR 0xA3, CHR 0xE6, CHR 0x9E, CHR 0x90]
     @ '' AI ''
     @ [CHR 0xE5, CHR 0x93, CHR 0x8D, CHR 0xE5, CHR 0xBA, CHR 0x94, CHR 0xE5, CHR 0xA4, CHR 0xB1]
     @ [CHR 0xE8, CHR 0xB4, CHR 0xA5]
     @ '': ''\<close>

definition msgEmptyChoices :: string where
  \<open>msgEmptyChoices =
     ''AI ''
     @ [CHR 0xE5, CHR 0x93, CHR 0x8D, CHR 0xE5, CHR 0xBA, CHR 0x94, CHR 0xE5, CHR 0x86, CHR 0x85]
     @ [CHR 0xE5, CHR 0xAE, CHR 0xB9, CHR 0xE4, CHR 0xB8, CHR 0xBA, CHR 0xE7, CHR 0xA9, CHR 0xBA]\<close>

definition msgUnmarshalFailed :: string where
  \<open>msgUnmarshalFailed =
     [CHR 0xE5, CHR 0x8F, CHR 0x8D, CHR 0xE5, CHR 0xBA, CHR 0x8F, CHR 0xE5, CHR 0x88, CHR 0x97]
     @ [CHR 0xE5, CHR 0x8C, CHR 0x96]
     @ '' DiagnosisResult ''
     @ [CHR 0xE5, CHR 0xA4, CHR 0xB1, CHR 0xE8, CHR 0xB4, CHR 0xA5]
     @ '', AI ''
     @ [CHR 0xE8, CHR 0xBF, CHR 0x94, CHR 0xE5, CHR 0x9B, CHR 0x9E, CHR 0xE5, CHR 0x86, CHR 0x85]
     @ [CHR 0xE5, CHR 0xAE, CHR 0xB9, CHR 0xE4, CHR 0xB8, CHR 0xBA]
     @ '': ''\<close>

definition msgEventRootCause :: string where
  \<open>msgEventRootCause =
     [CHR 0xE3, CHR 0x80, CHR 0x90]
     @ ''AI ''
     @ [CHR 0xE6, CHR 0xA0, CHR 0xB9, CHR 0xE5, CHR 0x9B, CHR 0xA0, CHR 0xE5, CHR 0x88, CHR 0x86]
     @ [CHR 0xE6, CHR 0x9E, CHR 0x90, CHR 0xE3, CHR 0x80, CHR 0x91]
     @ '': ''\<close>

definition msgEventSuggestion :: string where
  \<open>msgEventSuggestion =
     '' ''
     @ [CHR 0x0A, CHR 0xE3, CHR 0x80, CHR 0x90, CHR 0xE4, CHR 0xBF, CHR 0xAE, CHR 0xE5, CHR 0xA4]
     @ [CHR 0x8D, CHR 0xE5, CHR 0xBB, CHR 0xBA, CHR 0xE8, CHR 0xAE, CHR 0xAE, CHR 0xE3, CHR 0x80]
     @ [CHR 0x91]
     @ '': ''\<close>


section \<open>Reasoning Service Client\<close>

text \<open>\<^verbatim>\<open>buildPrompt\<close> (lines 68-88).\<close>

definition systemPrompt :: string where
  \<open>systemPrompt =
     [CHR 0xE4, CHR 0xBD, CHR 0xA0, CHR 0xE6, CHR 0x98, CHR 0xAF, CHR 0xE4, CHR 0xB8, CHR 0x80]
     @ [CHR 0xE4, CHR 0xB8, CHR 0xAA, CHR 0xE8, CHR 0xB5, CHR 0x84, CHR 0xE6, CHR 0xB7, CHR 0xB1]
     @ [CHR 0xE7, CHR 0x9A, CHR 0x84, CHR 0xE4, CHR 0xBA, CHR 0x91, CHR 0xE5, CHR 0x8E, CHR 0x9F]
     @ [CHR 0xE7, CHR 0x94, CHR 0x9F, CHR 0xE6, CHR 0x9E, CHR 0xB6, CHR 0xE6, CHR 0x9E, CHR 0x84]
     @ [CHR 0xE5, CHR 0xB8, CHR 0x88, CHR 0xE4, CHR 0xB8, CHR 0x8E]
     @ '' Kubernetes SRE ''
     @ [CHR 0xE4, CHR 0xB8, CHR 0x93, CHR 0xE5, CHR 0xAE, CHR 0xB6, CHR 0xE3, CHR 0x80, CHR 0x82]
     @ [CHR 0x0A, CHR 0xE4, CHR 0xBD, CHR 0xA0, CHR 0xE7, CHR 0x9A, CHR 0x84, CHR 0xE4, CHR 0xBB]
     @ [CHR 0xBB, CHR 0xE5, CHR 0x8A, CHR 0xA1, CHR 0xE6, CHR 0x98, CHR 0xAF, CHR 0xE6, CHR 0xA0]
     @ [CHR 0xB9, CHR 0xE6, CHR 0x8D, CHR 0xAE, CHR 0xE6, CHR 0x8F, CHR 0x90, CHR 0xE4, CHR 0xBE]
     @ [CHR 0x9B, CHR 0xE7, CHR 0x9A, CHR 0x84]
     @ '' Pod ''
     @ [CHR 0xE6, CHR 0x95, CHR 0x85, CHR 0xE9, CHR 0x9A, CHR 0x9C, CHR 0xE4, CHR 0xBF, CHR 0xA1]
     @ [CHR 0xE6, CHR 0x81, CHR 0xAF, CHR 0xE5, CHR 0x92, CHR 0x8C, CHR 0xE6, CHR 0x97, CHR 0xA5]
     @ [CHR 0xE5, CHR 0xBF, CHR 0x97, CHR 0xEF, CHR 0xBC, CHR 0x8C, CHR 0xE5, CHR 0x88, CHR 0x86]
     @ [CHR 0xE6, CHR 0x9E, CHR 0x90, CHR 0xE5, CHR 0xB4, CHR 0xA9, CHR 0xE6, CHR 0xBA, CHR 0x83]
     @ [CHR 0xE7, CHR 0x9A, CHR 0x84, CHR 0xE6, CHR 0xA0, CHR 0xB9, CHR 0xE6, CHR 0x9C, CHR 0xAC]
     @ [CHR 0xE5, CHR 0x8E, CHR 0x9F, CHR 0xE5, CHR 0x9B, CHR 0xA0, CHR 0xEF, CHR 0xBC, CHR 0x8C]
     @ [CHR 0xE5, CHR 0xB9, CHR 0xB6, CHR 0xE7, CHR 0xBB, CHR 0x99, CHR 0xE5, CHR 0x87, CHR 0xBA]
     @ [CHR 0xE5, CHR 0x8F, CHR 0xAF, CHR 0xE6, CHR 0x89, CHR 0xA7, CHR 0xE8, CHR 0xA1, CHR 0x8C]
     @ [CHR 0xE7, CHR 0x9A, CHR 0x84, CHR 0xE4, CHR 0xBF, CHR 0xAE, CHR 0xE5, CHR 0xA4, CHR 0x8D]
     @ [CHR 0xE5, CHR 0xBB, CHR 0xBA, CHR 0xE8, CHR 0xAE, CHR 0xAE, CHR 0xE3, CHR 0x80, CHR 0x82]
     @ [CHR 0x0A, CHR 0xE8, CHR 0xAF, CHR 0xB7, CHR 0xE4, CHR 0xB8, CHR 0xA5, CHR 0xE6, CHR 0xA0]
     @ [CHR 0xBC, CHR 0xE6, CHR 0x8C, CHR 0x89, CHR 0xE7, CHR 0x85, CHR 0xA7]
     @ '' JSON ''
     @ [CHR 0xE6, CHR 0xA0, CHR 0xBC, CHR 0xE5, CHR 0xBC, CHR 0x8F, CHR 0xE8, CHR 0xBE, CHR 0x93]
     @ [CHR 0xE5, CHR 0x87, CHR 0xBA, CHR 0xEF, CHR 0xBC, CHR 0x8C, CHR 0xE5, CHR 0x8A, CHR 0xA1]
     @ [CHR 0xE5, CHR 0xBF, CHR 0x85, CHR 0xE5, CHR 0x8C, CHR 0x85, CHR 0xE5, CHR 0x90, CHR 0xAB]
     @ [CHR 0xE4, CHR 0xBB, CHR 0xA5, CHR 0xE4, CHR 0xB8, CHR 0x8B, CHR 0xE4, CHR 0xB8, CHR 0xA4]
     @ [CHR 0xE4, CHR 0xB8, CHR 0xAA, CHR 0xE5, CHR 0xAD, CHR 0x97, CHR 0xE6, CHR 0xAE, CHR 0xB5]
     @ [CHR 0xEF, CHR 0xBC, CHR 0x9A, CHR 0x0A]
     @ ''1. "rootCause": ''
     @ [CHR 0xE7, CHR 0x94, CHR 0xA8, CHR 0xE4, CHR 0xB8, CHR 0x80, CHR 0xE4, CHR 0xB8, CHR 0xA4]
     @ [CHR 0xE5, CHR 0x8F, CHR 0xA5, CHR 0xE8, CHR 0xAF, CHR 0x9D, CHR 0xE7, CHR 0xAE, CHR 0x80]
     @ [CHR 0xE6, CHR 0x98, CHR 0x8E, CHR 0xE6, CHR 0x89, CHR 0xBC, CHR 0xE8, CHR 0xA6, CHR 0x81]
     @ [CHR 0xE5, CHR 0x9C, CHR 0xB0, CHR 0xE6, CHR 0xA6, CHR 0x82, CHR 0xE6, CHR 0x8B, CHR 0xAC]
     @ [CHR 0xE6, CHR 0xA0, CHR 0xB9, CHR 0xE6, CHR 0x9C, CHR 0xAC, CHR 0xE5, CHR 0x8E, CHR 0x9F]
     @ [CHR 0xE5, CHR 0x9B, CHR 0xA0, CHR 0xE3, CHR 0x80, CHR 0x82, CHR 0x0A]
     @ ''2. "suggestion": ''
     @ [CHR 0xE7, CHR 0xBB, CHR 0x99, CHR 0xE5, CHR 0x87, CHR 0xBA, CHR 0xE5, CHR 0x85, CHR 0xB7]
     @ [CHR 0xE4, CHR 0xBD, CHR 0x93, CHR 0xE7, CHR 0x9A, CHR 0x84, CHR 0xE6, CHR 0x8E, CHR 0x92]
     @ [CHR 0xE6, CHR 0x9F, CHR 0xA5, CHR 0xE6, CHR 0x88, CHR 0x96, CHR 0xE4, CHR 0xBF, CHR 0xAE]
     @ [CHR 0xE5, CHR 0xA4, CHR 0x8D, CHR 0xE6, CHR 0x8C, CHR 0x87, CHR 0xE4, CHR 0xBB, CHR 0xA4]
     @ [CHR 0xEF, CHR 0xBC, CHR 0x88, CHR 0xE5, CHR 0xA6, CHR 0x82, CHR 0xE4, CHR 0xBF, CHR 0xAE]
     @ [CHR 0xE6, CHR 0x94, CHR 0xB9, CHR 0xE5, CHR 0x86, CHR 0x85, CHR 0xE5, CHR 0xAD, CHR 0x98]
     @ [CHR 0xE9, CHR 0x99, CHR 0x90, CHR 0xE5, CHR 0x88, CHR 0xB6, CHR 0xE3, CHR 0x80, CHR 0x81]
     @ [CHR 0xE6, CHR 0xA3, CHR 0x80, CHR 0xE6, CHR 0x9F, CHR 0xA5, CHR 0xE9, CHR 0x85, CHR 0x8D]
     @ [CHR 0xE7, CHR 0xBD, CHR 0xAE, CHR 0xE5, CHR 0xAD, CHR 0x97, CHR 0xE5, CHR 0x85, CHR 0xB8]
     @ [CHR 0xE7, CHR 0xAD, CHR 0x89, CHR 0xEF, CHR 0xBC, CHR 0x89, CHR 0xE3, CHR 0x80, CHR 0x82]
     @ [CHR 0x0A, CHR 0xE4, CHR 0xB8, CHR 0x8D, CHR 0xE8, CHR 0xA6, CHR 0x81, CHR 0xE8, CHR 0xBE]
     @ [CHR 0x93, CHR 0xE5, CHR 0x87, CHR 0xBA, CHR 0xE4, CHR 0xBB, CHR 0xBB, CHR 0xE4, CHR 0xBD]
     @ [CHR 0x95]
     @ '' Markdown ''
     @ [CHR 0xE6, CHR 0xA0, CHR 0x87, CHR 0xE8, CHR 0xAE, CHR 0xB0, CHR 0xE7, CHR 0xAC, CHR 0xA6]
     @ [CHR 0xE6, CHR 0x88, CHR 0x96, CHR 0xE5, CHR 0x85, CHR 0xB6, CHR 0xE4, CHR 0xBB, CHR 0x96]
     @ [CHR 0xE5, CHR 0xA4, CHR 0x9A, CHR 0xE4, CHR 0xBD, CHR 0x99, CHR 0xE7, CHR 0x9A, CHR 0x84]
     @ [CHR 0xE8, CHR 0xA7, CHR 0xA3, CHR 0xE9, CHR 0x87, CHR 0x8A, CHR 0xE6, CHR 0x80, CHR 0xA7]
     @ [CHR 0xE6, CHR 0x96, CHR 0x87, CHR 0xE5, CHR 0xAD, CHR 0x97, CHR 0xE3, CHR 0x80, CHR 0x82]\<close>

definition userPromptPodName :: string where
  \<open>userPromptPodName =
     [CHR 0x0A, CHR 0xE3, CHR 0x80, CHR 0x90, CHR 0xE5, CHR 0xBC, CHR 0x82, CHR 0xE5, CHR 0xB8]
     @ [CHR 0xB8]
     @ '' Pod ''
     @ [CHR 0xE5, CHR 0x90, CHR 0x8D, CHR 0xE7, CHR 0xA7, CHR 0xB0, CHR 0xE3, CHR 0x80, CHR 0x91]
     @ '': ''\<close>

definition userPromptTriggerReason :: string where
  \<open>userPromptTriggerReason =
     [CHR 0x0A, CHR 0xE3, CHR 0x80, CHR 0x90, CHR 0xE8, CHR 0xA7, CHR 0xA6, CHR 0xE5, CHR 0x8F]
     @ [CHR 0x91, CHR 0xE8, CHR 0xAF, CHR 0x8A, CHR 0xE6, CHR 0x96, CHR 0xAD, CHR 0xE5, CHR 0x8E]
     @ [CHR 0x9F, CHR 0xE5, CHR 0x9B, CHR 0xA0, CHR 0xE3, CHR 0x80, CHR 0x91]
     @ '': ''\<close>

definition userPromptLogs :: string where
  \<open>userPromptLogs =
     [CHR 0x0A, CHR 0xE3, CHR 0x80, CHR 0x90, CHR 0xE5, CHR 0xB0, CHR 0xBE, CHR 0xE9, CHR 0x83]
     @ [CHR 0xA8, CHR 0xE6, CHR 0x97, CHR 0xA5, CHR 0xE5, CHR 0xBF, CHR 0x97]
     @ '' (Stdout/Stderr)''
     @ [CHR 0xE3, CHR 0x80, CHR 0x91]
     @ '':''
     @ [CHR 0x0A]
     @ ''---''
     @ [CHR 0x0A]\<close>

definition userPromptEnd :: string where
  \<open>userPromptEnd =
     [CHR 0x0A]
     @ ''---''\<close>


definition buildPrompt :: "string \<Rightarrow> string \<Rightarrow> string \<Rightarrow> Message list" where
  "buildPrompt podName triggerReason logs =
     [\<lparr>Role = ''system'', Content = systemPrompt\<rparr>,
      \<lparr>Role = ''user'',
       Content = userPromptPodName @ podName @ userPromptTriggerReason @ triggerReason
                 @ userPromptLogs @ logs @ userPromptEnd\<rparr>]"

definition StatusOK :: int where
  "StatusOK = 200"

text \<open>
  The request \<^verbatim>\<open>callAIEndpoint\<close> builds (lines 100-119): the body, the method, the
  address and the two headers. \<^verbatim>\<open>json.Marshal\<close> cannot fail on an \<^verbatim>\<open>AIRequest\<close>, so
  its error branch has no counterpart; the request carries the structure, not its
  serialisation.
\<close>

definition newRequest :: "string \<Rightarrow> string \<Rightarrow> string \<Rightarrow> string \<Rightarrow> string \<Rightarrow> string \<Rightarrow> HttpRequest" where
  "newRequest apiKey apiURL modelName podName triggerReason logs =
     \<lparr>Method = ''POST'', URL = apiURL, ContentType = ''application/json'',
      Authorization = ''Bearer '' @ apiKey,
      Body = \<lparr>Model = modelName,
               Messages = buildPrompt podName triggerReason logs,
               Temperature = ''0.2'',
               ResponseFormat = Some \<lparr>FormatType = ''json_object''\<rparr>\<rparr>\<rparr>"

text \<open>
  \<^verbatim>\<open>callAIEndpoint\<close> (lines 91-149). The result is the list of HTTP requests handed to
  \<^verbatim>\<open>client.Do\<close> (none or one) and either the text of the returned error or the parsed
  result.
\<close>

definition callAIEndpoint ::
  "Env \<Rightarrow> string \<Rightarrow> string \<Rightarrow> string \<Rightarrow> HttpRequest list \<times> (string + DiagnosisResult)" where
  "callAIEndpoint env podName triggerReason logs =
     (let apiKey = getenv env ''AI_API_KEY'';
          apiURL = getenv env ''AI_API_URL'';
          modelName = getenv env ''AI_MODEL''
      in
      if apiKey = [] \<or> apiURL = [] then ([], Inl msgNotConfigured)
      else
        (let req = newRequest apiKey apiURL modelName podName triggerReason logs in
         case transport env req of
           RequestRefused err \<Rightarrow> ([], Inl err)
         | DoFailed err \<Rightarrow> ([req], Inl (msgCallFailed @ err))
         | Response statusCode body \<Rightarrow>
             (if statusCode \<noteq> StatusOK
              then ([req], Inl (msgBadStatus @ showInt statusCode))
              else
                (case decodeAIResponse body of
                   None \<Rightarrow> ([req], Inl (msgDecodeFailed @ decodeErrorText env body))
                 | Some aiResp \<Rightarrow>
                     (case Choices aiResp of
                        [] \<Rightarrow> ([req], Inl msgEmptyChoices)
                      | choice # choices \<Rightarrow>
                          (let content = MessageContent (ChoiceMessage choice) in
                           case unmarshalDiagnosisResult content of
                             None \<Rightarrow>
                               ([req], Inl (msgUnmarshalFailed @ content @ '', error: ''
                                            @ unmarshalErrorText env content))
                           | Some result \<Rightarrow> ([req], Inr result)))))))"

section \<open>The resource store and what a pass does to the outside\<close>

text \<open>
  The state a pass runs on: the pods and the diagnosis requests in the store, and the
  record of what the passes did to the outside so far. An effect is recorded when the
  call is made, whatever its outcome:
  \<^item> \<open>LogsRequested request\<close>: the stream of a log request was asked for;
  \<^item> \<open>HttpSent request\<close>: a request was handed to the HTTP client;
  \<^item> \<open>EventRecorded namespace pod type reason message\<close>: an event was recorded on a pod;
  \<^item> \<open>StatusPatchSent namespace name patch\<close>: a status patch was sent to the store.
\<close>

record StatusPatch =
  patchPhase :: "string option"
  patchRootCause :: "string option"
  patchSuggestion :: "string option"
  patchDiagnosisTime :: "Time option option"

datatype Effect =
    LogsRequested LogRequest
  | HttpSent HttpRequest
  | EventRecorded string string string string string
  | StatusPatchSent string string StatusPatch

record World =
  pods :: "Pod list"
  diagnoses :: "PodDiagnosis list"
  effects :: "Effect list"

text \<open>
  \<^verbatim>\<open>client.MergeFrom(base)\<close>: the merge patch holds the fields on which the changed
  object differs from the snapshot, and applying it overwrites exactly those.
\<close>

definition changed :: "'a \<Rightarrow> 'a \<Rightarrow> 'a option" where
  "changed old new = (if new = old then None else Some new)"

definition mergeFrom :: "PodDiagnosisStatus \<Rightarrow> PodDiagnosisStatus \<Rightarrow> StatusPatch" where
  "mergeFrom base new =
     \<lparr>patchPhase = changed (Phase base) (Phase new),
      patchRootCause = changed (RootCause base) (RootCause new),
      patchSuggestion = changed (Suggestion base) (Suggestion new),
      patchDiagnosisTime = changed (DiagnosisTime base) (DiagnosisTime new)\<rparr>"

definition applyPatch :: "StatusPatch \<Rightarrow> PodDiagnosisStatus \<Rightarrow> PodDiagnosisStatus" where
  "applyPatch p st =
     \<lparr>Phase = (case patchPhase p of None \<Rightarrow> Phase st | Some v \<Rightarrow> v),
      RootCause = (case patchRootCause p of None \<Rightarrow> RootCause st | Some v \<Rightarrow> v),
      Suggestion = (case patchSuggestion p of None \<Rightarrow> Suggestion st | Some v \<Rightarrow> v),
      DiagnosisTime = (case patchDiagnosisTime p of None \<Rightarrow> DiagnosisTime st | Some v \<Rightarrow> v)\<rparr>"

definition sameObject :: "string \<Rightarrow> string \<Rightarrow> ObjectMeta \<Rightarrow> bool" where
  "sameObject namespace name meta = (Namespace meta = namespace \<and> Name meta = name)"

text \<open>\<^verbatim>\<open>r.Get\<close> on a pod: a fault, or not-found, or the pod.\<close>

definition clientGetPod :: "Env \<Rightarrow> StoreCall \<Rightarrow> World \<Rightarrow> string \<times> string \<Rightarrow> error + Pod" where
  "clientGetPod env call w key =
     (case storeFault env call of
        Some text \<Rightarrow> Inl (StoreFailure text)
      | None \<Rightarrow>
          (case find (\<lambda>pod. sameObject (fst key) (snd key) (PodMeta pod)) (pods w) of
             None \<Rightarrow> Inl NotFound
           | Some pod \<Rightarrow> Inr pod))"

definition clientGetDiagnosis :: "Env \<Rightarrow> World \<Rightarrow> string \<times> string \<Rightarrow> error + PodDiagnosis" where
  "clientGetDiagnosis env w key =
     (case storeFault env GetDiagnosisCall of
        Some text \<Rightarrow> Inl (StoreFailure text)
      | None \<Rightarrow>
          (case find (\<lambda>d. sameObject (fst key) (snd key) (Meta d)) (diagnoses w) of
             None \<Rightarrow> Inl NotFound
           | Some d \<Rightarrow> Inr d))"

text \<open>
  \<^verbatim>\<open>r.List\<close> with \<^verbatim>\<open>client.InNamespace\<close> and \<^verbatim>\<open>client.MatchingFields{"spec.podName": ...}\<close>.
\<close>

definition matchingRequests :: "World \<Rightarrow> string \<Rightarrow> string \<Rightarrow> PodDiagnosis list" where
  "matchingRequests w namespace podName =
     filter (\<lambda>d. Namespace (Meta d) = namespace \<and> PodName (Spec d) = podName) (diagnoses w)"

definition clientList :: "Env \<Rightarrow> World \<Rightarrow> string \<Rightarrow> string \<Rightarrow> error + PodDiagnosis list" where
  "clientList env w namespace podName =
     (case storeFault env ListCall of
        Some text \<Rightarrow> Inl (StoreFailure text)
      | None \<Rightarrow> Inr (matchingRequests w namespace podName))"

text \<open>
  \<^verbatim>\<open>r.Create\<close>: the store names the object after \<^verbatim>\<open>GenerateName\<close> and refuses a name
  that is taken in the namespace.
\<close>

definition clientCreate :: "Env \<Rightarrow> World \<Rightarrow> PodDiagnosis \<Rightarrow> error + World" where
  "clientCreate env w d =
     (case storeFault env CreateCall of
        Some text \<Rightarrow> Inl (StoreFailure text)
      | None \<Rightarrow>
          (let name = (if Name (Meta d) = [] then GenerateName (Meta d) @ generatedSuffix env
                       else Name (Meta d));
               stored = d\<lparr>Meta := (Meta d)\<lparr>Name := name\<rparr>\<rparr>
           in
           if list_ex (\<lambda>d'. sameObject (Namespace (Meta d)) name (Meta d')) (diagnoses w)
           then Inl AlreadyExists
           else Inr (w\<lparr>diagnoses := diagnoses w @ [stored]\<rparr>)))"

text \<open>
  \<^verbatim>\<open>r.Status().Patch(ctx, &diagnosis, client.MergeFrom(base))\<close>: the patch is sent; on a
  fault, or when the object is gone, the store is left as it is.
\<close>

definition statusPatch :: "Env \<Rightarrow> World \<Rightarrow> PodDiagnosis \<Rightarrow> PodDiagnosis \<Rightarrow> World \<times> error option" where
  "statusPatch env w obj base =
     (let namespace = Namespace (Meta obj);
          name = Name (Meta obj);
          patch = mergeFrom (Status base) (Status obj);
          w' = w\<lparr>effects := effects w @ [StatusPatchSent namespace name patch]\<rparr>
      in
      case storeFault env PatchStatusCall of
        Some text \<Rightarrow> (w', Some (StoreFailure text))
      | None \<Rightarrow>
          (if list_ex (\<lambda>d. sameObject namespace name (Meta d)) (diagnoses w)
           then (w'\<lparr>diagnoses :=
                      map (\<lambda>d. if sameObject namespace name (Meta d)
                                then d\<lparr>Status := applyPatch patch (Status d)\<rparr> else d)
                        (diagnoses w)\<rparr>,
                 None)
           else (w', Some NotFound)))"

section \<open>Failure Detector: the reconciliation pass\<close>

text \<open>
  \<^verbatim>\<open>PodWatcherReconciler.Reconcile\<close> (api/v1/poddiagnosis_types.go, lines 91-153). Every
  path returns the zero \<^verbatim>\<open>ctrl.Result{}\<close>; the model returns the state after the pass
  and the returned error (\<open>None\<close> for \<^verbatim>\<open>nil\<close>). Logging is not modelled.
\<close>

definition IgnoreNotFound :: "error \<Rightarrow> error option" where
  "IgnoreNotFound err = (if err = NotFound then None else Some err)"

fun unfinishedLoop :: "PodDiagnosis list \<Rightarrow> bool" where
  "unfinishedLoop [] = False"
| "unfinishedLoop (d # ds) =
     (if Phase (Status d) \<noteq> ''Completed'' \<and> Phase (Status d) \<noteq> ''Failed'' then True
      else unfinishedLoop ds)"

definition newDiagnosis :: "Pod \<Rightarrow> PodDiagnosis" where
  "newDiagnosis pod =
     \<lparr>Meta = \<lparr>Name = [],
              GenerateName = Name (PodMeta pod) @ ''-diagnosis-'',
              Namespace = Namespace (PodMeta pod),
              Labels = [(''diagnosed-pod'', Name (PodMeta pod)), (''created-by'', ''pod-watcher'')],
              OwnerReferences = []\<rparr>,
      Spec = \<lparr>PodName = Name (PodMeta pod),
              TargetNamespace = Namespace (PodMeta pod),
              TriggerReason = ''Pod entered failed state: '' @ getFailureReason pod,
              TailLines = 100\<rparr>,
      Status = emptyStatus\<rparr>"

definition SetControllerReference :: "Env \<Rightarrow> Pod \<Rightarrow> PodDiagnosis \<Rightarrow> error + PodDiagnosis" where
  "SetControllerReference env pod d =
     (case ownerReferenceFault env of
        Some text \<Rightarrow> Inl (OwnerReferenceFailure text)
      | None \<Rightarrow>
          Inr (d\<lparr>Meta := (Meta d)\<lparr>OwnerReferences :=
                 [\<lparr>OwnerKind = ''Pod'', OwnerName = Name (PodMeta pod), Controller = True,
                   BlockOwnerDeletion = True\<rparr>]\<rparr>\<rparr>))"

definition PodWatcher_Reconcile :: "Env \<Rightarrow> World \<Rightarrow> string \<times> string \<Rightarrow> World \<times> error option" where
  "PodWatcher_Reconcile env w req =
     (case clientGetPod env GetPodCall w req of
        Inl err \<Rightarrow> (w, IgnoreNotFound err)
      | Inr pod \<Rightarrow>
          (if \<not> isPodFailed pod then (w, None)
           else
             (case clientList env w (Namespace (PodMeta pod)) (Name (PodMeta pod)) of
                Inl err \<Rightarrow> (w, Some err)
              | Inr items \<Rightarrow>
                  (if unfinishedLoop items then (w, None)
                   else
                     (case SetControllerReference env pod (newDiagnosis pod) of
                        Inl err \<Rightarrow> (w, Some err)
                      | Inr diagnosis \<Rightarrow>
                          (case clientCreate env w diagnosis of
                             Inl err \<Rightarrow> (w, Some err)
                           | Inr w' \<Rightarrow> (w', None)))))))"

section \<open>Diagnosis Lifecycle Controller\<close>

text \<open>
  \<^verbatim>\<open>getPodLogs\<close> (internal/controller/poddiagnosis_controller.go, lines 234-250): the
  options carry the tail-line limit, the request is built for the pod, its stream is
  opened and read to the end. The result is the list of log requests whose stream was
  asked for (one) and either the text of the returned error or the logs.
\<close>

definition getPodLogs :: "Env \<Rightarrow> string \<Rightarrow> string \<Rightarrow> 64 word \<Rightarrow> LogRequest list \<times> (string + string)" where
  "getPodLogs env namespace podName tailLines =
     (let podLogOpts = \<lparr>OptTailLines = Some tailLines\<rparr>;
          req = \<lparr>LogNamespace = namespace, LogPodName = podName, LogOptions = podLogOpts\<rparr>
      in
      case podLogs env req of
        StreamError err \<Rightarrow> ([req], Inl (msgOpenLogStreamFailed @ err))
      | CopyError err \<Rightarrow> ([req], Inl (msgReadLogFailed @ err))
      | LogText logs \<Rightarrow> ([req], Inr logs))"

definition recordEffects :: "Effect list \<Rightarrow> World \<Rightarrow> World" where
  "recordEffects es w = w\<lparr>effects := effects w @ es\<rparr>"

text \<open>
  \<^verbatim>\<open>PodDiagnosisReconciler.Reconcile\<close> (lines 150-232). As in the source, the two error
  paths send their patch and return \<^verbatim>\<open>nil\<close> whatever the patch answers, and the read
  of the target pod skips the event on any error.
\<close>

definition PodDiagnosis_Reconcile :: "Env \<Rightarrow> World \<Rightarrow> string \<times> string \<Rightarrow> World \<times> error option" where
  "PodDiagnosis_Reconcile env w req =
     (case clientGetDiagnosis env w req of
        Inl err \<Rightarrow> (if err = NotFound then (w, None) else (w, Some err))
      | Inr diagnosis \<Rightarrow>
          (if Phase (Status diagnosis) = ''Completed'' \<or> Phase (Status diagnosis) = ''Failed''
           then (w, None)
           else
             (let targetPodName = PodName (Spec diagnosis);
                  namespace = TargetNamespace (Spec diagnosis);
                  tailLines = (if (scast (TailLines (Spec diagnosis)) :: 64 word) = 0 then 100
                               else scast (TailLines (Spec diagnosis)));
                  (asked, fetched) = getPodLogs env namespace targetPodName tailLines;
                  w1 = recordEffects (map LogsRequested asked) w
              in
              case fetched of
                Inl err \<Rightarrow>
                  (let base = diagnosis;
                       failed = diagnosis\<lparr>Status := (Status diagnosis)
                                  \<lparr>Phase := ''Failed'',
                                   RootCause := msgFetchLogsFailed @ err,
                                   DiagnosisTime := Some (now env)\<rparr>\<rparr>
                   in (fst (statusPatch env w1 failed base), None))
              | Inr logs \<Rightarrow>
                  (case callAIEndpoint env targetPodName (TriggerReason (Spec diagnosis)) logs of
                     (sent, outcome) \<Rightarrow>
                       (let w2 = recordEffects (map HttpSent sent) w1 in
                        case outcome of
                          Inl err \<Rightarrow>
                            (let base = diagnosis;
                                 failed = diagnosis\<lparr>Status := (Status diagnosis)
                                            \<lparr>Phase := ''Failed'',
                                             RootCause := msgDiagnosisFailed @ err,
                                             DiagnosisTime := Some (now env)\<rparr>\<rparr>
                             in (fst (statusPatch env w2 failed base), None))
                        | Inr diagnosisResult \<Rightarrow>
                            (let podKey = (TargetNamespace (Spec diagnosis), PodName (Spec diagnosis));
                                 w3 = (case clientGetPod env GetTargetPodCall w2 podKey of
                                         Inl err \<Rightarrow> w2
                                       | Inr targetPod \<Rightarrow>
                                           recordEffects
                                             [EventRecorded (Namespace (PodMeta targetPod))
                                                (Name (PodMeta targetPod)) ''Warning''
                                                ''AIDiagnosisResult''
                                                (msgEventRootCause @ ResultRootCause diagnosisResult
                                                 @ msgEventSuggestion
                                                 @ ResultSuggestion diagnosisResult)] w2);
                                 base = diagnosis;
                                 completed = diagnosis\<lparr>Status := (Status diagnosis)
                                               \<lparr>Phase := ''Completed'',
                                                RootCause := ResultRootCause diagnosisResult,
                                                Suggestion := ResultSuggestion diagnosisResult,
                                                DiagnosisTime := Some (now env)\<rparr>\<rparr>
                             in statusPatch env w3 completed base))))))"

section \<open>Notions used by the properties\<close>

text \<open>The effects of each kind among a list of effects, in order.\<close>

fun logRequests :: "Effect list \<Rightarrow> LogRequest list" where
  "logRequests [] = []"
| "logRequests (LogsRequested request # es) = request # logRequests es"
| "logRequests (e # es) = logRequests es"

fun httpRequests :: "Effect list \<Rightarrow> HttpRequest list" where
  "httpRequests [] = []"
| "httpRequests (HttpSent req # es) = req # httpRequests es"
| "httpRequests (e # es) = httpRequests es"

fun statusPatches :: "Effect list \<Rightarrow> StatusPatch list" where
  "statusPatches [] = []"
| "statusPatches (StatusPatchSent namespace name patch # es) = patch # statusPatches es"
| "statusPatches (e # es) = statusPatches es"

fun recordedEvents :: "Effect list \<Rightarrow> (string \<times> string \<times> string) list" where
  "recordedEvents [] = []"
| "recordedEvents (EventRecorded namespace pod type reason message # es) =
     (namespace, pod, message) # recordedEvents es"
| "recordedEvents (e # es) = recordedEvents es"

text \<open>The update events a pod goes through when it passes through a list of states.\<close>

fun consecutiveUpdates :: "Pod list \<Rightarrow> Event list" where
  "consecutiveUpdates (prior # current # later) =
     UpdateEvent (PodObject prior) (PodObject current) # consecutiveUpdates (current # later)"
| "consecutiveUpdates states = []"

text \<open>A JSON value that is a string.\<close>

definition isJString :: "json \<Rightarrow> bool" where
  "isJString v = (case v of JString text \<Rightarrow> True | _ \<Rightarrow> False)"

text \<open>The request \<^verbatim>\<open>callAIEndpoint\<close> sends in given surroundings.\<close>

definition sentRequest :: "Env \<Rightarrow> string \<Rightarrow> string \<Rightarrow> string \<Rightarrow> HttpRequest" where
  "sentRequest env podName triggerReason logs =
     newRequest (getenv env ''AI_API_KEY'') (getenv env ''AI_API_URL'') (getenv env ''AI_MODEL'')
       podName triggerReason logs"

definition configured :: "Env \<Rightarrow> bool" where
  "configured env = (getenv env ''AI_API_KEY'' \<noteq> [] \<and> getenv env ''AI_API_URL'' \<noteq> [])"

text \<open>
  What the log source and the reasoning service answer to the pass on a request: the
  calls of \<^verbatim>\<open>Reconcile\<close> at lines 166-174 and 192, with the arguments it gives them.
\<close>

definition logOutcome :: "Env \<Rightarrow> PodDiagnosis \<Rightarrow> string + string" where
  "logOutcome env d =
     snd (getPodLogs env (TargetNamespace (Spec d)) (PodName (Spec d))
            (if (scast (TailLines (Spec d)) :: 64 word) = 0 then 100
             else scast (TailLines (Spec d))))"

definition reasoningOutcome :: "Env \<Rightarrow> PodDiagnosis \<Rightarrow> string \<Rightarrow> string + DiagnosisResult" where
  "reasoningOutcome env d logs =
     snd (callAIEndpoint env (PodName (Spec d)) (TriggerReason (Spec d)) logs)"

text \<open>The request the store holds under a key.\<close>

definition storedRequest :: "World \<Rightarrow> string \<times> string \<Rightarrow> PodDiagnosis option" where
  "storedRequest w key = find (\<lambda>d. sameObject (fst key) (snd key) (Meta d)) (diagnoses w)"

definition storedPod :: "World \<Rightarrow> string \<times> string \<Rightarrow> Pod option" where
  "storedPod w key = find (\<lambda>pod. sameObject (fst key) (snd key) (PodMeta pod)) (pods w)"

text \<open>
  The requests for a pod name in a namespace that have not reached a terminal phase.
  A request names its target namespace in its spec and lives in a namespace of its
  own; \<open>coherent\<close> says the two agree.
\<close>

definition unfinishedFor :: "PodDiagnosis list \<Rightarrow> string \<Rightarrow> string \<Rightarrow> PodDiagnosis list" where
  "unfinishedFor ds namespace podName =
     filter (\<lambda>d. Namespace (Meta d) = namespace \<and> PodName (Spec d) = podName \<and> \<not> isTerminal d) ds"

definition coherent :: "PodDiagnosis \<Rightarrow> bool" where
  "coherent d = (TargetNamespace (Spec d) = Namespace (Meta d))"

text \<open>
  The states the two controllers can bring about from a store without requests. Between
  passes the platform may change the pods in any way, and requests may be deleted
  (the owner reference makes the store delete a request with its pod). Nothing else
  creates requests or writes their status.
\<close>

inductive reachable :: "World \<Rightarrow> bool" where
  start: "reachable \<lparr>pods = ps, diagnoses = [], effects = []\<rparr>"
| watcherPass: "reachable w \<Longrightarrow> reachable (fst (PodWatcher_Reconcile env w req))"
| lifecyclePass: "reachable w \<Longrightarrow> reachable (fst (PodDiagnosis_Reconcile env w req))"
| podsChange: "reachable w \<Longrightarrow> reachable (w\<lparr>pods := ps\<rparr>)"
| requestsDeleted: "reachable w \<Longrightarrow> reachable (w\<lparr>diagnoses := filter keep (diagnoses w)\<rparr>)"

text \<open>
  The text \<^verbatim>\<open>getFailureReason\<close> formats for a container that has terminated, and the
  condition its scheduling branch looks for: one whose type is the text
  \<open>Unschedulable\<close> and whose status is \<open>True\<close>.
\<close>

definition exitedText :: "ContainerStatus \<Rightarrow> string" where
  "exitedText status =
     (case Terminated (State status) of
        None \<Rightarrow> []
      | Some t \<Rightarrow> ''Container '' @ ContainerName status @ '' exited with code ''
                   @ showInt (sint (ExitCode t)) @ '': '' @ TerminatedReason t)"

definition typedUnschedulable :: "PodCondition \<Rightarrow> bool" where
  "typedUnschedulable cond =
     (Type cond = PodReasonUnschedulable \<and> ConditionStatus cond = ConditionTrue)"

text \<open>The log request for the target of a diagnosis request with a tail-line limit.\<close>

definition logRequestFor :: "PodDiagnosis \<Rightarrow> 64 word \<Rightarrow> LogRequest" where
  "logRequestFor d limit =
     \<lparr>LogNamespace = TargetNamespace (Spec d), LogPodName = PodName (Spec d),
      LogOptions = \<lparr>OptTailLines = Some limit\<rparr>\<rparr>"

text \<open>Repeated passes of the lifecycle controller on one key, each in surroundings of its own.\<close>

fun lifecyclePasses :: "Env list \<Rightarrow> World \<Rightarrow> string \<times> string \<Rightarrow> World" where
  "lifecyclePasses [] w req = w"
| "lifecyclePasses (env # envs) w req =
     lifecyclePasses envs (fst (PodDiagnosis_Reconcile env w req)) req"

section \<open>Concrete inputs\<close>

text \<open>
  A pod \<open>web\<close> in namespace \<open>shop\<close> in five states: healthy; with its container
  waiting in \<open>CrashLoopBackOff\<close>; with its container terminated by the kernel with exit
  code 137; succeeded, with its container terminated with exit code 0; and in phase
  \<open>Failed\<close> with its container terminated with exit code 0.
\<close>

definition webMeta :: ObjectMeta where
  "webMeta = \<lparr>Name = ''web'', GenerateName = [], Namespace = ''shop'', Labels = [],
               OwnerReferences = []\<rparr>"

definition healthyPod :: Pod where
  "healthyPod =
     \<lparr>PodMeta = webMeta,
      PodStatus = \<lparr>PodPhase = ''Running'', Conditions = [],
                   ContainerStatuses =
                     [\<lparr>ContainerName = ''app'',
                       State = \<lparr>Waiting = None, Terminated = None\<rparr>\<rparr>]\<rparr>\<rparr>"

definition crashLoopPod :: Pod where
  "crashLoopPod =
     \<lparr>PodMeta = webMeta,
      PodStatus = \<lparr>PodPhase = ''Running'', Conditions = [],
                   ContainerStatuses =
                     [\<lparr>ContainerName = ''app'',
                       State = \<lparr>Waiting = Some \<lparr>WaitingReason = ''CrashLoopBackOff''\<rparr>,
                                Terminated = None\<rparr>\<rparr>]\<rparr>\<rparr>"

definition killedPod :: Pod where
  "killedPod =
     \<lparr>PodMeta = webMeta,
      PodStatus = \<lparr>PodPhase = ''Running'', Conditions = [],
                   ContainerStatuses =
                     [\<lparr>ContainerName = ''app'',
                       State = \<lparr>Waiting = None,
                                Terminated = Some \<lparr>ExitCode = 137,
                                                   TerminatedReason = ''OOMKilled''\<rparr>\<rparr>\<rparr>]\<rparr>\<rparr>"

definition completedPod :: Pod where
  "completedPod =
     \<lparr>PodMeta = webMeta,
      PodStatus = \<lparr>PodPhase = ''Succeeded'', Conditions = [],
                   ContainerStatuses =
                     [\<lparr>ContainerName = ''app'',
                       State = \<lparr>Waiting = None,
                                Terminated = Some \<lparr>ExitCode = 0,
                                                   TerminatedReason = ''Completed''\<rparr>\<rparr>\<rparr>]\<rparr>\<rparr>"

definition failedPhasePod :: Pod where
  "failedPhasePod =
     \<lparr>PodMeta = webMeta,
      PodStatus = \<lparr>PodPhase = ''Failed'', Conditions = [],
                   ContainerStatuses =
                     [\<lparr>ContainerName = ''app'',
                       State = \<lparr>Waiting = None,
                                Terminated = Some \<lparr>ExitCode = 0,
                                                   TerminatedReason = ''Completed''\<rparr>\<rparr>\<rparr>]\<rparr>\<rparr>"

text \<open>
  The request the Failure Detector creates for \<open>crashLoopPod\<close> when the store appends
  \<open>x7k2p\<close> to the generated name, the same request after a successful diagnosis, and the
  stores that hold the pod and one of the two.
\<close>

definition pendingRequest :: PodDiagnosis where
  "pendingRequest =
     \<lparr>Meta = \<lparr>Name = ''web-diagnosis-x7k2p'', GenerateName = ''web-diagnosis-'',
              Namespace = ''shop'',
              Labels = [(''diagnosed-pod'', ''web''), (''created-by'', ''pod-watcher'')],
              OwnerReferences = [\<lparr>OwnerKind = ''Pod'', OwnerName = ''web'', Controller = True,
                                  BlockOwnerDeletion = True\<rparr>]\<rparr>,
      Spec = \<lparr>PodName = ''web'', TargetNamespace = ''shop'',
              TriggerReason = ''Pod entered failed state: unknown failure'',
              TailLines = 100\<rparr>,
      Status = \<lparr>Phase = [], RootCause = [], Suggestion = [], DiagnosisTime = None\<rparr>\<rparr>"

definition completedRequest :: PodDiagnosis where
  "completedRequest =
     pendingRequest\<lparr>Status := \<lparr>Phase = ''Completed'', RootCause = ''OOM'',
                                 Suggestion = ''increase memory limit'',
                                 DiagnosisTime = Some 1700000000\<rparr>\<rparr>"

definition requestKey :: "string \<times> string" where
  "requestKey = (''shop'', ''web-diagnosis-x7k2p'')"

definition startWorld :: World where
  "startWorld = \<lparr>pods = [crashLoopPod], diagnoses = [], effects = []\<rparr>"

definition pendingWorld :: World where
  "pendingWorld = \<lparr>pods = [crashLoopPod], diagnoses = [pendingRequest], effects = []\<rparr>"

definition completedWorld :: World where
  "completedWorld = \<lparr>pods = [crashLoopPod], diagnoses = [completedRequest], effects = []\<rparr>"

text \<open>
  Two contents a reasoning service may answer with, one with both fields and one with
  the root cause only, and the response bodies that carry them as the content of their
  first choice.
\<close>

definition fullContent :: string where
  \<open>fullContent = ''{"rootCause":"OOM","suggestion":"increase memory limit"}''\<close>

definition partialContent :: string where
  \<open>partialContent = ''{"rootCause":"OOM"}''\<close>

definition fullBody :: string where
  \<open>fullBody =
     ''{"choices":[{"message":{"content":"{''
     @ [CHR 0x5C]
     @ ''"rootCause''
     @ [CHR 0x5C]
     @ ''":''
     @ [CHR 0x5C]
     @ ''"OOM''
     @ [CHR 0x5C]
     @ ''",''
     @ [CHR 0x5C]
     @ ''"suggestion''
     @ [CHR 0x5C]
     @ ''":''
     @ [CHR 0x5C]
     @ ''"increase memory limit''
     @ [CHR 0x5C]
     @ ''"}"}}]}''\<close>

definition partialBody :: string where
  \<open>partialBody =
     ''{"choices":[{"message":{"content":"{''
     @ [CHR 0x5C]
     @ ''"rootCause''
     @ [CHR 0x5C]
     @ ''":''
     @ [CHR 0x5C]
     @ ''"OOM''
     @ [CHR 0x5C]
     @ ''"}"}}]}''\<close>

text \<open>
  Surroundings in which nothing fails: the store answers, the log source has one line,
  the reasoning service is configured and answers 200 with \<open>fullBody\<close>.
\<close>

definition quietEnv :: Env where
  "quietEnv =
     \<lparr>storeFault = (\<lambda>call. None),
      ownerReferenceFault = None,
      generatedSuffix = ''x7k2p'',
      podLogs = (\<lambda>request. LogText ''panic: out of memory''),
      getenv = (\<lambda>name. if name = ''AI_API_KEY'' then ''secret''
                        else if name = ''AI_API_URL'' then ''http://ai.example/v1''
                        else if name = ''AI_MODEL'' then ''m1'' else []),
      transport = (\<lambda>req. Response 200 fullBody),
      now = 1700000000,
      decodeErrorText = (\<lambda>body. ''unexpected end of JSON input''),
      unmarshalErrorText = (\<lambda>content. ''invalid character'')\<rparr>"

text \<open>
  The pending request with a tail-line count of 0 and with one of 250, and
  surroundings in which the reasoning service answers 204 with a body that is not JSON, answers 200 with
  \<open>partialBody\<close>, and answers 200 with a first choice whose content is not JSON.
\<close>

definition zeroTailRequest :: PodDiagnosis where
  "zeroTailRequest = pendingRequest\<lparr>Spec := (Spec pendingRequest)\<lparr>TailLines := 0\<rparr>\<rparr>"

definition zeroTailWorld :: World where
  "zeroTailWorld = \<lparr>pods = [crashLoopPod], diagnoses = [zeroTailRequest], effects = []\<rparr>"

definition longTailRequest :: PodDiagnosis where
  "longTailRequest = pendingRequest\<lparr>Spec := (Spec pendingRequest)\<lparr>TailLines := 250\<rparr>\<rparr>"

definition longTailWorld :: World where
  "longTailWorld = \<lparr>pods = [crashLoopPod], diagnoses = [longTailRequest], effects = []\<rparr>"

definition noContentEnv :: Env where
  "noContentEnv = quietEnv\<lparr>transport := (\<lambda>req. Response 204 ''<html>'')\<rparr>"

definition partialEnv :: Env where
  "partialEnv = quietEnv\<lparr>transport := (\<lambda>req. Response 200 partialBody)\<rparr>"

definition proseBody :: string where
  \<open>proseBody = ''{"choices":[{"message":{"content":"out of memory"}}]}''\<close>

definition proseEnv :: Env where
  "proseEnv = quietEnv\<lparr>transport := (\<lambda>req. Response 200 proseBody)\<rparr>"

text \<open>
  Surroundings in which the log stream cannot be opened, in which the read of the
  target pod fails with an infrastructure error, in which the store fails on the
  status patch, and in which it fails on \<^verbatim>\<open>List\<close>.
\<close>

definition logFailEnv :: Env where
  "logFailEnv = quietEnv\<lparr>podLogs := (\<lambda>request. StreamError ''pods web not found'')\<rparr>"

definition targetReadFailEnv :: Env where
  "targetReadFailEnv =
     quietEnv\<lparr>storeFault := (\<lambda>call. if call = GetTargetPodCall then Some ''etcd timeout''
                                      else None)\<rparr>"

definition patchFailEnv :: Env where
  "patchFailEnv =
     quietEnv\<lparr>storeFault := (\<lambda>call. if call = PatchStatusCall then Some ''etcd timeout''
                                      else None)\<rparr>"

definition listFailEnv :: Env where
  "listFailEnv =
     quietEnv\<lparr>storeFault := (\<lambda>call. if call = ListCall then Some ''etcd timeout'' else None)\<rparr>"

text \<open>
  Surroundings in which the store fails on the status patch and, besides, the log
  stream cannot be opened or the reasoning service answers 204.
\<close>

definition logAndPatchFailEnv :: Env where
  "logAndPatchFailEnv = patchFailEnv\<lparr>podLogs := (\<lambda>request. StreamError ''pods web not found'')\<rparr>"

definition noContentPatchFailEnv :: Env where
  "noContentPatchFailEnv = patchFailEnv\<lparr>transport := (\<lambda>req. Response 204 ''<html>'')\<rparr>"

text \<open>
  The store that holds the pod with its container killed, and no request; and a
  pending pod the scheduler could not place, with the condition the platform gives it,
  and the store that holds it.
\<close>

definition killedWorld :: World where
  "killedWorld = \<lparr>pods = [killedPod], diagnoses = [], effects = []\<rparr>"

definition unschedulablePod :: Pod where
  "unschedulablePod =
     \<lparr>PodMeta = webMeta,
      PodStatus = \<lparr>PodPhase = ''Pending'',
                   Conditions =
                     [\<lparr>Type = ''PodScheduled'', ConditionStatus = ''False'',
                       Reason = ''Unschedulable'',
                       ConditionMessage = ''0/3 nodes are available''\<rparr>],
                   ContainerStatuses = []\<rparr>\<rparr>"

definition unschedulableWorld :: World where
  "unschedulableWorld = \<lparr>pods = [unschedulablePod], diagnoses = [], effects = []\<rparr>"

section \<open>Failure classification\<close>

lemma unschedulableLoop_iff: "unschedulableLoop conds = list_ex reportsUnschedulable conds"
  by (induction conds) (auto simp: reportsUnschedulable_def)

lemma waitingLoop_iff:
  "waitingLoop statuses =
     list_ex (waitsWith [''ImagePullBackOff'', ''ErrImagePull'', ''CrashLoopBackOff'',
                          ''CreateContainerError'']) statuses"
  by (induction statuses) (auto simp: waitsWith_def split: option.splits)

text \<open>
  The loop with its two variables: it answers true at once on a container that has
  not terminated and waits with one of the two reasons, and otherwise the conjunction
  of what it has seen and what is still to come.
\<close>

lemma terminatedLoop_iff:
  "terminatedLoop statuses allTerminated hasNonZero =
     (list_ex (\<lambda>status. \<not> hasTerminated status
                 \<and> waitsWith [''CrashLoopBackOff'', ''CreateContainerError''] status) statuses
      \<or> (allTerminated \<and> list_all hasTerminated statuses)
         \<and> (hasNonZero \<or> list_ex exitedNonZero statuses))"
  by (induction statuses arbitrary: allTerminated hasNonZero)
     (auto simp: waitsWith_def hasTerminated_def exitedNonZero_def split: option.splits)

lemma isPodFailed_iff:
  "isPodFailed pod = (failedPhase pod \<or> pendingBlocked pod \<or> containersFailed pod)"
  unfolding isPodFailed_def failedPhase_def pendingBlocked_def containersFailed_def Let_def
    unschedulableLoop_iff waitingLoop_iff terminatedLoop_iff
  by auto

lemma waiting_not_terminated:
  assumes "oneStateEach pod" and "status \<in> set (ContainerStatuses (PodStatus pod))"
    and "waitsWith reasons status"
  shows "\<not> hasTerminated status"
proof -
  from assms(1,2) have "Waiting (State status) = None \<or> Terminated (State status) = None"
    by (simp add: oneStateEach_def list_all_iff)
  moreover from assms(3) have "Waiting (State status) \<noteq> None"
    by (auto simp: waitsWith_def split: option.splits)
  ultimately show ?thesis
    by (simp add: hasTerminated_def)
qed

lemma containersFailed_documented:
  assumes "oneStateEach pod"
  shows "containersFailed pod = containersFailedDocumented pod"
proof -
  let ?cs = "ContainerStatuses (PodStatus pod)"
  let ?w = "waitsWith [''CrashLoopBackOff'', ''CreateContainerError'']"
  have "list_ex (\<lambda>status. \<not> hasTerminated status \<and> ?w status) ?cs
        = (\<not> list_all hasTerminated ?cs \<and> list_ex ?w ?cs)"
    using waiting_not_terminated [OF assms]
    unfolding list_all_iff list_ex_iff by blast
  then show ?thesis
    by (simp add: containersFailed_def containersFailedDocumented_def Let_def)
qed

lemma allExitedZero_not_containersFailed: "allExitedZero pod \<Longrightarrow> \<not> containersFailed pod"
  unfolding allExitedZero_def containersFailed_def Let_def
  by (auto simp: list_all_iff list_ex_iff)

text \<open>
  C1, as amended. \<open>isPodFailed\<close> answers true exactly when one of the three documented
  conditions holds: the phase is the failure phase; or the phase is pending and a
  scheduling condition reports unschedulable or a container waits with one of the
  four reasons; or every container has terminated and one exit code is not zero, or
  a container that has not terminated waits with \<open>CrashLoopBackOff\<close> or
  \<open>CreateContainerError\<close>. When no container state has both its waiting and its
  terminated member set, the third condition is the documented one word for word.
  A pod whose containers have all terminated with exit code zero is classified
  failed exactly when the first or the second condition holds: the claim's "never"
  fails for it, see the counterexample.
\<close>

theorem isPodFailed_documented_conditions:
  "(isPodFailed pod = (failedPhase pod \<or> pendingBlocked pod \<or> containersFailed pod))
   \<and> (oneStateEach pod \<longrightarrow>
        isPodFailed pod = (failedPhase pod \<or> pendingBlocked pod \<or> containersFailedDocumented pod))
   \<and> (allExitedZero pod \<longrightarrow> isPodFailed pod = (failedPhase pod \<or> pendingBlocked pod))"
  using isPodFailed_iff [of pod] containersFailed_documented [of pod]
    allExitedZero_not_containersFailed [of pod]
  by auto

theorem isPodFailed_documented_conditions_witness:
  "oneStateEach completedPod \<and> allExitedZero completedPod \<and> \<not> isPodFailed completedPod
   \<and> isPodFailed completedPod
       = (failedPhase completedPod \<or> pendingBlocked completedPod
          \<or> containersFailedDocumented completedPod)"
proof -
  have one: "oneStateEach completedPod"
    by code_simp
  have zero: "allExitedZero completedPod"
    by code_simp
  have quiet: "\<not> failedPhase completedPod" "\<not> pendingBlocked completedPod"
    by code_simp+
  from isPodFailed_documented_conditions [of completedPod] one zero quiet
  show ?thesis
    by blast
qed

text \<open>
  The claim C1 as stated fails: in phase \<open>Failed\<close> a pod whose only container has
  terminated with exit code zero is classified failed.
\<close>

theorem isPodFailed_exited_zero_counterexample:
  "allExitedZero failedPhasePod \<and> isPodFailed failedPhasePod"
  by code_simp
section \<open>The event filter\<close>

lemma no_update_between_failed_states:
  "list_all isPodFailed states \<Longrightarrow> filter eventFilter (consecutiveUpdates states) = []"
  by (induction states rule: consecutiveUpdates.induct) simp_all

text \<open>
  C2. On pods, the filter admits an update exactly on the rising edge of
  \<open>isPodFailed\<close>, a creation exactly when the created pod is failed, and no deletion
  and no generic event; an event whose object is not a pod is not admitted. So an
  update from a failed state is never admitted, and a pod that goes through failed
  states only has none of its updates admitted.
\<close>

theorem eventFilter_rising_edge:
  "eventFilter (UpdateEvent (PodObject prior) (PodObject current))
     = (\<not> isPodFailed prior \<and> isPodFailed current)
   \<and> eventFilter (CreateEvent (PodObject current)) = isPodFailed current
   \<and> \<not> eventFilter (DeleteEvent obj)
   \<and> \<not> eventFilter (GenericEvent obj)
   \<and> \<not> eventFilter (CreateEvent OtherObject)
   \<and> \<not> eventFilter (UpdateEvent OtherObject obj)
   \<and> \<not> eventFilter (UpdateEvent obj OtherObject)
   \<and> (isPodFailed prior \<longrightarrow> \<not> eventFilter (UpdateEvent (PodObject prior) (PodObject current)))
   \<and> (list_all isPodFailed states \<longrightarrow> filter eventFilter (consecutiveUpdates states) = [])"
proof -
  have "\<not> eventFilter (UpdateEvent obj OtherObject)"
    by (cases obj) simp_all
  then show ?thesis
    using no_update_between_failed_states [of states]
    by (simp add: DeleteFunc_def GenericFunc_def)
qed

theorem eventFilter_rising_edge_witness:
  "isPodFailed crashLoopPod \<and> list_all isPodFailed [crashLoopPod, killedPod, crashLoopPod]
   \<and> \<not> eventFilter (UpdateEvent (PodObject crashLoopPod) (PodObject killedPod))
   \<and> filter eventFilter (consecutiveUpdates [crashLoopPod, killedPod, crashLoopPod]) = []
   \<and> eventFilter (UpdateEvent (PodObject healthyPod) (PodObject crashLoopPod))"
proof -
  have failed: "isPodFailed crashLoopPod" "isPodFailed killedPod"
    by code_simp+
  have healthy: "\<not> isPodFailed healthyPod"
    by code_simp
  from eventFilter_rising_edge [of crashLoopPod killedPod OtherObject
      "[crashLoopPod, killedPod, crashLoopPod]"]
    eventFilter_rising_edge [of healthyPod crashLoopPod OtherObject "[]"] failed healthy
  show ?thesis
    by simp
qed
section \<open>The entry guard of the lifecycle controller\<close>

lemma terminal_pass:
  assumes "storedRequest w req = Some d"
    and "Phase (Status d) = ''Completed'' \<or> Phase (Status d) = ''Failed''"
  shows "PodDiagnosis_Reconcile env w req
           = (w, map_option StoreFailure (storeFault env GetDiagnosisCall))"
  using assms
  by (auto simp: PodDiagnosis_Reconcile_def clientGetDiagnosis_def storedRequest_def
           split: option.splits)

lemma terminal_passes:
  assumes "storedRequest w req = Some d"
    and "Phase (Status d) = ''Completed'' \<or> Phase (Status d) = ''Failed''"
  shows "lifecyclePasses envs w req = w"
  using assms
  by (induction envs) (simp_all add: terminal_pass)

text \<open>
  C3. When the store holds the request in phase \<open>Completed\<close> or \<open>Failed\<close>, a pass
  leaves the whole state as it is: the store and the record of effects, so no log
  fetch, no reasoning call, no status patch and no event. It returns no error when the
  read of the request did not fail. Any number of further passes, in any surroundings,
  leave the state as it is.
\<close>

theorem terminal_request_is_left_alone:
  assumes "storedRequest w req = Some d"
    and "Phase (Status d) = ''Completed'' \<or> Phase (Status d) = ''Failed''"
  shows "fst (PodDiagnosis_Reconcile env w req) = w
         \<and> (storeFault env GetDiagnosisCall = None
              \<longrightarrow> PodDiagnosis_Reconcile env w req = (w, None))
         \<and> lifecyclePasses envs w req = w"
  using terminal_pass [OF assms, of env] terminal_passes [OF assms, of envs]
  by simp

theorem terminal_request_is_left_alone_witness:
  "storedRequest completedWorld requestKey = Some completedRequest
   \<and> Phase (Status completedRequest) = ''Completed''
   \<and> PodDiagnosis_Reconcile quietEnv completedWorld requestKey = (completedWorld, None)
   \<and> lifecyclePasses [quietEnv, quietEnv] completedWorld requestKey = completedWorld"
proof -
  have stored: "storedRequest completedWorld requestKey = Some completedRequest"
    by code_simp
  have phase: "Phase (Status completedRequest) = ''Completed''"
    by code_simp
  have quiet: "storeFault quietEnv GetDiagnosisCall = None"
    by (simp add: quietEnv_def)
  from terminal_request_is_left_alone [OF stored, of quietEnv "[quietEnv, quietEnv]"]
    stored phase quiet
  show ?thesis
    by simp
qed
section \<open>What a pass of the lifecycle controller does to the outside\<close>

lemma logRequests_append [simp]: "logRequests (es @ es') = logRequests es @ logRequests es'"
  by (induction es rule: logRequests.induct) simp_all

lemma httpRequests_append [simp]: "httpRequests (es @ es') = httpRequests es @ httpRequests es'"
  by (induction es rule: httpRequests.induct) simp_all

lemma statusPatches_append [simp]:
  "statusPatches (es @ es') = statusPatches es @ statusPatches es'"
  by (induction es rule: statusPatches.induct) simp_all

lemma recordedEvents_append [simp]:
  "recordedEvents (es @ es') = recordedEvents es @ recordedEvents es'"
  by (induction es rule: recordedEvents.induct) simp_all

lemma logRequests_HttpSent [simp]: "logRequests (map HttpSent sent) = []"
  by (induction sent) simp_all

lemma logRequests_LogsRequested [simp]: "logRequests (map LogsRequested asked) = asked"
  by (induction asked) simp_all

lemma httpRequests_LogsRequested [simp]: "httpRequests (map LogsRequested asked) = []"
  by (induction asked) simp_all

lemma statusPatches_LogsRequested [simp]: "statusPatches (map LogsRequested asked) = []"
  by (induction asked) simp_all

lemma recordedEvents_LogsRequested [simp]: "recordedEvents (map LogsRequested asked) = []"
  by (induction asked) simp_all

lemma statusPatches_HttpSent [simp]: "statusPatches (map HttpSent sent) = []"
  by (induction sent) simp_all

lemma recordedEvents_HttpSent [simp]: "recordedEvents (map HttpSent sent) = []"
  by (induction sent) simp_all

lemma httpRequests_HttpSent [simp]: "httpRequests (map HttpSent sent) = sent"
  by (induction sent) simp_all

lemma effects_recordEffects [simp]: "effects (recordEffects es w) = effects w @ es"
  by (simp add: recordEffects_def)

lemma diagnoses_recordEffects [simp]: "diagnoses (recordEffects es w) = diagnoses w"
  by (simp add: recordEffects_def)

lemma pods_recordEffects [simp]: "pods (recordEffects es w) = pods w"
  by (simp add: recordEffects_def)

lemma effects_statusPatch:
  "effects (fst (statusPatch env w obj base))
     = effects w @ [StatusPatchSent (Namespace (Meta obj)) (Name (Meta obj))
                      (mergeFrom (Status base) (Status obj))]"
  by (simp add: statusPatch_def Let_def split: option.splits)

lemma pods_statusPatch: "pods (fst (statusPatch env w obj base)) = pods w"
  by (simp add: statusPatch_def Let_def split: option.splits)

text \<open>The sign-extending conversion \<^verbatim>\<open>int64(x)\<close> of an \<^verbatim>\<open>int32\<close>.\<close>

lemma sint_widen: "sint (scast (x :: 32 word) :: 64 word) = sint x"
  by (simp add: sint_up_scast is_up)

lemma widen_zero: "((scast (x :: 32 word) :: 64 word) = 0) = (x = 0)"
proof
  assume "(scast x :: 64 word) = 0"
  then have "sint (scast x :: 64 word) = 0"
    by simp
  then have "sint x = 0"
    by (simp add: sint_widen)
  then show "x = 0"
    by (simp add: signed_eq_0_iff)
next
  assume "x = 0"
  then show "(scast x :: 64 word) = 0"
    by simp
qed

text \<open>\<^verbatim>\<open>getPodLogs\<close> asks for the stream of one request, whatever the stream gives.\<close>

lemma getPodLogs_asks:
  "fst (getPodLogs env namespace podName tailLines)
     = [\<lparr>LogNamespace = namespace, LogPodName = podName,
         LogOptions = \<lparr>OptTailLines = Some tailLines\<rparr>\<rparr>]"
  by (simp add: getPodLogs_def Let_def split: LogOutcome.splits)

lemma getPodLogs_pair:
  "getPodLogs env namespace podName tailLines
     = ([\<lparr>LogNamespace = namespace, LogPodName = podName,
          LogOptions = \<lparr>OptTailLines = Some tailLines\<rparr>\<rparr>],
        snd (getPodLogs env namespace podName tailLines))"
  using getPodLogs_asks [of env namespace podName tailLines]
  by (cases "getPodLogs env namespace podName tailLines") simp

lemma logOutcome_answer:
  "logOutcome env d
     = (case podLogs env (logRequestFor d (if TailLines (Spec d) = 0 then 100
                                            else scast (TailLines (Spec d)))) of
          StreamError err \<Rightarrow> Inl (msgOpenLogStreamFailed @ err)
        | CopyError err \<Rightarrow> Inl (msgReadLogFailed @ err)
        | LogText logs \<Rightarrow> Inr logs)"
  by (simp add: logOutcome_def getPodLogs_def logRequestFor_def Let_def widen_zero
           split: LogOutcome.splits)
section \<open>The status patch and the paths of a pass\<close>

lemma find_map_same:
  assumes "\<And>x. P (f x) = P x"
  shows "find P (map f xs) = map_option f (find P xs)"
  by (induction xs) (simp_all add: assms)

lemma apply_mergeFrom: "applyPatch (mergeFrom st st') st = st'"
  by (simp add: applyPatch_def mergeFrom_def changed_def)

lemma find_Some_member: "find P xs = Some x \<Longrightarrow> x \<in> set xs \<and> P x"
  by (induction xs) (auto split: if_splits)

lemma storedRequest_key:
  "storedRequest w req = Some d \<Longrightarrow> Namespace (Meta d) = fst req \<and> Name (Meta d) = snd req"
  using find_Some_member [of "\<lambda>d. sameObject (fst req) (snd req) (Meta d)" "diagnoses w" d]
  by (simp add: storedRequest_def sameObject_def)

lemma storedRequest_present:
  "storedRequest w req = Some d
   \<Longrightarrow> list_ex (\<lambda>d'. sameObject (fst req) (snd req) (Meta d')) (diagnoses w)"
  using find_Some_member [of "\<lambda>d. sameObject (fst req) (snd req) (Meta d)" "diagnoses w" d]
  by (auto simp: storedRequest_def list_ex_iff)

lemma statusPatch_fault:
  "storeFault env PatchStatusCall = Some text
   \<Longrightarrow> snd (statusPatch env w obj base) = Some (StoreFailure text)
       \<and> diagnoses (fst (statusPatch env w obj base)) = diagnoses w"
  by (simp add: statusPatch_def Let_def)

lemma statusPatch_stored:
  assumes "storeFault env PatchStatusCall = None" and "storedRequest w req = Some d"
  shows "snd (statusPatch env w (d\<lparr>Status := st\<rparr>) d) = None"
    and "storedRequest (fst (statusPatch env w (d\<lparr>Status := st\<rparr>) d)) req = Some (d\<lparr>Status := st\<rparr>)"
proof -
  let ?f = "\<lambda>d'. if sameObject (fst req) (snd req) (Meta d')
                  then d'\<lparr>Status := applyPatch (mergeFrom (Status d) st) (Status d')\<rparr> else d'"
  from storedRequest_key [OF assms(2)]
  have key: "Namespace (Meta d) = fst req" "Name (Meta d) = snd req"
    by simp_all
  have patched: "fst (statusPatch env w (d\<lparr>Status := st\<rparr>) d)
          = w\<lparr>effects := effects w @ [StatusPatchSent (fst req) (snd req) (mergeFrom (Status d) st)],
               diagnoses := map ?f (diagnoses w)\<rparr>"
    and "snd (statusPatch env w (d\<lparr>Status := st\<rparr>) d) = None"
    using assms(1) storedRequest_present [OF assms(2)] key
    by (simp_all add: statusPatch_def Let_def)
  then show "snd (statusPatch env w (d\<lparr>Status := st\<rparr>) d) = None"
    by simp
  have "find (\<lambda>d'. sameObject (fst req) (snd req) (Meta d')) (map ?f (diagnoses w))
          = map_option ?f (find (\<lambda>d'. sameObject (fst req) (snd req) (Meta d')) (diagnoses w))"
    by (rule find_map_same) simp
  also have "\<dots> = Some (?f d)"
    using assms(2) by (simp add: storedRequest_def)
  also have "?f d = d\<lparr>Status := st\<rparr>"
    using key by (simp add: sameObject_def apply_mergeFrom)
  finally show "storedRequest (fst (statusPatch env w (d\<lparr>Status := st\<rparr>) d)) req
                  = Some (d\<lparr>Status := st\<rparr>)"
    by (simp add: storedRequest_def patched)
qed

text \<open>The three paths of a pass on a request that has not reached a terminal phase.\<close>

lemma pass_on_log_failure:
  assumes "storeFault env GetDiagnosisCall = None" and "storedRequest w req = Some d"
    and "\<not> isTerminal d" and "logOutcome env d = Inl err"
  shows "PodDiagnosis_Reconcile env w req
           = (fst (statusPatch env
                     (recordEffects
                        [LogsRequested (logRequestFor d (if TailLines (Spec d) = 0 then 100
                                                          else scast (TailLines (Spec d))))] w)
                     (d\<lparr>Status := (Status d)\<lparr>Phase := ''Failed'',
                                               RootCause := msgFetchLogsFailed @ err,
                                               DiagnosisTime := Some (now env)\<rparr>\<rparr>) d),
              None)"
  using assms
  unfolding PodDiagnosis_Reconcile_def clientGetDiagnosis_def storedRequest_def isTerminal_def
    logOutcome_def
  by (simp add: Let_def widen_zero case_prod_beta getPodLogs_asks logRequestFor_def)

lemma pass_on_reasoning_failure:
  assumes "storeFault env GetDiagnosisCall = None" and "storedRequest w req = Some d"
    and "\<not> isTerminal d" and "logOutcome env d = Inr logs"
    and "reasoningOutcome env d logs = Inl err"
  shows "PodDiagnosis_Reconcile env w req
           = (fst (statusPatch env
                     (recordEffects
                        (LogsRequested (logRequestFor d (if TailLines (Spec d) = 0 then 100
                                                         else scast (TailLines (Spec d))))
                         # map HttpSent (fst (callAIEndpoint env (PodName (Spec d))
                                                 (TriggerReason (Spec d)) logs))) w)
                     (d\<lparr>Status := (Status d)\<lparr>Phase := ''Failed'',
                                               RootCause := msgDiagnosisFailed @ err,
                                               DiagnosisTime := Some (now env)\<rparr>\<rparr>) d),
              None)"
proof -
  obtain sent where call:
    "callAIEndpoint env (PodName (Spec d)) (TriggerReason (Spec d)) logs = (sent, Inl err)"
    using assms(5) unfolding reasoningOutcome_def
    by (cases "callAIEndpoint env (PodName (Spec d)) (TriggerReason (Spec d)) logs") simp
  show ?thesis
    using assms(1-4) call
    unfolding PodDiagnosis_Reconcile_def clientGetDiagnosis_def storedRequest_def isTerminal_def
      logOutcome_def
    by (simp add: Let_def widen_zero recordEffects_def case_prod_beta getPodLogs_asks
          logRequestFor_def)
qed

lemma pass_on_success:
  assumes "storeFault env GetDiagnosisCall = None" and "storedRequest w req = Some d"
    and "\<not> isTerminal d" and "logOutcome env d = Inr logs"
    and "reasoningOutcome env d logs = Inr result"
  shows "PodDiagnosis_Reconcile env w req
           = statusPatch env
               (recordEffects
                  (LogsRequested (logRequestFor d (if TailLines (Spec d) = 0 then 100
                                                   else scast (TailLines (Spec d))))
                   # map HttpSent (fst (callAIEndpoint env (PodName (Spec d))
                                           (TriggerReason (Spec d)) logs))
                   @ (case clientGetPod env GetTargetPodCall w
                             (TargetNamespace (Spec d), PodName (Spec d)) of
                        Inl err \<Rightarrow> []
                      | Inr targetPod \<Rightarrow>
                          [EventRecorded (Namespace (PodMeta targetPod)) (Name (PodMeta targetPod))
                             ''Warning'' ''AIDiagnosisResult''
                             (msgEventRootCause @ ResultRootCause result @ msgEventSuggestion
                              @ ResultSuggestion result)])) w)
               (d\<lparr>Status := (Status d)\<lparr>Phase := ''Completed'',
                                         RootCause := ResultRootCause result,
                                         Suggestion := ResultSuggestion result,
                                         DiagnosisTime := Some (now env)\<rparr>\<rparr>) d"
proof -
  obtain sent where call:
    "callAIEndpoint env (PodName (Spec d)) (TriggerReason (Spec d)) logs = (sent, Inr result)"
    using assms(5) unfolding reasoningOutcome_def
    by (cases "callAIEndpoint env (PodName (Spec d)) (TriggerReason (Spec d)) logs") simp
  show ?thesis
    using assms(1-4) call
    unfolding PodDiagnosis_Reconcile_def clientGetDiagnosis_def storedRequest_def isTerminal_def
      logOutcome_def
    by (simp add: Let_def widen_zero recordEffects_def clientGetPod_def case_prod_beta
          getPodLogs_asks logRequestFor_def
        split: option.splits sum.splits)
qed
section \<open>The reasoning service client\<close>

text \<open>What \<^verbatim>\<open>callAIEndpoint\<close> returns once the service has answered.\<close>

lemma callAIEndpoint_response:
  assumes "configured env"
    and "transport env (sentRequest env podName triggerReason logs) = Response statusCode body"
  shows "snd (callAIEndpoint env podName triggerReason logs)
           = (if statusCode \<noteq> 200 then Inl (msgBadStatus @ showInt statusCode)
              else (case decodeAIResponse body of
                      None \<Rightarrow> Inl (msgDecodeFailed @ decodeErrorText env body)
                    | Some aiResp \<Rightarrow>
                        (case Choices aiResp of
                           [] \<Rightarrow> Inl msgEmptyChoices
                         | choice # choices \<Rightarrow>
                             (case unmarshalDiagnosisResult (MessageContent (ChoiceMessage choice)) of
                                None \<Rightarrow>
                                  Inl (msgUnmarshalFailed @ MessageContent (ChoiceMessage choice)
                                       @ '', error: ''
                                       @ unmarshalErrorText env (MessageContent (ChoiceMessage choice)))
                              | Some result \<Rightarrow> Inr result))))"
  using assms
  by (simp add: callAIEndpoint_def configured_def sentRequest_def Let_def StatusOK_def
           split: option.splits list.splits)

lemma callAIEndpoint_sends:
  assumes "configured env"
    and "transport env (sentRequest env podName triggerReason logs) = Response statusCode body"
  shows "fst (callAIEndpoint env podName triggerReason logs)
           = [sentRequest env podName triggerReason logs]"
  using assms
  by (simp add: callAIEndpoint_def configured_def sentRequest_def Let_def StatusOK_def
           split: option.splits list.splits)

lemma callAIEndpoint_result_needs_200:
  assumes "snd (callAIEndpoint env podName triggerReason logs) = Inr result"
  shows "\<exists>body. transport env (sentRequest env podName triggerReason logs) = Response 200 body"
  using assms
  by (auto simp: callAIEndpoint_def sentRequest_def Let_def StatusOK_def
           split: if_splits HttpOutcome.splits option.splits list.splits)

text \<open>The concrete bodies and contents, read by the model of the JSON library.\<close>

lemma decode_fullBody:
  "decodeAIResponse fullBody
     = Some \<lparr>Choices = [\<lparr>ChoiceMessage = \<lparr>MessageContent = fullContent\<rparr>\<rparr>]\<rparr>"
  by code_simp

lemma decode_partialBody:
  "decodeAIResponse partialBody
     = Some \<lparr>Choices = [\<lparr>ChoiceMessage = \<lparr>MessageContent = partialContent\<rparr>\<rparr>]\<rparr>"
  by code_simp

lemma decode_proseBody:
  "decodeAIResponse proseBody
     = Some \<lparr>Choices = [\<lparr>ChoiceMessage = \<lparr>MessageContent = ''out of memory''\<rparr>\<rparr>]\<rparr>"
  by code_simp

lemma unmarshal_fullContent:
  "unmarshalDiagnosisResult fullContent
     = Some \<lparr>ResultRootCause = ''OOM'', ResultSuggestion = ''increase memory limit''\<rparr>"
  by code_simp

lemma checkValid_partialContent:
  "checkValid partialContent = Some (JObject [(''rootCause'', JString ''OOM'')])"
  by code_simp

lemma unmarshal_partialContent:
  "unmarshalDiagnosisResult partialContent
     = Some \<lparr>ResultRootCause = ''OOM'', ResultSuggestion = []\<rparr>"
  by code_simp

text \<open>
  The decoder of the response body stops after the first value; \<^verbatim>\<open>json.Unmarshal\<close>
  on a content refuses text after it.
\<close>

lemma decode_trailing_text:
  "decodeAIResponse ''nullx'' = Some \<lparr>Choices = []\<rparr>
   \<and> decodeAIResponse (fullBody @ ''x'')
       = Some \<lparr>Choices = [\<lparr>ChoiceMessage = \<lparr>MessageContent = fullContent\<rparr>\<rparr>]\<rparr>
   \<and> decodeAIResponse ''nulx'' = None
   \<and> decodeAIResponse [] = None
   \<and> unmarshalDiagnosisResult ''nullx'' = None
   \<and> unmarshalDiagnosisResult (fullContent @ ''x'') = None"
  by code_simp

lemma checkValid_prose: "checkValid ''out of memory'' = None"
  by code_simp

lemma configured_quietEnv: "configured quietEnv"
  by code_simp

lemma configured_partialEnv: "configured partialEnv"
  by code_simp

lemma configured_proseEnv: "configured proseEnv"
  by code_simp

text \<open>
  An object all of whose values are strings decodes without error, and a field that no
  key of the object selects keeps the value it had.
\<close>

lemma decodeMembers_strings:
  assumes "list_all (\<lambda>member. isJString (snd member)) members"
  shows "\<exists>r'. decodeMembers resultField members r = Some r'
           \<and> (\<not> list_ex (\<lambda>member. fieldMatches ''rootCause'' (fst member)) members
                \<longrightarrow> ResultRootCause r' = ResultRootCause r)
           \<and> (\<not> list_ex (\<lambda>member. fieldMatches ''suggestion'' (fst member)) members
                \<longrightarrow> ResultSuggestion r' = ResultSuggestion r)"
  using assms
proof (induction members arbitrary: r)
  case Nil
  then show ?case by simp
next
  case (Cons member members)
  obtain key v where member: "member = (key, v)"
    by (cases member)
  from Cons.prems member obtain str where v: "v = JString str"
    by (cases v) (simp_all add: isJString_def)
  from Cons.prems have rest: "list_all (\<lambda>member. isJString (snd member)) members"
    by simp
  show ?case
  proof (cases "fieldMatches ''rootCause'' key")
    case True
    with Cons.IH [OF rest, of "r\<lparr>ResultRootCause := str\<rparr>"] member v show ?thesis
      by (auto simp: resultField_def)
  next
    case False
    show ?thesis
    proof (cases "fieldMatches ''suggestion'' key")
      case True
      with False Cons.IH [OF rest, of "r\<lparr>ResultSuggestion := str\<rparr>"] member v show ?thesis
        by (auto simp: resultField_def)
    next
      case noSuggestion: False
      with False Cons.IH [OF rest, of r] member v show ?thesis
        by (auto simp: resultField_def)
    qed
  qed
qed

lemma unmarshal_object_of_strings:
  assumes "checkValid content = Some (JObject members)"
    and "list_all (\<lambda>member. isJString (snd member)) members"
  shows "\<exists>result. unmarshalDiagnosisResult content = Some result
           \<and> (\<not> list_ex (\<lambda>member. fieldMatches ''rootCause'' (fst member)) members
                \<longrightarrow> ResultRootCause result = [])
           \<and> (\<not> list_ex (\<lambda>member. fieldMatches ''suggestion'' (fst member)) members
                \<longrightarrow> ResultSuggestion result = [])"
  using decodeMembers_strings [OF assms(2), of "\<lparr>ResultRootCause = [], ResultSuggestion = []\<rparr>"]
    assms(1)
  by (simp add: unmarshalDiagnosisResult_def)

lemma unmarshal_invalid: "checkValid content = None \<Longrightarrow> unmarshalDiagnosisResult content = None"
  by (simp add: unmarshalDiagnosisResult_def)

text \<open>
  C10. When the service answers with a status code other than 200, 201 and 204
  included, \<^verbatim>\<open>callAIEndpoint\<close> returns the error whose text ends in the status code in
  decimal; neither the body nor the JSON library's error texts enter the result.
  A parsed result is returned only when the service answered 200.
\<close>

theorem only_status_200_is_parsed:
  "(configured env
      \<and> transport env (sentRequest env podName triggerReason logs) = Response statusCode body
      \<and> statusCode \<noteq> 200
    \<longrightarrow> snd (callAIEndpoint env podName triggerReason logs)
          = Inl (msgBadStatus @ showInt statusCode))
   \<and> (snd (callAIEndpoint env podName triggerReason logs) = Inr result
    \<longrightarrow> (\<exists>body'. transport env (sentRequest env podName triggerReason logs) = Response 200 body'))"
proof -
  show ?thesis
    using callAIEndpoint_response [of env podName triggerReason logs statusCode body]
      callAIEndpoint_result_needs_200 [of env podName triggerReason logs result]
    by auto
qed

theorem only_status_200_is_parsed_witness:
  "configured noContentEnv
   \<and> transport noContentEnv (sentRequest noContentEnv ''web'' ''why'' ''logs'')
       = Response 204 ''<html>''
   \<and> snd (callAIEndpoint noContentEnv ''web'' ''why'' ''logs'') = Inl (msgBadStatus @ ''204'')
   \<and> snd (callAIEndpoint quietEnv ''web'' ''why'' ''logs'')
       = Inr \<lparr>ResultRootCause = ''OOM'', ResultSuggestion = ''increase memory limit''\<rparr>
   \<and> (\<exists>body'. transport quietEnv (sentRequest quietEnv ''web'' ''why'' ''logs'')
                 = Response 200 body')"
proof -
  have conf: "configured noContentEnv"
    by code_simp
  have resp: "transport noContentEnv (sentRequest noContentEnv ''web'' ''why'' ''logs'')
                = Response 204 ''<html>''"
    by (simp add: noContentEnv_def)
  have shown: "showInt 204 = ''204''"
    by code_simp
  have "transport quietEnv (sentRequest quietEnv ''web'' ''why'' ''logs'') = Response 200 fullBody"
    by (simp add: quietEnv_def)
  from callAIEndpoint_response [OF configured_quietEnv this]
  have ok: "snd (callAIEndpoint quietEnv ''web'' ''why'' ''logs'')
              = Inr \<lparr>ResultRootCause = ''OOM'', ResultSuggestion = ''increase memory limit''\<rparr>"
    by (simp add: decode_fullBody unmarshal_fullContent)
  from only_status_200_is_parsed [of noContentEnv "''web''" "''why''" "''logs''" 204 "''<html>''"]
    only_status_200_is_parsed [of quietEnv "''web''" "''why''" "''logs''" _ _
      "\<lparr>ResultRootCause = ''OOM'', ResultSuggestion = ''increase memory limit''\<rparr>"]
    conf resp shown ok
  show ?thesis
    by simp
qed

text \<open>
  C5, as amended. Let the service answer 200 with a body whose first choice has the
  content \<open>content\<close>. If the content is the object with root cause \<open>OOM\<close> and suggestion
  \<open>increase memory limit\<close>, the result has exactly those two values. If the content
  is not one JSON value, the call returns an error whose text contains the content,
  and no result. If the content is a JSON object whose values are strings, the call
  returns a result, and a field that no key of the object selects is the empty string:
  a missing field is not an error.
\<close>

theorem content_parsing:
  assumes "configured env"
    and "transport env (sentRequest env podName triggerReason logs) = Response 200 body"
    and "decodeAIResponse body = Some aiResp"
    and "Choices aiResp = choice # choices"
    and "content = MessageContent (ChoiceMessage choice)"
  shows "(content = fullContent \<longrightarrow>
            snd (callAIEndpoint env podName triggerReason logs)
              = Inr \<lparr>ResultRootCause = ''OOM'', ResultSuggestion = ''increase memory limit''\<rparr>)
         \<and> (checkValid content = None \<longrightarrow>
              (\<exists>err. snd (callAIEndpoint env podName triggerReason logs) = Inl err
                       \<and> sublist content err))
         \<and> (checkValid content = Some (JObject members)
              \<and> list_all (\<lambda>member. isJString (snd member)) members \<longrightarrow>
              (\<exists>result. snd (callAIEndpoint env podName triggerReason logs) = Inr result
                 \<and> (\<not> list_ex (\<lambda>member. fieldMatches ''rootCause'' (fst member)) members
                      \<longrightarrow> ResultRootCause result = [])
                 \<and> (\<not> list_ex (\<lambda>member. fieldMatches ''suggestion'' (fst member)) members
                      \<longrightarrow> ResultSuggestion result = [])))"
proof -
  have call: "snd (callAIEndpoint env podName triggerReason logs)
                = (case unmarshalDiagnosisResult content of
                     None \<Rightarrow> Inl (msgUnmarshalFailed @ content @ '', error: ''
                                   @ unmarshalErrorText env content)
                   | Some result \<Rightarrow> Inr result)"
    unfolding assms(5)
    using callAIEndpoint_response [OF assms(1,2)] assms(3,4)
    by simp
  have full: "content = fullContent \<longrightarrow>
                snd (callAIEndpoint env podName triggerReason logs)
                  = Inr \<lparr>ResultRootCause = ''OOM'', ResultSuggestion = ''increase memory limit''\<rparr>"
    using call unmarshal_fullContent by simp
  have invalid: "checkValid content = None \<longrightarrow>
                   (\<exists>err. snd (callAIEndpoint env podName triggerReason logs) = Inl err
                            \<and> sublist content err)"
  proof
    assume "checkValid content = None"
    then have "snd (callAIEndpoint env podName triggerReason logs)
                 = Inl (msgUnmarshalFailed @ content @ ('', error: ''
                        @ unmarshalErrorText env content))"
      using call unmarshal_invalid by simp
    moreover have "sublist content (msgUnmarshalFailed @ content @ ('', error: ''
                        @ unmarshalErrorText env content))"
      by (rule sublist_appendI)
    ultimately show "\<exists>err. snd (callAIEndpoint env podName triggerReason logs) = Inl err
                            \<and> sublist content err"
      by blast
  qed
  have partial: "checkValid content = Some (JObject members)
              \<and> list_all (\<lambda>member. isJString (snd member)) members \<longrightarrow>
              (\<exists>result. snd (callAIEndpoint env podName triggerReason logs) = Inr result
                 \<and> (\<not> list_ex (\<lambda>member. fieldMatches ''rootCause'' (fst member)) members
                      \<longrightarrow> ResultRootCause result = [])
                 \<and> (\<not> list_ex (\<lambda>member. fieldMatches ''suggestion'' (fst member)) members
                      \<longrightarrow> ResultSuggestion result = []))"
  proof
    assume object: "checkValid content = Some (JObject members)
              \<and> list_all (\<lambda>member. isJString (snd member)) members"
    from unmarshal_object_of_strings [of content members] object
    obtain result where "unmarshalDiagnosisResult content = Some result"
      and "\<not> list_ex (\<lambda>member. fieldMatches ''rootCause'' (fst member)) members
                      \<longrightarrow> ResultRootCause result = []"
      and "\<not> list_ex (\<lambda>member. fieldMatches ''suggestion'' (fst member)) members
                      \<longrightarrow> ResultSuggestion result = []"
      by blast
    with call show "\<exists>result. snd (callAIEndpoint env podName triggerReason logs) = Inr result
                 \<and> (\<not> list_ex (\<lambda>member. fieldMatches ''rootCause'' (fst member)) members
                      \<longrightarrow> ResultRootCause result = [])
                 \<and> (\<not> list_ex (\<lambda>member. fieldMatches ''suggestion'' (fst member)) members
                      \<longrightarrow> ResultSuggestion result = [])"
      by simp
  qed
  from full invalid partial show ?thesis
    by blast
qed

theorem content_parsing_witness:
  "configured quietEnv
   \<and> decodeAIResponse fullBody
       = Some \<lparr>Choices = [\<lparr>ChoiceMessage = \<lparr>MessageContent = fullContent\<rparr>\<rparr>]\<rparr>
   \<and> snd (callAIEndpoint quietEnv ''web'' ''why'' ''logs'')
       = Inr \<lparr>ResultRootCause = ''OOM'', ResultSuggestion = ''increase memory limit''\<rparr>
   \<and> checkValid ''out of memory'' = None
   \<and> (\<exists>err. snd (callAIEndpoint proseEnv ''web'' ''why'' ''logs'') = Inl err
              \<and> sublist ''out of memory'' err)
   \<and> checkValid partialContent = Some (JObject [(''rootCause'', JString ''OOM'')])
   \<and> (\<exists>result. snd (callAIEndpoint partialEnv ''web'' ''why'' ''logs'') = Inr result
                 \<and> ResultSuggestion result = [])"
proof -
  have choices: "Choices \<lparr>Choices = [\<lparr>ChoiceMessage = \<lparr>MessageContent = c\<rparr>\<rparr>]\<rparr>
                   = \<lparr>ChoiceMessage = \<lparr>MessageContent = c\<rparr>\<rparr> # []" for c
    by simp
  have content: "c = MessageContent (ChoiceMessage \<lparr>ChoiceMessage = \<lparr>MessageContent = c\<rparr>\<rparr>)" for c
    by simp
  have answerFull:
    "transport quietEnv (sentRequest quietEnv ''web'' ''why'' ''logs'') = Response 200 fullBody"
    by (simp add: quietEnv_def)
  have answerProse:
    "transport proseEnv (sentRequest proseEnv ''web'' ''why'' ''logs'') = Response 200 proseBody"
    by (simp add: proseEnv_def)
  have answerPartial:
    "transport partialEnv (sentRequest partialEnv ''web'' ''why'' ''logs'')
       = Response 200 partialBody"
    by (simp add: partialEnv_def)
  have full: "snd (callAIEndpoint quietEnv ''web'' ''why'' ''logs'')
       = Inr \<lparr>ResultRootCause = ''OOM'', ResultSuggestion = ''increase memory limit''\<rparr>"
    using content_parsing [OF configured_quietEnv answerFull decode_fullBody choices content]
    by blast
  have prose: "\<exists>err. snd (callAIEndpoint proseEnv ''web'' ''why'' ''logs'') = Inl err
              \<and> sublist ''out of memory'' err"
    using content_parsing [OF configured_proseEnv answerProse decode_proseBody choices content]
      checkValid_prose
    by blast
  have none: "\<not> list_ex (\<lambda>member. fieldMatches ''suggestion'' (fst member))
                   [(''rootCause'', JString ''OOM'')]"
    by code_simp
  have strings: "list_all (\<lambda>member. isJString (snd member)) [(''rootCause'', JString ''OOM'')]"
    by code_simp
  have partial: "\<exists>result. snd (callAIEndpoint partialEnv ''web'' ''why'' ''logs'') = Inr result
                 \<and> ResultSuggestion result = []"
    using content_parsing [OF configured_partialEnv answerPartial decode_partialBody choices
        content, of "[(''rootCause'', JString ''OOM'')]"]
      checkValid_partialContent none strings
    by blast
  from full prose partial configured_quietEnv decode_fullBody checkValid_prose
    checkValid_partialContent
  show ?thesis
    by blast
qed

text \<open>
  The claim C5 as stated fails: the content \<^verbatim>\<open>{"rootCause":"OOM"}\<close> lacks the suggestion
  and yields a result, with an empty suggestion, not an error.
\<close>

theorem partial_content_counterexample:
  "decodeAIResponse partialBody
     = Some \<lparr>Choices = [\<lparr>ChoiceMessage = \<lparr>MessageContent = partialContent\<rparr>\<rparr>]\<rparr>
   \<and> snd (callAIEndpoint partialEnv ''web'' ''why'' ''logs'')
       = Inr \<lparr>ResultRootCause = ''OOM'', ResultSuggestion = []\<rparr>"
proof -
  have "transport partialEnv (sentRequest partialEnv ''web'' ''why'' ''logs'')
          = Response 200 partialBody"
    by (simp add: partialEnv_def)
  from callAIEndpoint_response [OF configured_partialEnv this]
  show ?thesis
    by (simp add: decode_partialBody unmarshal_partialContent)
qed
section \<open>Status transitions\<close>

text \<open>The concrete surroundings, as the pass meets them.\<close>

lemma logOutcome_quietEnv: "logOutcome quietEnv pendingRequest = Inr ''panic: out of memory''"
  by (simp add: logOutcome_def getPodLogs_def Let_def quietEnv_def)

lemma logOutcome_noContentEnv: "logOutcome noContentEnv pendingRequest = Inr ''panic: out of memory''"
  by (simp add: logOutcome_def getPodLogs_def Let_def quietEnv_def noContentEnv_def)

lemma logOutcome_logFailEnv:
  "logOutcome logFailEnv pendingRequest = Inl (msgOpenLogStreamFailed @ ''pods web not found'')"
  by (simp add: logOutcome_def getPodLogs_def Let_def logFailEnv_def)

lemma reasoningOutcome_quietEnv:
  "reasoningOutcome quietEnv pendingRequest logs
     = Inr \<lparr>ResultRootCause = ''OOM'', ResultSuggestion = ''increase memory limit''\<rparr>"
proof -
  have "transport quietEnv (sentRequest quietEnv podName triggerReason logs)
          = Response 200 fullBody" for podName triggerReason
    by (simp add: quietEnv_def)
  from callAIEndpoint_response [OF configured_quietEnv this]
  show ?thesis
    by (simp add: reasoningOutcome_def decode_fullBody unmarshal_fullContent)
qed

lemma reasoningOutcome_noContentEnv:
  "reasoningOutcome noContentEnv pendingRequest logs = Inl (msgBadStatus @ ''204'')"
proof -
  have conf: "configured noContentEnv"
    by code_simp
  have shown: "showInt 204 = ''204''"
    by code_simp
  have "transport noContentEnv (sentRequest noContentEnv podName triggerReason logs)
          = Response 204 ''<html>''" for podName triggerReason
    by (simp add: noContentEnv_def)
  from callAIEndpoint_response [OF conf this] shown
  show ?thesis
    by (simp add: reasoningOutcome_def)
qed

lemma stored_pendingRequest: "storedRequest pendingWorld requestKey = Some pendingRequest"
  by code_simp

lemma open_pendingRequest: "\<not> isTerminal pendingRequest"
  by code_simp

lemma stored_after_effects:
  "storedRequest w req = Some d \<Longrightarrow> storedRequest (recordEffects es w) req = Some d"
  by (simp add: storedRequest_def)

lemma failed_patch_leaves_suggestion:
  "patchSuggestion (mergeFrom st (st\<lparr>Phase := phase, RootCause := cause,
                                    DiagnosisTime := time\<rparr>)) = None"
  by (simp add: mergeFrom_def changed_def)

lemma transition_on_log_failure:
  assumes "storeFault env GetDiagnosisCall = None" and "storedRequest w req = Some d"
    and "\<not> isTerminal d" and "logOutcome env d = Inl err"
  shows "statusPatches (effects (fst (PodDiagnosis_Reconcile env w req)))
              = statusPatches (effects w)
                @ [mergeFrom (Status d)
                     ((Status d)\<lparr>Phase := ''Failed'', RootCause := msgFetchLogsFailed @ err,
                                 DiagnosisTime := Some (now env)\<rparr>)]
            \<and> patchSuggestion (mergeFrom (Status d)
                     ((Status d)\<lparr>Phase := ''Failed'', RootCause := msgFetchLogsFailed @ err,
                                 DiagnosisTime := Some (now env)\<rparr>)) = None
            \<and> (storeFault env PatchStatusCall = None \<longrightarrow>
                 storedRequest (fst (PodDiagnosis_Reconcile env w req)) req
                   = Some (d\<lparr>Status := (Status d)\<lparr>Phase := ''Failed'',
                                                   RootCause := msgFetchLogsFailed @ err,
                                                   DiagnosisTime := Some (now env)\<rparr>\<rparr>))"
  using pass_on_log_failure [OF assms] failed_patch_leaves_suggestion
    statusPatch_stored(2) [OF _ stored_after_effects [OF assms(2)], of env]
  by (simp add: effects_statusPatch)

lemma transition_on_reasoning_failure:
  assumes "storeFault env GetDiagnosisCall = None" and "storedRequest w req = Some d"
    and "\<not> isTerminal d" and "logOutcome env d = Inr logs"
    and "reasoningOutcome env d logs = Inl err"
  shows "statusPatches (effects (fst (PodDiagnosis_Reconcile env w req)))
              = statusPatches (effects w)
                @ [mergeFrom (Status d)
                     ((Status d)\<lparr>Phase := ''Failed'', RootCause := msgDiagnosisFailed @ err,
                                 DiagnosisTime := Some (now env)\<rparr>)]
            \<and> patchSuggestion (mergeFrom (Status d)
                     ((Status d)\<lparr>Phase := ''Failed'', RootCause := msgDiagnosisFailed @ err,
                                 DiagnosisTime := Some (now env)\<rparr>)) = None
            \<and> (storeFault env PatchStatusCall = None \<longrightarrow>
                 storedRequest (fst (PodDiagnosis_Reconcile env w req)) req
                   = Some (d\<lparr>Status := (Status d)\<lparr>Phase := ''Failed'',
                                                   RootCause := msgDiagnosisFailed @ err,
                                                   DiagnosisTime := Some (now env)\<rparr>\<rparr>))"
  using pass_on_reasoning_failure [OF assms] failed_patch_leaves_suggestion
    statusPatch_stored(2) [OF _ stored_after_effects [OF assms(2)], of env]
  by (simp add: effects_statusPatch)

lemma transition_on_success:
  assumes "storeFault env GetDiagnosisCall = None" and "storedRequest w req = Some d"
    and "\<not> isTerminal d" and "logOutcome env d = Inr logs"
    and "reasoningOutcome env d logs = Inr result"
  shows "statusPatches (effects (fst (PodDiagnosis_Reconcile env w req)))
              = statusPatches (effects w)
                @ [mergeFrom (Status d)
                     \<lparr>Phase = ''Completed'', RootCause = ResultRootCause result,
                      Suggestion = ResultSuggestion result, DiagnosisTime = Some (now env)\<rparr>]
            \<and> (storeFault env PatchStatusCall = None \<longrightarrow>
                 storedRequest (fst (PodDiagnosis_Reconcile env w req)) req
                   = Some (d\<lparr>Status := \<lparr>Phase = ''Completed'',
                                         RootCause = ResultRootCause result,
                                         Suggestion = ResultSuggestion result,
                                         DiagnosisTime = Some (now env)\<rparr>\<rparr>))"
proof -
  have whole: "(Status d)\<lparr>Phase := ''Completed'', RootCause := ResultRootCause result,
                           Suggestion := ResultSuggestion result,
                           DiagnosisTime := Some (now env)\<rparr>
               = \<lparr>Phase = ''Completed'', RootCause = ResultRootCause result,
                  Suggestion = ResultSuggestion result, DiagnosisTime = Some (now env)\<rparr>"
    by simp
  show ?thesis
    using pass_on_success [OF assms] whole
      statusPatch_stored(2) [OF _ stored_after_effects [OF assms(2)], of env]
    by (simp add: effects_statusPatch split: sum.splits)
qed

lemma quiet_store: "storeFault quietEnv call = None"
  by (simp add: quietEnv_def)


text \<open>
  C6, as amended. A pass on a request that has not reached a terminal phase sends one
  status patch, the merge patch from the request as it was read to the request with
  its status changed. After a log-fetch error and after a reasoning error the changed
  status differs from the old one in phase (\<open>Failed\<close>), root cause (the error text) and
  completion time; the suggestion is not assigned and is not part of the patch. On
  success the changed status is phase \<open>Completed\<close> with the root cause and suggestion
  of the result and the completion time. When the store accepts the patch, the stored
  request carries the changed status.
\<close>

theorem status_transitions:
  assumes "storeFault env GetDiagnosisCall = None" and "storedRequest w req = Some d"
    and "\<not> isTerminal d"
  shows "(logOutcome env d = Inl err \<longrightarrow>
            statusPatches (effects (fst (PodDiagnosis_Reconcile env w req)))
              = statusPatches (effects w)
                @ [mergeFrom (Status d)
                     ((Status d)\<lparr>Phase := ''Failed'', RootCause := msgFetchLogsFailed @ err,
                                 DiagnosisTime := Some (now env)\<rparr>)]
            \<and> patchSuggestion (mergeFrom (Status d)
                     ((Status d)\<lparr>Phase := ''Failed'', RootCause := msgFetchLogsFailed @ err,
                                 DiagnosisTime := Some (now env)\<rparr>)) = None
            \<and> (storeFault env PatchStatusCall = None \<longrightarrow>
                 storedRequest (fst (PodDiagnosis_Reconcile env w req)) req
                   = Some (d\<lparr>Status := (Status d)\<lparr>Phase := ''Failed'',
                                                   RootCause := msgFetchLogsFailed @ err,
                                                   DiagnosisTime := Some (now env)\<rparr>\<rparr>)))
         \<and> (logOutcome env d = Inr logs \<and> reasoningOutcome env d logs = Inl err \<longrightarrow>
            statusPatches (effects (fst (PodDiagnosis_Reconcile env w req)))
              = statusPatches (effects w)
                @ [mergeFrom (Status d)
                     ((Status d)\<lparr>Phase := ''Failed'', RootCause := msgDiagnosisFailed @ err,
                                 DiagnosisTime := Some (now env)\<rparr>)]
            \<and> patchSuggestion (mergeFrom (Status d)
                     ((Status d)\<lparr>Phase := ''Failed'', RootCause := msgDiagnosisFailed @ err,
                                 DiagnosisTime := Some (now env)\<rparr>)) = None
            \<and> (storeFault env PatchStatusCall = None \<longrightarrow>
                 storedRequest (fst (PodDiagnosis_Reconcile env w req)) req
                   = Some (d\<lparr>Status := (Status d)\<lparr>Phase := ''Failed'',
                                                   RootCause := msgDiagnosisFailed @ err,
                                                   DiagnosisTime := Some (now env)\<rparr>\<rparr>)))
         \<and> (logOutcome env d = Inr logs \<and> reasoningOutcome env d logs = Inr result \<longrightarrow>
            statusPatches (effects (fst (PodDiagnosis_Reconcile env w req)))
              = statusPatches (effects w)
                @ [mergeFrom (Status d)
                     \<lparr>Phase = ''Completed'', RootCause = ResultRootCause result,
                      Suggestion = ResultSuggestion result, DiagnosisTime = Some (now env)\<rparr>]
            \<and> (storeFault env PatchStatusCall = None \<longrightarrow>
                 storedRequest (fst (PodDiagnosis_Reconcile env w req)) req
                   = Some (d\<lparr>Status := \<lparr>Phase = ''Completed'',
                                         RootCause = ResultRootCause result,
                                         Suggestion = ResultSuggestion result,
                                         DiagnosisTime = Some (now env)\<rparr>\<rparr>)))"
  using transition_on_log_failure [OF assms, of err]
    transition_on_reasoning_failure [OF assms, of logs err]
    transition_on_success [OF assms, of logs result]
  by blast

theorem status_transitions_witness:
  "storedRequest pendingWorld requestKey = Some pendingRequest
   \<and> \<not> isTerminal pendingRequest
   \<and> logOutcome logFailEnv pendingRequest = Inl (msgOpenLogStreamFailed @ ''pods web not found'')
   \<and> storedRequest (fst (PodDiagnosis_Reconcile logFailEnv pendingWorld requestKey)) requestKey
       = Some (pendingRequest\<lparr>Status :=
                 \<lparr>Phase = ''Failed'',
                  RootCause = msgFetchLogsFailed @ msgOpenLogStreamFailed @ ''pods web not found'',
                  Suggestion = [], DiagnosisTime = Some 1700000000\<rparr>\<rparr>)
   \<and> reasoningOutcome noContentEnv pendingRequest ''panic: out of memory''
       = Inl (msgBadStatus @ ''204'')
   \<and> storedRequest (fst (PodDiagnosis_Reconcile noContentEnv pendingWorld requestKey)) requestKey
       = Some (pendingRequest\<lparr>Status :=
                 \<lparr>Phase = ''Failed'', RootCause = msgDiagnosisFailed @ msgBadStatus @ ''204'',
                  Suggestion = [], DiagnosisTime = Some 1700000000\<rparr>\<rparr>)
   \<and> reasoningOutcome quietEnv pendingRequest ''panic: out of memory''
       = Inr \<lparr>ResultRootCause = ''OOM'', ResultSuggestion = ''increase memory limit''\<rparr>
   \<and> storedRequest (fst (PodDiagnosis_Reconcile quietEnv pendingWorld requestKey)) requestKey
       = Some (pendingRequest\<lparr>Status :=
                 \<lparr>Phase = ''Completed'', RootCause = ''OOM'',
                  Suggestion = ''increase memory limit'', DiagnosisTime = Some 1700000000\<rparr>\<rparr>)"
proof -
  have store: "storeFault logFailEnv call = None" "storeFault noContentEnv call = None" for call
    by (simp_all add: logFailEnv_def noContentEnv_def quietEnv_def)
  have clock: "now logFailEnv = 1700000000" "now noContentEnv = 1700000000"
    "now quietEnv = 1700000000"
    by (simp_all add: logFailEnv_def noContentEnv_def quietEnv_def)
  have fresh: "Status pendingRequest
                 = \<lparr>Phase = [], RootCause = [], Suggestion = [], DiagnosisTime = None\<rparr>"
    by (simp add: pendingRequest_def)
  from status_transitions [OF store(1) stored_pendingRequest open_pendingRequest,
      where err = "msgOpenLogStreamFailed @ ''pods web not found''"]
    logOutcome_logFailEnv store(1) clock(1) fresh
  have first: "storedRequest (fst (PodDiagnosis_Reconcile logFailEnv pendingWorld requestKey))
                 requestKey
       = Some (pendingRequest\<lparr>Status :=
                 \<lparr>Phase = ''Failed'',
                  RootCause = msgFetchLogsFailed @ msgOpenLogStreamFailed @ ''pods web not found'',
                  Suggestion = [], DiagnosisTime = Some 1700000000\<rparr>\<rparr>)"
    by simp
  from status_transitions [OF store(2) stored_pendingRequest open_pendingRequest,
      where logs = "''panic: out of memory''" and err = "msgBadStatus @ ''204''"]
    logOutcome_noContentEnv reasoningOutcome_noContentEnv store(2) clock(2) fresh
  have second: "storedRequest (fst (PodDiagnosis_Reconcile noContentEnv pendingWorld requestKey))
                  requestKey
       = Some (pendingRequest\<lparr>Status :=
                 \<lparr>Phase = ''Failed'', RootCause = msgDiagnosisFailed @ msgBadStatus @ ''204'',
                  Suggestion = [], DiagnosisTime = Some 1700000000\<rparr>\<rparr>)"
    by simp
  from status_transitions [OF quiet_store stored_pendingRequest open_pendingRequest,
      where logs = "''panic: out of memory''"
        and result = "\<lparr>ResultRootCause = ''OOM'', ResultSuggestion = ''increase memory limit''\<rparr>"]
    logOutcome_quietEnv reasoningOutcome_quietEnv quiet_store clock(3)
  have third: "storedRequest (fst (PodDiagnosis_Reconcile quietEnv pendingWorld requestKey))
                 requestKey
       = Some (pendingRequest\<lparr>Status :=
                 \<lparr>Phase = ''Completed'', RootCause = ''OOM'',
                  Suggestion = ''increase memory limit'', DiagnosisTime = Some 1700000000\<rparr>\<rparr>)"
    by simp
  from first second third stored_pendingRequest open_pendingRequest logOutcome_logFailEnv
    reasoningOutcome_noContentEnv reasoningOutcome_quietEnv
  show ?thesis
    by simp
qed

text \<open>
  The claim C6 as stated fails: after a log-fetch error the one patch of the pass
  carries phase, root cause and completion time and no suggestion, and the stored
  suggestion is still empty.
\<close>

theorem failed_transition_counterexample:
  "statusPatches (effects (fst (PodDiagnosis_Reconcile logFailEnv pendingWorld requestKey)))
     = [\<lparr>patchPhase = Some ''Failed'',
         patchRootCause = Some (msgFetchLogsFailed @ msgOpenLogStreamFailed
                                @ ''pods web not found''),
         patchSuggestion = None,
         patchDiagnosisTime = Some (Some 1700000000)\<rparr>]
   \<and> map_option (\<lambda>d. Suggestion (Status d))
         (storedRequest (fst (PodDiagnosis_Reconcile logFailEnv pendingWorld requestKey))
            requestKey)
       = Some []"
  by code_simp
section \<open>The log fetch\<close>

lemma pending_pass_log_requests:
  assumes "storeFault env GetDiagnosisCall = None" and "storedRequest w req = Some d"
    and "\<not> isTerminal d"
  shows "logRequests (effects (fst (PodDiagnosis_Reconcile env w req)))
           = logRequests (effects w)
             @ [logRequestFor d (if TailLines (Spec d) = 0 then 100
                                 else scast (TailLines (Spec d)))]"
  using assms
  unfolding PodDiagnosis_Reconcile_def clientGetDiagnosis_def storedRequest_def isTerminal_def
  by (simp add: Let_def widen_zero effects_statusPatch case_prod_beta getPodLogs_asks
        logRequestFor_def split: sum.splits)

lemma pending_pass_sends_logs:
  assumes "storeFault env GetDiagnosisCall = None" and "storedRequest w req = Some d"
    and "\<not> isTerminal d" and "logOutcome env d = Inr logs"
  shows "httpRequests (effects (fst (PodDiagnosis_Reconcile env w req)))
           = httpRequests (effects w)
             @ fst (callAIEndpoint env (PodName (Spec d)) (TriggerReason (Spec d)) logs)"
proof (cases "reasoningOutcome env d logs")
  case (Inl err)
  from pass_on_reasoning_failure [OF assms Inl] show ?thesis
    by (simp add: effects_statusPatch)
next
  case (Inr result)
  from pass_on_success [OF assms Inr] show ?thesis
    by (simp add: effects_statusPatch split: sum.splits)
qed

lemma pending_pass_without_logs:
  assumes "storeFault env GetDiagnosisCall = None" and "storedRequest w req = Some d"
    and "\<not> isTerminal d" and "logOutcome env d = Inl err"
  shows "httpRequests (effects (fst (PodDiagnosis_Reconcile env w req))) = httpRequests (effects w)"
    and "statusPatches (effects (fst (PodDiagnosis_Reconcile env w req)))
           = statusPatches (effects w)
             @ [mergeFrom (Status d)
                  ((Status d)\<lparr>Phase := ''Failed'', RootCause := msgFetchLogsFailed @ err,
                              DiagnosisTime := Some (now env)\<rparr>)]"
  using pass_on_log_failure [OF assms]
  by (simp_all add: effects_statusPatch)

text \<open>
  C9. A pass on a request that has not reached a terminal phase asks for the stream of
  one log request: that of the target pod in the target namespace, with options whose
  tail-line limit is set, to 100 when the spec's count is 0 and to the spec's count
  otherwise (the \<^verbatim>\<open>int32\<close> widened to \<^verbatim>\<open>int64\<close> with its sign). What the stream of
  that very request gives is what the pass goes on with: logs are what the reasoning
  service is called with, and an error of the stream is what the status patch to
  \<open>Failed\<close> reports, with no call of the reasoning service.
\<close>

theorem log_fetch_limit:
  assumes "storeFault env GetDiagnosisCall = None" and "storedRequest w req = Some d"
    and "\<not> isTerminal d"
  shows "\<exists>limit.
           sint limit = (if TailLines (Spec d) = 0 then 100 else sint (TailLines (Spec d)))
         \<and> logRequests (effects (fst (PodDiagnosis_Reconcile env w req)))
             = logRequests (effects w) @ [logRequestFor d limit]
         \<and> (\<forall>logs. podLogs env (logRequestFor d limit) = LogText logs \<longrightarrow>
               httpRequests (effects (fst (PodDiagnosis_Reconcile env w req)))
                 = httpRequests (effects w)
                   @ fst (callAIEndpoint env (PodName (Spec d)) (TriggerReason (Spec d)) logs))
         \<and> (\<forall>err. podLogs env (logRequestFor d limit) = StreamError err \<longrightarrow>
               httpRequests (effects (fst (PodDiagnosis_Reconcile env w req)))
                 = httpRequests (effects w)
               \<and> statusPatches (effects (fst (PodDiagnosis_Reconcile env w req)))
                   = statusPatches (effects w)
                     @ [mergeFrom (Status d)
                          ((Status d)\<lparr>Phase := ''Failed'',
                                      RootCause := msgFetchLogsFailed @ msgOpenLogStreamFailed
                                                   @ err,
                                      DiagnosisTime := Some (now env)\<rparr>)])
         \<and> (\<forall>err. podLogs env (logRequestFor d limit) = CopyError err \<longrightarrow>
               httpRequests (effects (fst (PodDiagnosis_Reconcile env w req)))
                 = httpRequests (effects w)
               \<and> statusPatches (effects (fst (PodDiagnosis_Reconcile env w req)))
                   = statusPatches (effects w)
                     @ [mergeFrom (Status d)
                          ((Status d)\<lparr>Phase := ''Failed'',
                                      RootCause := msgFetchLogsFailed @ msgReadLogFailed @ err,
                                      DiagnosisTime := Some (now env)\<rparr>)])"
proof -
  let ?limit = "(if TailLines (Spec d) = 0 then 100 else scast (TailLines (Spec d))) :: 64 word"
  have size: "sint ?limit = (if TailLines (Spec d) = 0 then 100 else sint (TailLines (Spec d)))"
    by (simp add: sint_widen)
  have asked: "logRequests (effects (fst (PodDiagnosis_Reconcile env w req)))
                 = logRequests (effects w) @ [logRequestFor d ?limit]"
    by (rule pending_pass_log_requests [OF assms])
  have given: "httpRequests (effects (fst (PodDiagnosis_Reconcile env w req)))
                 = httpRequests (effects w)
                   @ fst (callAIEndpoint env (PodName (Spec d)) (TriggerReason (Spec d)) logs)"
    if "podLogs env (logRequestFor d ?limit) = LogText logs" for logs
  proof -
    from that have "logOutcome env d = Inr logs"
      by (simp add: logOutcome_answer)
    then show ?thesis
      by (rule pending_pass_sends_logs [OF assms])
  qed
  have closed: "httpRequests (effects (fst (PodDiagnosis_Reconcile env w req)))
                  = httpRequests (effects w)
                \<and> statusPatches (effects (fst (PodDiagnosis_Reconcile env w req)))
                    = statusPatches (effects w)
                      @ [mergeFrom (Status d)
                           ((Status d)\<lparr>Phase := ''Failed'',
                                       RootCause := msgFetchLogsFailed @ msgOpenLogStreamFailed
                                                    @ err,
                                       DiagnosisTime := Some (now env)\<rparr>)]"
    if "podLogs env (logRequestFor d ?limit) = StreamError err" for err
  proof -
    from that have "logOutcome env d = Inl (msgOpenLogStreamFailed @ err)"
      by (simp add: logOutcome_answer)
    from pending_pass_without_logs [OF assms this] show ?thesis
      by simp
  qed
  have broken: "httpRequests (effects (fst (PodDiagnosis_Reconcile env w req)))
                  = httpRequests (effects w)
                \<and> statusPatches (effects (fst (PodDiagnosis_Reconcile env w req)))
                    = statusPatches (effects w)
                      @ [mergeFrom (Status d)
                           ((Status d)\<lparr>Phase := ''Failed'',
                                       RootCause := msgFetchLogsFailed @ msgReadLogFailed @ err,
                                       DiagnosisTime := Some (now env)\<rparr>)]"
    if "podLogs env (logRequestFor d ?limit) = CopyError err" for err
  proof -
    from that have "logOutcome env d = Inl (msgReadLogFailed @ err)"
      by (simp add: logOutcome_answer)
    from pending_pass_without_logs [OF assms this] show ?thesis
      by simp
  qed
  from size asked given closed broken show ?thesis
    by (intro exI [of _ ?limit] conjI allI impI) blast+
qed

theorem log_fetch_limit_witness:
  "storedRequest zeroTailWorld requestKey = Some zeroTailRequest
   \<and> TailLines (Spec zeroTailRequest) = 0
   \<and> logRequests (effects (fst (PodDiagnosis_Reconcile quietEnv zeroTailWorld requestKey)))
       = [\<lparr>LogNamespace = ''shop'', LogPodName = ''web'',
           LogOptions = \<lparr>OptTailLines = Some 100\<rparr>\<rparr>]
   \<and> storedRequest longTailWorld requestKey = Some longTailRequest
   \<and> TailLines (Spec longTailRequest) = 250
   \<and> logRequests (effects (fst (PodDiagnosis_Reconcile quietEnv longTailWorld requestKey)))
       = [\<lparr>LogNamespace = ''shop'', LogPodName = ''web'',
           LogOptions = \<lparr>OptTailLines = Some 250\<rparr>\<rparr>]
   \<and> httpRequests (effects (fst (PodDiagnosis_Reconcile quietEnv longTailWorld requestKey)))
       = [sentRequest quietEnv ''web'' ''Pod entered failed state: unknown failure''
            ''panic: out of memory'']
   \<and> httpRequests (effects (fst (PodDiagnosis_Reconcile logFailEnv pendingWorld requestKey))) = []
   \<and> statusPatches (effects (fst (PodDiagnosis_Reconcile logFailEnv pendingWorld requestKey)))
       = [\<lparr>patchPhase = Some ''Failed'',
           patchRootCause = Some (msgFetchLogsFailed @ msgOpenLogStreamFailed
                                  @ ''pods web not found''),
           patchSuggestion = None,
           patchDiagnosisTime = Some (Some 1700000000)\<rparr>]"
proof -
  have sizes: "sint (100 :: 64 word) = 100" "sint (250 :: 64 word) = 250"
    by code_simp+
  have word: "limit = 100" if "sint limit = 100" for limit :: "64 word"
    using that sizes(1) by (intro signed_word_eqI [where ?'a = int]) simp
  have word': "limit = 250" if "sint limit = 250" for limit :: "64 word"
    using that sizes(2) by (intro signed_word_eqI [where ?'a = int]) simp
  have quiet: "storeFault quietEnv GetDiagnosisCall = None"
    by (simp add: quietEnv_def)
  have storedZero: "storedRequest zeroTailWorld requestKey = Some zeroTailRequest"
    by code_simp
  have openZero: "\<not> isTerminal zeroTailRequest"
    by code_simp
  have zero: "TailLines (Spec zeroTailRequest) = 0"
    by (simp add: zeroTailRequest_def)
  have targetZero: "logRequestFor zeroTailRequest limit
                      = \<lparr>LogNamespace = ''shop'', LogPodName = ''web'',
                         LogOptions = \<lparr>OptTailLines = Some limit\<rparr>\<rparr>" for limit
    by (simp add: logRequestFor_def zeroTailRequest_def pendingRequest_def)
  from log_fetch_limit [OF quiet storedZero openZero] zero obtain limit :: "64 word"
    where "sint limit = 100"
      and "logRequests (effects (fst (PodDiagnosis_Reconcile quietEnv zeroTailWorld requestKey)))
             = logRequests (effects zeroTailWorld) @ [logRequestFor zeroTailRequest limit]"
    by auto
  with word [of limit] targetZero
  have first: "logRequests (effects (fst (PodDiagnosis_Reconcile quietEnv zeroTailWorld requestKey)))
                 = [\<lparr>LogNamespace = ''shop'', LogPodName = ''web'',
                     LogOptions = \<lparr>OptTailLines = Some 100\<rparr>\<rparr>]"
    by (simp add: zeroTailWorld_def)
  have storedLong: "storedRequest longTailWorld requestKey = Some longTailRequest"
    by code_simp
  have openLong: "\<not> isTerminal longTailRequest"
    by code_simp
  have long: "TailLines (Spec longTailRequest) = 250"
    by (simp add: longTailRequest_def)
  have longSize: "sint (250 :: 32 word) = 250"
    by code_simp
  have targetLong: "logRequestFor longTailRequest limit
                      = \<lparr>LogNamespace = ''shop'', LogPodName = ''web'',
                         LogOptions = \<lparr>OptTailLines = Some limit\<rparr>\<rparr>"
    "PodName (Spec longTailRequest) = ''web''"
    "TriggerReason (Spec longTailRequest) = ''Pod entered failed state: unknown failure''"
    for limit
    by (simp_all add: logRequestFor_def longTailRequest_def pendingRequest_def)
  have logsLong: "podLogs quietEnv request = LogText ''panic: out of memory''" for request
    by (simp add: quietEnv_def)
  have "transport quietEnv (sentRequest quietEnv podName triggerReason logs)
          = Response 200 fullBody" for podName triggerReason logs
    by (simp add: quietEnv_def)
  from callAIEndpoint_sends [OF configured_quietEnv this]
  have sentLong: "fst (callAIEndpoint quietEnv podName triggerReason logs)
                    = [sentRequest quietEnv podName triggerReason logs]"
    for podName triggerReason logs
    by simp
  from log_fetch_limit [OF quiet storedLong openLong] long longSize obtain limit' :: "64 word"
    where "sint limit' = 250"
      and "logRequests (effects (fst (PodDiagnosis_Reconcile quietEnv longTailWorld requestKey)))
             = logRequests (effects longTailWorld) @ [logRequestFor longTailRequest limit']"
      and "\<forall>logs. podLogs quietEnv (logRequestFor longTailRequest limit') = LogText logs \<longrightarrow>
             httpRequests (effects (fst (PodDiagnosis_Reconcile quietEnv longTailWorld requestKey)))
               = httpRequests (effects longTailWorld)
                 @ fst (callAIEndpoint quietEnv (PodName (Spec longTailRequest))
                          (TriggerReason (Spec longTailRequest)) logs)"
    by auto
  with word' [of limit'] targetLong logsLong sentLong
  have second: "logRequests (effects (fst (PodDiagnosis_Reconcile quietEnv longTailWorld requestKey)))
                  = [\<lparr>LogNamespace = ''shop'', LogPodName = ''web'',
                      LogOptions = \<lparr>OptTailLines = Some 250\<rparr>\<rparr>]"
    "httpRequests (effects (fst (PodDiagnosis_Reconcile quietEnv longTailWorld requestKey)))
       = [sentRequest quietEnv ''web'' ''Pod entered failed state: unknown failure''
            ''panic: out of memory'']"
    by (simp_all add: longTailWorld_def)
  have fail: "storeFault logFailEnv GetDiagnosisCall = None"
    "now logFailEnv = 1700000000"
    "podLogs logFailEnv request = StreamError ''pods web not found''" for request
    by (simp_all add: logFailEnv_def quietEnv_def)
  have patch: "mergeFrom (Status pendingRequest)
                 ((Status pendingRequest)\<lparr>Phase := ''Failed'', RootCause := rootCause,
                                            DiagnosisTime := Some 1700000000\<rparr>)
               = \<lparr>patchPhase = Some ''Failed'',
                  patchRootCause = (if rootCause = [] then None else Some rootCause),
                  patchSuggestion = None,
                  patchDiagnosisTime = Some (Some 1700000000)\<rparr>" for rootCause
    by (simp add: mergeFrom_def changed_def pendingRequest_def)
  have shown: "msgFetchLogsFailed @ msgOpenLogStreamFailed @ ''pods web not found'' \<noteq> []"
    by (simp add: msgFetchLogsFailed_def)
  from log_fetch_limit [OF fail(1) stored_pendingRequest open_pendingRequest] fail(2,3)
  have third: "httpRequests (effects (fst (PodDiagnosis_Reconcile logFailEnv pendingWorld requestKey)))
                 = []"
    "statusPatches (effects (fst (PodDiagnosis_Reconcile logFailEnv pendingWorld requestKey)))
       = [\<lparr>patchPhase = Some ''Failed'',
           patchRootCause = Some (msgFetchLogsFailed @ msgOpenLogStreamFailed
                                  @ ''pods web not found''),
           patchSuggestion = None,
           patchDiagnosisTime = Some (Some 1700000000)\<rparr>]"
    using patch [of "msgFetchLogsFailed @ msgOpenLogStreamFailed @ ''pods web not found''"] shown
    by (auto simp: pendingWorld_def)
  from storedZero zero first storedLong long second third show ?thesis
    by simp
qed
section \<open>The trigger reason\<close>

lemma unschedulableMessageLoop_find:
  "unschedulableMessageLoop conds
     = map_option (\<lambda>cond. ''Unschedulable: '' @ ConditionMessage cond)
         (find typedUnschedulable conds)"
  by (induction conds) (simp_all add: typedUnschedulable_def)

lemma exitedMessageLoop_find:
  "exitedMessageLoop statuses = map_option exitedText (find exitedNonZero statuses)"
  by (induction statuses) (auto simp: exitedText_def exitedNonZero_def split: option.splits)

text \<open>
  What \<^verbatim>\<open>getFailureReason\<close> answers, for every pod: in phase \<open>Failed\<close> the message
  of the first condition of type \<open>Unschedulable\<close> with status \<open>True\<close>, if there is
  one; otherwise the text for the first container that has terminated with a
  non-zero exit code, if there is one; otherwise \<open>unknown failure\<close>. No waiting
  state is read, and outside phase \<open>Failed\<close> no condition is.
\<close>

lemma getFailureReason_cases:
  "getFailureReason pod
     = (case (if PodPhase (PodStatus pod) = PodFailed
              then find typedUnschedulable (Conditions (PodStatus pod)) else None) of
          Some cond \<Rightarrow> ''Unschedulable: '' @ ConditionMessage cond
        | None \<Rightarrow>
            (case find exitedNonZero (ContainerStatuses (PodStatus pod)) of
               None \<Rightarrow> ''unknown failure''
             | Some status \<Rightarrow> exitedText status))"
  by (simp add: getFailureReason_def unschedulableMessageLoop_find exitedMessageLoop_find
           split: option.splits)

lemma find_none: "\<not> list_ex P xs \<Longrightarrow> find P xs = None"
  by (induction xs) simp_all

lemma waiting_pod_reason:
  assumes "PodPhase (PodStatus pod) \<noteq> PodFailed"
    and "\<not> list_ex exitedNonZero (ContainerStatuses (PodStatus pod))"
  shows "getFailureReason pod = ''unknown failure''"
  using assms find_none [of exitedNonZero "ContainerStatuses (PodStatus pod)"]
  by (simp add: getFailureReason_cases)

lemma watcher_creates:
  assumes "PodWatcher_Reconcile env w req = (w', outcome)" and "diagnoses w' \<noteq> diagnoses w"
  shows "\<exists>pod d. storedPod w req = Some pod \<and> isPodFailed pod
           \<and> diagnoses w' = diagnoses w @ [d] \<and> pods w' = pods w \<and> effects w' = effects w
           \<and> outcome = None
           \<and> Spec d = Spec (newDiagnosis pod)
           \<and> Status d = emptyStatus
           \<and> Namespace (Meta d) = Namespace (PodMeta pod)
           \<and> \<not> unfinishedLoop (matchingRequests w (Namespace (PodMeta pod)) (Name (PodMeta pod)))"
  using assms
  unfolding PodWatcher_Reconcile_def clientGetPod_def clientList_def SetControllerReference_def
    clientCreate_def storedPod_def
  by (auto simp: Let_def newDiagnosis_def split: option.splits if_splits sum.splits)

lemma created_request_spec:
  assumes "PodWatcher_Reconcile env w req = (w', outcome)" and "diagnoses w' \<noteq> diagnoses w"
  shows "\<exists>pod d. storedPod w req = Some pod \<and> diagnoses w' = diagnoses w @ [d]
           \<and> TailLines (Spec d) = 100
           \<and> TriggerReason (Spec d) = ''Pod entered failed state: '' @ getFailureReason pod"
proof -
  from watcher_creates [OF assms] obtain pod d
    where "storedPod w req = Some pod" and "diagnoses w' = diagnoses w @ [d]"
      and "Spec d = Spec (newDiagnosis pod)"
    by blast
  then show ?thesis
    by (intro exI [of _ pod] exI [of _ d]) (simp add: newDiagnosis_def)
qed

text \<open>The pass on the concrete pods.\<close>

lemma watcher_on_crashLoopPod:
  "PodWatcher_Reconcile quietEnv startWorld (''shop'', ''web'') = (pendingWorld, None)"
  by code_simp

lemma watcher_on_killedPod:
  "diagnoses (fst (PodWatcher_Reconcile quietEnv killedWorld (''shop'', ''web'')))
     = [pendingRequest\<lparr>Spec := (Spec pendingRequest)\<lparr>TriggerReason :=
          ''Pod entered failed state: Container app exited with code 137: OOMKilled''\<rparr>\<rparr>]"
  by code_simp

text \<open>
  C8. The Failure Detector on two pods it classifies as failed. For the pod whose
  container waits in \<open>CrashLoopBackOff\<close> it creates a request whose trigger reason
  is \<open>Pod entered failed state: unknown failure\<close>, in which \<open>CrashLoopBackOff\<close>
  does not occur. For the pending pod that the scheduler could not place (condition
  \<open>PodScheduled\<close> with status \<open>False\<close> and reason \<open>Unschedulable\<close>) it creates a
  request with the same trigger reason, in which the scheduler's message does not
  occur. For the pod whose container was killed with exit code 137 the trigger reason
  names the container, the code and the reason.
\<close>

theorem crash_loop_trigger_reason:
  "isPodFailed crashLoopPod
   \<and> waitsWith [''CrashLoopBackOff''] (hd (ContainerStatuses (PodStatus crashLoopPod)))
   \<and> PodWatcher_Reconcile quietEnv startWorld (''shop'', ''web'') = (pendingWorld, None)
   \<and> diagnoses pendingWorld = [pendingRequest]
   \<and> TailLines (Spec pendingRequest) = 100
   \<and> TriggerReason (Spec pendingRequest) = ''Pod entered failed state: unknown failure''
   \<and> \<not> sublist ''CrashLoopBackOff'' (TriggerReason (Spec pendingRequest))
   \<and> isPodFailed unschedulablePod
   \<and> list_ex reportsUnschedulable (Conditions (PodStatus unschedulablePod))
   \<and> map (\<lambda>d. TriggerReason (Spec d))
         (diagnoses (fst (PodWatcher_Reconcile quietEnv unschedulableWorld (''shop'', ''web''))))
       = [''Pod entered failed state: unknown failure'']
   \<and> \<not> sublist ''0/3 nodes are available''
           ''Pod entered failed state: unknown failure''
   \<and> map (\<lambda>d. TriggerReason (Spec d))
         (diagnoses (fst (PodWatcher_Reconcile quietEnv killedWorld (''shop'', ''web''))))
       = [''Pod entered failed state: Container app exited with code 137: OOMKilled'']"
  by code_simp
section \<open>Errors of the resource store\<close>

lemma statusPatch_error_keeps_store:
  "snd (statusPatch env w obj base) = Some err
   \<Longrightarrow> diagnoses (fst (statusPatch env w obj base)) = diagnoses w"
  by (auto simp: statusPatch_def Let_def split: option.splits if_splits)

lemma watcher_error_keeps_state:
  "PodWatcher_Reconcile env w req = (w', Some err) \<Longrightarrow> w' = w"
  unfolding PodWatcher_Reconcile_def
  by (auto split: sum.splits if_splits)

lemma lifecycle_error_keeps_store:
  assumes "PodDiagnosis_Reconcile env w req = (w', Some err)"
  shows "diagnoses w' = diagnoses w \<and> pods w' = pods w"
proof (cases "clientGetDiagnosis env w req")
  case (Inl e)
  with assms show ?thesis
    by (auto simp: PodDiagnosis_Reconcile_def split: if_splits)
next
  case (Inr d)
  show ?thesis
  proof (cases "isTerminal d")
    case True
    with Inr assms show ?thesis
      by (simp add: PodDiagnosis_Reconcile_def isTerminal_def)
  next
    case False
    from Inr have get: "storeFault env GetDiagnosisCall = None" and stored: "storedRequest w req = Some d"
      by (auto simp: clientGetDiagnosis_def storedRequest_def split: option.splits)
    show ?thesis
    proof (cases "logOutcome env d")
      case (Inl e)
      from pass_on_log_failure [OF get stored False Inl] assms show ?thesis
        by simp
    next
      case logs: (Inr logs)
      show ?thesis
      proof (cases "reasoningOutcome env d logs")
        case (Inl e)
        from pass_on_reasoning_failure [OF get stored False logs Inl] assms show ?thesis
          by simp
      next
        case result: (Inr result)
        from pass_on_success [OF get stored False logs result] assms
        obtain es obj where patch: "statusPatch env (recordEffects es w) obj d = (w', Some err)"
          by simp
        then have "snd (statusPatch env (recordEffects es w) obj d) = Some err"
          and w': "w' = fst (statusPatch env (recordEffects es w) obj d)"
          by simp_all
        from statusPatch_error_keeps_store [OF this(1)] w'
        show ?thesis
          by (simp add: pods_statusPatch)
      qed
    qed
  qed
qed

lemma watcher_get_fault:
  "storeFault env GetPodCall = Some fault
   \<Longrightarrow> PodWatcher_Reconcile env w req = (w, Some (StoreFailure fault))"
  by (simp add: PodWatcher_Reconcile_def clientGetPod_def IgnoreNotFound_def)

lemma watcher_not_found:
  "storeFault env GetPodCall = None \<Longrightarrow> storedPod w req = None
   \<Longrightarrow> PodWatcher_Reconcile env w req = (w, None)"
  by (simp add: PodWatcher_Reconcile_def clientGetPod_def IgnoreNotFound_def storedPod_def)

lemma watcher_list_fault:
  assumes "storeFault env GetPodCall = None" and "storedPod w req = Some pod"
    and "isPodFailed pod" and "storeFault env ListCall = Some fault"
  shows "PodWatcher_Reconcile env w req = (w, Some (StoreFailure fault))"
  using assms
  by (simp add: PodWatcher_Reconcile_def clientGetPod_def storedPod_def clientList_def)

lemma watcher_create_fault:
  assumes "storeFault env GetPodCall = None" and "storedPod w req = Some pod"
    and "isPodFailed pod" and "storeFault env ListCall = None"
    and "\<not> unfinishedLoop (matchingRequests w (Namespace (PodMeta pod)) (Name (PodMeta pod)))"
    and "ownerReferenceFault env = None" and "storeFault env CreateCall = Some fault"
  shows "PodWatcher_Reconcile env w req = (w, Some (StoreFailure fault))"
  using assms
  by (simp add: PodWatcher_Reconcile_def clientGetPod_def storedPod_def clientList_def
        SetControllerReference_def clientCreate_def)

lemma lifecycle_get_fault:
  "storeFault env GetDiagnosisCall = Some fault
   \<Longrightarrow> PodDiagnosis_Reconcile env w req = (w, Some (StoreFailure fault))"
  by (simp add: PodDiagnosis_Reconcile_def clientGetDiagnosis_def)

lemma lifecycle_not_found:
  "storeFault env GetDiagnosisCall = None \<Longrightarrow> storedRequest w req = None
   \<Longrightarrow> PodDiagnosis_Reconcile env w req = (w, None)"
  by (simp add: PodDiagnosis_Reconcile_def clientGetDiagnosis_def storedRequest_def)

lemma lifecycle_completed_patch_fault:
  assumes "storeFault env GetDiagnosisCall = None" and "storedRequest w req = Some d"
    and "\<not> isTerminal d" and "logOutcome env d = Inr logs"
    and "reasoningOutcome env d logs = Inr result"
    and "storeFault env PatchStatusCall = Some fault"
  shows "snd (PodDiagnosis_Reconcile env w req) = Some (StoreFailure fault)
         \<and> diagnoses (fst (PodDiagnosis_Reconcile env w req)) = diagnoses w"
  using pass_on_success [OF assms(1-5)] statusPatch_fault [OF assms(6)]
  by simp

lemma lifecycle_target_read_fault:
  assumes "storeFault env GetDiagnosisCall = None" and "storedRequest w req = Some d"
    and "\<not> isTerminal d" and "logOutcome env d = Inr logs"
    and "reasoningOutcome env d logs = Inr result"
    and "storeFault env GetTargetPodCall = Some fault"
    and "storeFault env PatchStatusCall = None"
  shows "snd (PodDiagnosis_Reconcile env w req) = None
         \<and> recordedEvents (effects (fst (PodDiagnosis_Reconcile env w req)))
             = recordedEvents (effects w)"
  using pass_on_success [OF assms(1-5)] assms(6)
    statusPatch_stored(1) [OF assms(7) stored_after_effects [OF assms(2)]]
  by (simp add: effects_statusPatch clientGetPod_def)

text \<open>Surroundings that differ from the quiet ones in the store's faults only.\<close>

lemma reasoningOutcome_as_quietEnv:
  assumes "getenv env = getenv quietEnv" and "transport env = transport quietEnv"
  shows "reasoningOutcome env d logs
           = Inr \<lparr>ResultRootCause = ''OOM'', ResultSuggestion = ''increase memory limit''\<rparr>"
proof -
  have conf: "configured env"
    using configured_quietEnv assms(1) by (simp add: configured_def)
  have "transport env (sentRequest env podName triggerReason logs) = Response 200 fullBody"
    for podName triggerReason
    using assms(2) by (simp add: quietEnv_def)
  from callAIEndpoint_response [OF conf this]
  show ?thesis
    by (simp add: reasoningOutcome_def decode_fullBody unmarshal_fullContent)
qed

lemma logOutcome_as_quietEnv:
  assumes "podLogs env = podLogs quietEnv"
  shows "logOutcome env d = Inr ''panic: out of memory''"
  using assms by (simp add: logOutcome_def getPodLogs_def quietEnv_def)


text \<open>
  The status patch on the two error paths: whatever the store answers to it, the pass
  returns no error; on a fault the store is left as it was.
\<close>

lemma lifecycle_failed_patch_after_log_failure:
  assumes "storeFault env GetDiagnosisCall = None" and "storedRequest w req = Some d"
    and "\<not> isTerminal d" and "logOutcome env d = Inl err"
    and "storeFault env PatchStatusCall = Some fault"
  shows "snd (PodDiagnosis_Reconcile env w req) = None
         \<and> diagnoses (fst (PodDiagnosis_Reconcile env w req)) = diagnoses w"
  using pass_on_log_failure [OF assms(1-4)] statusPatch_fault [OF assms(5)]
  by simp

lemma lifecycle_failed_patch_after_reasoning_failure:
  assumes "storeFault env GetDiagnosisCall = None" and "storedRequest w req = Some d"
    and "\<not> isTerminal d" and "logOutcome env d = Inr logs"
    and "reasoningOutcome env d logs = Inl err"
    and "storeFault env PatchStatusCall = Some fault"
  shows "snd (PodDiagnosis_Reconcile env w req) = None
         \<and> diagnoses (fst (PodDiagnosis_Reconcile env w req)) = diagnoses w"
  using pass_on_reasoning_failure [OF assms(1-5)] statusPatch_fault [OF assms(6)]
  by simp

text \<open>
  C7. The lifecycle controller on the pending request when the store fails the status
  patch with \<open>etcd timeout\<close>. After a log stream that cannot be opened, and after an
  answer 204 of the reasoning service, the pass sends its patch to \<open>Failed\<close>,
  returns no error and leaves the stored request as it was, still without a phase.
  After a successful diagnosis the same fault on the patch to \<open>Completed\<close> is
  returned as the pass's error. And when the read of the target pod fails with
  \<open>etcd timeout\<close>, the pass returns no error, records no event and moves the
  request to \<open>Completed\<close>.
\<close>

theorem failed_patch_fault_is_swallowed:
  "storeFault logAndPatchFailEnv PatchStatusCall = Some ''etcd timeout''
   \<and> snd (PodDiagnosis_Reconcile logAndPatchFailEnv pendingWorld requestKey) = None
   \<and> diagnoses (fst (PodDiagnosis_Reconcile logAndPatchFailEnv pendingWorld requestKey))
       = [pendingRequest]
   \<and> statusPatches (effects (fst (PodDiagnosis_Reconcile logAndPatchFailEnv pendingWorld
                                     requestKey)))
       = [\<lparr>patchPhase = Some ''Failed'',
           patchRootCause = Some (msgFetchLogsFailed @ msgOpenLogStreamFailed
                                  @ ''pods web not found''),
           patchSuggestion = None,
           patchDiagnosisTime = Some (Some 1700000000)\<rparr>]
   \<and> storeFault noContentPatchFailEnv PatchStatusCall = Some ''etcd timeout''
   \<and> snd (PodDiagnosis_Reconcile noContentPatchFailEnv pendingWorld requestKey) = None
   \<and> diagnoses (fst (PodDiagnosis_Reconcile noContentPatchFailEnv pendingWorld requestKey))
       = [pendingRequest]
   \<and> statusPatches (effects (fst (PodDiagnosis_Reconcile noContentPatchFailEnv pendingWorld
                                     requestKey)))
       = [\<lparr>patchPhase = Some ''Failed'',
           patchRootCause = Some (msgDiagnosisFailed @ msgBadStatus @ ''204''),
           patchSuggestion = None,
           patchDiagnosisTime = Some (Some 1700000000)\<rparr>]
   \<and> storeFault patchFailEnv PatchStatusCall = Some ''etcd timeout''
   \<and> snd (PodDiagnosis_Reconcile patchFailEnv pendingWorld requestKey)
       = Some (StoreFailure ''etcd timeout'')
   \<and> diagnoses (fst (PodDiagnosis_Reconcile patchFailEnv pendingWorld requestKey))
       = [pendingRequest]
   \<and> storeFault targetReadFailEnv GetTargetPodCall = Some ''etcd timeout''
   \<and> snd (PodDiagnosis_Reconcile targetReadFailEnv pendingWorld requestKey) = None
   \<and> recordedEvents (effects (fst (PodDiagnosis_Reconcile targetReadFailEnv pendingWorld
                                      requestKey))) = []
   \<and> storedRequest (fst (PodDiagnosis_Reconcile targetReadFailEnv pendingWorld requestKey))
         requestKey
       = Some (pendingRequest\<lparr>Status :=
                 \<lparr>Phase = ''Completed'', RootCause = ''OOM'',
                  Suggestion = ''increase memory limit'', DiagnosisTime = Some 1700000000\<rparr>\<rparr>)"
proof -
  have patch: "mergeFrom (Status pendingRequest)
                 ((Status pendingRequest)\<lparr>Phase := ''Failed'', RootCause := c # cs,
                                            DiagnosisTime := Some 1700000000\<rparr>)
               = \<lparr>patchPhase = Some ''Failed'', patchRootCause = Some (c # cs),
                  patchSuggestion = None,
                  patchDiagnosisTime = Some (Some 1700000000)\<rparr>" for c cs
    by (simp add: mergeFrom_def changed_def pendingRequest_def)
  have logText: "msgFetchLogsFailed @ rest = hd msgFetchLogsFailed # tl msgFetchLogsFailed @ rest"
    for rest
    by (simp add: msgFetchLogsFailed_def)
  have diagnosisText:
    "msgDiagnosisFailed @ rest = hd msgDiagnosisFailed # tl msgDiagnosisFailed @ rest" for rest
    by (simp add: msgDiagnosisFailed_def)

  have logFaults: "storeFault logAndPatchFailEnv GetDiagnosisCall = None"
    "storeFault logAndPatchFailEnv PatchStatusCall = Some ''etcd timeout''"
    "now logAndPatchFailEnv = 1700000000"
    by (simp_all add: logAndPatchFailEnv_def patchFailEnv_def quietEnv_def)
  have noLogs: "logOutcome logAndPatchFailEnv pendingRequest
                  = Inl (msgOpenLogStreamFailed @ ''pods web not found'')"
    by (simp add: logOutcome_def getPodLogs_def Let_def logAndPatchFailEnv_def)
  from lifecycle_failed_patch_after_log_failure [OF logFaults(1) stored_pendingRequest
      open_pendingRequest noLogs logFaults(2)]
  have first: "snd (PodDiagnosis_Reconcile logAndPatchFailEnv pendingWorld requestKey) = None"
    "diagnoses (fst (PodDiagnosis_Reconcile logAndPatchFailEnv pendingWorld requestKey))
       = [pendingRequest]"
    by (simp_all add: pendingWorld_def)
  from transition_on_log_failure [OF logFaults(1) stored_pendingRequest open_pendingRequest noLogs]
    logFaults(3)
  have firstPatch:
    "statusPatches (effects (fst (PodDiagnosis_Reconcile logAndPatchFailEnv pendingWorld
                                    requestKey)))
       = [\<lparr>patchPhase = Some ''Failed'',
           patchRootCause = Some (msgFetchLogsFailed @ msgOpenLogStreamFailed
                                  @ ''pods web not found''),
           patchSuggestion = None,
           patchDiagnosisTime = Some (Some 1700000000)\<rparr>]"
    using patch [of "hd msgFetchLogsFailed"
        "tl msgFetchLogsFailed @ msgOpenLogStreamFailed @ ''pods web not found''"]
      logText [of "msgOpenLogStreamFailed @ ''pods web not found''"]
    by (simp add: pendingWorld_def)

  have answerFaults: "storeFault noContentPatchFailEnv GetDiagnosisCall = None"
    "storeFault noContentPatchFailEnv PatchStatusCall = Some ''etcd timeout''"
    "now noContentPatchFailEnv = 1700000000"
    by (simp_all add: noContentPatchFailEnv_def patchFailEnv_def quietEnv_def)
  have answerLogs: "logOutcome noContentPatchFailEnv pendingRequest = Inr ''panic: out of memory''"
    by (rule logOutcome_as_quietEnv) (simp add: noContentPatchFailEnv_def patchFailEnv_def)
  have conf: "configured noContentPatchFailEnv"
    by code_simp
  have shown: "showInt 204 = ''204''"
    by code_simp
  have "transport noContentPatchFailEnv
          (sentRequest noContentPatchFailEnv podName triggerReason logs)
          = Response 204 ''<html>''" for podName triggerReason logs
    by (simp add: noContentPatchFailEnv_def)
  from callAIEndpoint_response [OF conf this] shown
  have answer: "reasoningOutcome noContentPatchFailEnv pendingRequest ''panic: out of memory''
                  = Inl (msgBadStatus @ ''204'')"
    by (simp add: reasoningOutcome_def)
  from lifecycle_failed_patch_after_reasoning_failure [OF answerFaults(1) stored_pendingRequest
      open_pendingRequest answerLogs answer answerFaults(2)]
  have second: "snd (PodDiagnosis_Reconcile noContentPatchFailEnv pendingWorld requestKey) = None"
    "diagnoses (fst (PodDiagnosis_Reconcile noContentPatchFailEnv pendingWorld requestKey))
       = [pendingRequest]"
    by (simp_all add: pendingWorld_def)
  from transition_on_reasoning_failure [OF answerFaults(1) stored_pendingRequest
      open_pendingRequest answerLogs answer]
    answerFaults(3)
  have secondPatch:
    "statusPatches (effects (fst (PodDiagnosis_Reconcile noContentPatchFailEnv pendingWorld
                                    requestKey)))
       = [\<lparr>patchPhase = Some ''Failed'',
           patchRootCause = Some (msgDiagnosisFailed @ msgBadStatus @ ''204''),
           patchSuggestion = None,
           patchDiagnosisTime = Some (Some 1700000000)\<rparr>]"
    using patch [of "hd msgDiagnosisFailed" "tl msgDiagnosisFailed @ msgBadStatus @ ''204''"]
      diagnosisText [of "msgBadStatus @ ''204''"]
    by (simp add: pendingWorld_def)

  have patchFaults: "storeFault patchFailEnv GetDiagnosisCall = None"
    "storeFault patchFailEnv PatchStatusCall = Some ''etcd timeout''"
    by (simp_all add: patchFailEnv_def)
  have patchLogs: "logOutcome patchFailEnv pendingRequest = Inr ''panic: out of memory''"
    by (rule logOutcome_as_quietEnv) (simp add: patchFailEnv_def)
  have patchResult: "reasoningOutcome patchFailEnv pendingRequest ''panic: out of memory''
        = Inr \<lparr>ResultRootCause = ''OOM'', ResultSuggestion = ''increase memory limit''\<rparr>"
    by (rule reasoningOutcome_as_quietEnv) (simp_all add: patchFailEnv_def)
  from lifecycle_completed_patch_fault [OF patchFaults(1) stored_pendingRequest
      open_pendingRequest patchLogs patchResult patchFaults(2)]
  have third: "snd (PodDiagnosis_Reconcile patchFailEnv pendingWorld requestKey)
                 = Some (StoreFailure ''etcd timeout'')"
    "diagnoses (fst (PodDiagnosis_Reconcile patchFailEnv pendingWorld requestKey))
       = [pendingRequest]"
    by (simp_all add: pendingWorld_def)

  have readFaults: "storeFault targetReadFailEnv GetDiagnosisCall = None"
    "storeFault targetReadFailEnv GetTargetPodCall = Some ''etcd timeout''"
    "storeFault targetReadFailEnv PatchStatusCall = None"
    "now targetReadFailEnv = 1700000000"
    by (simp_all add: targetReadFailEnv_def quietEnv_def)
  have readLogs: "logOutcome targetReadFailEnv pendingRequest = Inr ''panic: out of memory''"
    by (rule logOutcome_as_quietEnv) (simp add: targetReadFailEnv_def)
  have readResult: "reasoningOutcome targetReadFailEnv pendingRequest ''panic: out of memory''
        = Inr \<lparr>ResultRootCause = ''OOM'', ResultSuggestion = ''increase memory limit''\<rparr>"
    by (rule reasoningOutcome_as_quietEnv) (simp_all add: targetReadFailEnv_def)
  from lifecycle_target_read_fault [OF readFaults(1) stored_pendingRequest open_pendingRequest
      readLogs readResult readFaults(2,3)]
    transition_on_success [OF readFaults(1) stored_pendingRequest open_pendingRequest readLogs
      readResult]
    readFaults(3,4)
  have fourth: "snd (PodDiagnosis_Reconcile targetReadFailEnv pendingWorld requestKey) = None"
    "recordedEvents (effects (fst (PodDiagnosis_Reconcile targetReadFailEnv pendingWorld
                                     requestKey))) = []"
    "storedRequest (fst (PodDiagnosis_Reconcile targetReadFailEnv pendingWorld requestKey))
         requestKey
       = Some (pendingRequest\<lparr>Status :=
                 \<lparr>Phase = ''Completed'', RootCause = ''OOM'',
                  Suggestion = ''increase memory limit'', DiagnosisTime = Some 1700000000\<rparr>\<rparr>)"
    by (simp_all add: pendingWorld_def)
  from logFaults(2) first firstPatch answerFaults(2) second secondPatch patchFaults(2) third
    readFaults(2) fourth
  show ?thesis
    by simp
qed
section \<open>Deduplication\<close>

lemma unfinishedLoop_iff: "unfinishedLoop ds = list_ex (\<lambda>d. \<not> isTerminal d) ds"
  by (induction ds) (auto simp: isTerminal_def)

lemma watcher_skips_when_unfinished:
  assumes "storedPod w req = Some pod"
    and "list_ex (\<lambda>d. \<not> isTerminal d)
           (matchingRequests w (Namespace (PodMeta pod)) (Name (PodMeta pod)))"
  shows "fst (PodWatcher_Reconcile env w req) = w"
  using assms
  unfolding PodWatcher_Reconcile_def clientGetPod_def clientList_def storedPod_def
  by (simp add: unfinishedLoop_iff split: option.splits)

text \<open>The invariant: every request is coherent, and no pod has two unfinished requests.\<close>

lemma filter_map_length:
  assumes "\<And>x. P (f x) \<Longrightarrow> P x"
  shows "length (filter P (map f xs)) \<le> length (filter P xs)"
  by (induction xs) (auto dest: assms)

lemma unfinishedFor_subset:
  "length (unfinishedFor (filter keep ds) namespace podName)
     \<le> length (unfinishedFor ds namespace podName)"
  unfolding unfinishedFor_def
  by (induction ds) auto

lemma unfinishedFor_created:
  assumes "\<not> unfinishedLoop (filter (\<lambda>d'. Namespace (Meta d') = Namespace (Meta d)
                                         \<and> PodName (Spec d') = PodName (Spec d)) ds)"
    and "length (unfinishedFor ds namespace podName) \<le> 1"
  shows "length (unfinishedFor (ds @ [d]) namespace podName) \<le> 1"
proof (cases "Namespace (Meta d) = namespace \<and> PodName (Spec d) = podName")
  case True
  from assms(1) have "unfinishedFor ds (Namespace (Meta d)) (PodName (Spec d)) = []"
    unfolding unfinishedLoop_iff unfinishedFor_def list_ex_iff
    by (auto simp: filter_empty_conv)
  with True show ?thesis
    by (simp add: unfinishedFor_def)
next
  case False
  with assms(2) show ?thesis
    by (auto simp: unfinishedFor_def)
qed

lemma watcher_keeps_invariant:
  assumes "list_all coherent (diagnoses w)"
    and "\<And>namespace podName. length (unfinishedFor (diagnoses w) namespace podName) \<le> 1"
  shows "list_all coherent (diagnoses (fst (PodWatcher_Reconcile env w req)))
         \<and> length (unfinishedFor (diagnoses (fst (PodWatcher_Reconcile env w req)))
                     namespace podName) \<le> 1"
proof (cases "diagnoses (fst (PodWatcher_Reconcile env w req)) = diagnoses w")
  case True
  with assms show ?thesis
    by simp
next
  case False
  from watcher_creates [OF surjective_pairing False] obtain pod d
    where created: "diagnoses (fst (PodWatcher_Reconcile env w req)) = diagnoses w @ [d]"
      and spec: "Spec d = Spec (newDiagnosis pod)"
      and place: "Namespace (Meta d) = Namespace (PodMeta pod)"
      and free: "\<not> unfinishedLoop (matchingRequests w (Namespace (PodMeta pod))
                                      (Name (PodMeta pod)))"
    by blast
  from spec place have "coherent d" and name: "PodName (Spec d) = Name (PodMeta pod)"
    by (simp_all add: coherent_def newDiagnosis_def)
  moreover from free place name
  have "\<not> unfinishedLoop (filter (\<lambda>d'. Namespace (Meta d') = Namespace (Meta d)
                                         \<and> PodName (Spec d') = PodName (Spec d)) (diagnoses w))"
    by (simp add: matchingRequests_def)
  ultimately show ?thesis
    using created assms unfinishedFor_created [of d "diagnoses w" namespace podName]
    by simp
qed

text \<open>
  A pass of the lifecycle controller leaves the list of requests as it is or maps it
  by a function that keeps every request's place and spec and changes a request only
  by giving it a terminal phase.
\<close>

lemma statusPatch_terminal:
  assumes "\<not> isTerminal base" and "isTerminal obj"
  shows "\<exists>f. diagnoses (fst (statusPatch env w obj base)) = map f (diagnoses w)
             \<and> (\<forall>d. Meta (f d) = Meta d \<and> Spec (f d) = Spec d \<and> (f d = d \<or> isTerminal (f d)))"
proof -
  let ?patch = "mergeFrom (Status base) (Status obj)"
  let ?f = "\<lambda>d. if sameObject (Namespace (Meta obj)) (Name (Meta obj)) (Meta d)
                 then d\<lparr>Status := applyPatch ?patch (Status d)\<rparr> else d"
  from assms have "patchPhase ?patch = Some (Phase (Status obj))"
    by (auto simp: mergeFrom_def changed_def isTerminal_def)
  with assms(2) have terminal: "isTerminal (d\<lparr>Status := applyPatch ?patch (Status d)\<rparr>)" for d
    by (simp add: applyPatch_def isTerminal_def)
  have "diagnoses (fst (statusPatch env w obj base)) = map ?f (diagnoses w)
        \<or> diagnoses (fst (statusPatch env w obj base)) = map (\<lambda>d. d) (diagnoses w)"
    by (simp add: statusPatch_def Let_def split: option.splits)
  moreover have "\<forall>d. Meta (?f d) = Meta d \<and> Spec (?f d) = Spec d \<and> (?f d = d \<or> isTerminal (?f d))"
    using terminal by simp
  ultimately show ?thesis
    by blast
qed

lemma lifecycle_changes:
  "\<exists>f. diagnoses (fst (PodDiagnosis_Reconcile env w req)) = map f (diagnoses w)
        \<and> (\<forall>d. Meta (f d) = Meta d \<and> Spec (f d) = Spec d \<and> (f d = d \<or> isTerminal (f d)))"
proof -
  have same: ?thesis if "diagnoses (fst (PodDiagnosis_Reconcile env w req)) = diagnoses w"
    using that by (intro exI [of _ "\<lambda>d. d"]) simp
  show ?thesis
  proof (cases "clientGetDiagnosis env w req")
    case (Inl e)
    then show ?thesis
      by (intro same) (simp add: PodDiagnosis_Reconcile_def)
  next
    case (Inr d)
    show ?thesis
    proof (cases "isTerminal d")
      case True
      with Inr show ?thesis
        by (intro same) (simp add: PodDiagnosis_Reconcile_def isTerminal_def)
    next
      case False
      from Inr have get: "storeFault env GetDiagnosisCall = None"
        and stored: "storedRequest w req = Some d"
        by (auto simp: clientGetDiagnosis_def storedRequest_def split: option.splits)
      have patched: ?thesis
        if "diagnoses (fst (PodDiagnosis_Reconcile env w req))
              = diagnoses (fst (statusPatch env (recordEffects es w) (d\<lparr>Status := st\<rparr>) d))"
          and "Phase st = ''Failed'' \<or> Phase st = ''Completed''" for es st
        using statusPatch_terminal [OF False, of "d\<lparr>Status := st\<rparr>" env "recordEffects es w"] that
        by (auto simp: isTerminal_def)
      show ?thesis
      proof (cases "logOutcome env d")
        case (Inl e)
        from pass_on_log_failure [OF get stored False Inl]
        have "diagnoses (fst (PodDiagnosis_Reconcile env w req))
                = diagnoses (fst (statusPatch env
                     (recordEffects
                        [LogsRequested
                           (logRequestFor d (if TailLines (Spec d) = 0 then 100
                                             else scast (TailLines (Spec d))))] w)
                     (d\<lparr>Status := (Status d)\<lparr>Phase := ''Failed'',
                                               RootCause := msgFetchLogsFailed @ e,
                                               DiagnosisTime := Some (now env)\<rparr>\<rparr>) d))"
          by simp
        then show ?thesis
          by (rule patched) simp
      next
        case logs: (Inr logs)
        show ?thesis
        proof (cases "reasoningOutcome env d logs")
          case (Inl e)
          from pass_on_reasoning_failure [OF get stored False logs Inl]
          have "diagnoses (fst (PodDiagnosis_Reconcile env w req))
                = diagnoses (fst (statusPatch env
                     (recordEffects
                        (LogsRequested
                           (logRequestFor d (if TailLines (Spec d) = 0 then 100
                                             else scast (TailLines (Spec d))))
                         # map HttpSent (fst (callAIEndpoint env (PodName (Spec d))
                                                 (TriggerReason (Spec d)) logs))) w)
                     (d\<lparr>Status := (Status d)\<lparr>Phase := ''Failed'',
                                               RootCause := msgDiagnosisFailed @ e,
                                               DiagnosisTime := Some (now env)\<rparr>\<rparr>) d))"
            by simp
          then show ?thesis
            by (rule patched) simp
        next
          case result: (Inr result)
          from pass_on_success [OF get stored False logs result]
          have "diagnoses (fst (PodDiagnosis_Reconcile env w req))
                = diagnoses (fst (statusPatch env
               (recordEffects
                  (LogsRequested
                     (logRequestFor d (if TailLines (Spec d) = 0 then 100
                                       else scast (TailLines (Spec d))))
                   # map HttpSent (fst (callAIEndpoint env (PodName (Spec d))
                                           (TriggerReason (Spec d)) logs))
                   @ (case clientGetPod env GetTargetPodCall w
                             (TargetNamespace (Spec d), PodName (Spec d)) of
                        Inl err \<Rightarrow> []
                      | Inr targetPod \<Rightarrow>
                          [EventRecorded (Namespace (PodMeta targetPod)) (Name (PodMeta targetPod))
                             ''Warning'' ''AIDiagnosisResult''
                             (msgEventRootCause @ ResultRootCause result @ msgEventSuggestion
                              @ ResultSuggestion result)])) w)
               (d\<lparr>Status := (Status d)\<lparr>Phase := ''Completed'',
                                         RootCause := ResultRootCause result,
                                         Suggestion := ResultSuggestion result,
                                         DiagnosisTime := Some (now env)\<rparr>\<rparr>) d))"
            by simp
          then show ?thesis
            by (rule patched) simp
        qed
      qed
    qed
  qed
qed

lemma lifecycle_keeps_invariant:
  assumes "list_all coherent (diagnoses w)"
    and "\<And>namespace podName. length (unfinishedFor (diagnoses w) namespace podName) \<le> 1"
  shows "list_all coherent (diagnoses (fst (PodDiagnosis_Reconcile env w req)))
         \<and> length (unfinishedFor (diagnoses (fst (PodDiagnosis_Reconcile env w req)))
                     namespace podName) \<le> 1"
proof -
  from lifecycle_changes [of env w req] obtain f
    where mapped: "diagnoses (fst (PodDiagnosis_Reconcile env w req)) = map f (diagnoses w)"
      and keeps: "\<And>d. Meta (f d) = Meta d" "\<And>d. Spec (f d) = Spec d"
        "\<And>d. f d = d \<or> isTerminal (f d)"
    by blast
  have "list_all coherent (map f (diagnoses w))"
    using assms(1) keeps(1,2) by (simp add: list_all_iff coherent_def)
  moreover have "length (unfinishedFor (map f (diagnoses w)) namespace podName)
                   \<le> length (unfinishedFor (diagnoses w) namespace podName)"
    unfolding unfinishedFor_def
  proof (rule filter_map_length)
    fix d
    assume "Namespace (Meta (f d)) = namespace \<and> PodName (Spec (f d)) = podName
            \<and> \<not> isTerminal (f d)"
    with keeps [of d] show "Namespace (Meta d) = namespace \<and> PodName (Spec d) = podName
            \<and> \<not> isTerminal d"
      by auto
  qed
  ultimately show ?thesis
    using mapped assms(2) [of namespace podName] by simp
qed

lemma reachable_invariant:
  "reachable w \<Longrightarrow>
     list_all coherent (diagnoses w)
     \<and> (\<forall>namespace podName. length (unfinishedFor (diagnoses w) namespace podName) \<le> 1)"
proof (induction rule: reachable.induct)
  case (start ps)
  show ?case
    by (simp add: unfinishedFor_def)
next
  case (watcherPass w env req)
  then show ?case
    using watcher_keeps_invariant [of w env req] by blast
next
  case (lifecyclePass w env req)
  then show ?case
    using lifecycle_keeps_invariant [of w env req] by blast
next
  case (podsChange w ps)
  then show ?case
    by simp
next
  case (requestsDeleted w keep)
  then have "list_all coherent (filter keep (diagnoses w))"
    by (simp add: list_all_iff)
  moreover from requestsDeleted
  have "length (unfinishedFor (filter keep (diagnoses w)) namespace podName) \<le> 1"
    for namespace podName
    using unfinishedFor_subset [of keep "diagnoses w" namespace podName]
    by (meson le_trans)
  ultimately show ?case
    by simp
qed

text \<open>
  C4. When the pod of the trigger is in the store and the requests of its namespace
  that name it hold one whose phase is neither \<open>Completed\<close> nor \<open>Failed\<close>, the pass of
  the Failure Detector leaves the state as it is: it creates nothing. In every state
  the two controllers can reach from a store without requests, whatever the order and
  number of their passes, every request names the namespace it lives in, and for
  every namespace and pod name at most one request has not reached a terminal phase.
\<close>

theorem at_most_one_unfinished_request:
  "(storedPod w req = Some pod
      \<and> list_ex (\<lambda>d. \<not> isTerminal d)
           (matchingRequests w (Namespace (PodMeta pod)) (Name (PodMeta pod)))
    \<longrightarrow> fst (PodWatcher_Reconcile env w req) = w)
   \<and> (reachable w \<longrightarrow>
        list_all coherent (diagnoses w)
        \<and> length (unfinishedFor (diagnoses w) namespace podName) \<le> 1
        \<and> length (filter (\<lambda>d. PodName (Spec d) = podName
                               \<and> TargetNamespace (Spec d) = namespace \<and> \<not> isTerminal d)
                     (diagnoses w)) \<le> 1)"
proof (intro conjI impI)
  assume "storedPod w req = Some pod
      \<and> list_ex (\<lambda>d. \<not> isTerminal d)
           (matchingRequests w (Namespace (PodMeta pod)) (Name (PodMeta pod)))"
  then show "fst (PodWatcher_Reconcile env w req) = w"
    using watcher_skips_when_unfinished by blast
next
  assume "reachable w"
  from reachable_invariant [OF this]
  show coherent: "list_all coherent (diagnoses w)"
    and one: "length (unfinishedFor (diagnoses w) namespace podName) \<le> 1"
    by simp_all
  have "filter (\<lambda>d. PodName (Spec d) = podName \<and> TargetNamespace (Spec d) = namespace
                     \<and> \<not> isTerminal d) (diagnoses w)
          = unfinishedFor (diagnoses w) namespace podName"
    unfolding unfinishedFor_def
    using coherent by (intro filter_cong) (auto simp: list_all_iff coherent_def)
  with one show "length (filter (\<lambda>d. PodName (Spec d) = podName
                               \<and> TargetNamespace (Spec d) = namespace \<and> \<not> isTerminal d)
                     (diagnoses w)) \<le> 1"
    by simp
qed

theorem at_most_one_unfinished_request_witness:
  "storedPod pendingWorld (''shop'', ''web'') = Some crashLoopPod
   \<and> matchingRequests pendingWorld ''shop'' ''web'' = [pendingRequest]
   \<and> \<not> isTerminal pendingRequest
   \<and> fst (PodWatcher_Reconcile quietEnv pendingWorld (''shop'', ''web'')) = pendingWorld
   \<and> reachable pendingWorld
   \<and> unfinishedFor (diagnoses pendingWorld) ''shop'' ''web'' = [pendingRequest]
   \<and> length (unfinishedFor (diagnoses pendingWorld) ''shop'' ''web'') \<le> 1"
proof -
  have pod: "storedPod pendingWorld (''shop'', ''web'') = Some crashLoopPod"
    by code_simp
  have place: "Namespace (PodMeta crashLoopPod) = ''shop''" "Name (PodMeta crashLoopPod) = ''web''"
    by (simp_all add: crashLoopPod_def webMeta_def)
  have matching: "matchingRequests pendingWorld ''shop'' ''web'' = [pendingRequest]"
    by code_simp
  have unfinished: "unfinishedFor (diagnoses pendingWorld) ''shop'' ''web'' = [pendingRequest]"
    by code_simp
  have "reachable startWorld"
    unfolding startWorld_def by (rule reachable.start)
  from reachable.watcherPass [OF this, of quietEnv "(''shop'', ''web'')"]
  have reached: "reachable pendingWorld"
    by (simp add: watcher_on_crashLoopPod)
  from at_most_one_unfinished_request [of pendingWorld "(''shop'', ''web'')" crashLoopPod quietEnv
      "''shop''" "''web''"]
    pod place matching open_pendingRequest reached unfinished
  show ?thesis
    by simp
qed

end
